theory Spec2Isabelle
  imports Complex_Main
begin

section \<open>Strings of the source language\<close>

text \<open>
  A source string is modelled by the list of its characters, one \<^typ>\<open>char\<close> per
  byte of its UTF-8 form. Character classes (white space, digits, letter case) are the
  ASCII ones: the non-ASCII white space that \<^verbatim>\<open>trim\<close> also removes and the case
  mapping of non-ASCII letters are outside the model.
\<close>

definition amp :: char where "amp = CHR ''&''"
definition lt :: char where "lt = CHR ''<''"
definition gt :: char where "gt = CHR ''>''"
definition dquote :: char where "dquote = CHR 0x22"
definition squote :: char where "squote = CHR 0x27"
definition newline :: char where "newline = CHR 0x0A"

definition isSpace :: "char \<Rightarrow> bool" where
  "isSpace c = ((of_char c :: nat) \<in> {9, 10, 11, 12, 13, 32})"

definition isDigit :: "char \<Rightarrow> bool" where
  "isDigit c = (48 \<le> (of_char c :: nat) \<and> (of_char c :: nat) \<le> 57)"

definition isUpper :: "char \<Rightarrow> bool" where
  "isUpper c = (65 \<le> (of_char c :: nat) \<and> (of_char c :: nat) \<le> 90)"

definition isHexDigit :: "char \<Rightarrow> bool" where
  "isHexDigit c =
     (isDigit c \<or> (65 \<le> (of_char c :: nat) \<and> (of_char c :: nat) \<le> 70)
                \<or> (97 \<le> (of_char c :: nat) \<and> (of_char c :: nat) \<le> 102))"

definition digitVal :: "char \<Rightarrow> nat" where
  "digitVal c = of_char c - 48"

definition digitChar :: "nat \<Rightarrow> char" where
  "digitChar d = char_of (48 + d)"

definition lowerChar :: "char \<Rightarrow> char" where
  "lowerChar c = (if isUpper c then char_of ((of_char c :: nat) + 32) else c)"

definition toLowerCase :: "string \<Rightarrow> string" where
  "toLowerCase s = map lowerChar s"

definition trim :: "string \<Rightarrow> string" where
  "trim s = rev (dropWhile isSpace (rev (dropWhile isSpace s)))"

definition startsWith :: "string \<Rightarrow> string \<Rightarrow> bool" where
  "startsWith p s = (take (length p) s = p)"

definition endsWith :: "string \<Rightarrow> string \<Rightarrow> bool" where
  "endsWith suf s = (length suf \<le> length s \<and> drop (length s - length suf) s = suf)"

text \<open>\<^verbatim>\<open>s.slice(0, -n)\<close>: the string without its last \<open>n\<close> characters.\<close>

definition dropLast :: "nat \<Rightarrow> string \<Rightarrow> string" where
  "dropLast n s = take (length s - n) s"

text \<open>\<^verbatim>\<open>s.includes(sub)\<close>.\<close>

fun includesStr :: "string \<Rightarrow> string \<Rightarrow> bool" where
  "includesStr sub [] = (sub = [])"
| "includesStr sub (c # cs) = (startsWith sub (c # cs) \<or> includesStr sub cs)"

text \<open>\<^verbatim>\<open>s.split(c)\<close> for a one-character separator: never the empty list.\<close>

fun splitOn :: "char \<Rightarrow> string \<Rightarrow> string list" where
  "splitOn sep [] = [[]]"
| "splitOn sep (c # cs) =
     (case splitOn sep cs of
        [] \<Rightarrow> (if c = sep then [[], []] else [[c]])
      | w # ws \<Rightarrow> (if c = sep then [] # w # ws else (c # w) # ws))"

text \<open>
  \<^verbatim>\<open>s.split(/(\n)/)\<close>: the capture group keeps every separator as an element of its own,
  so the pieces and the line feeds alternate.
\<close>

definition splitKeepNewline :: "string \<Rightarrow> string list" where
  "splitKeepNewline s =
     (case splitOn newline s of
        [] \<Rightarrow> []
      | w # ws \<Rightarrow> w # concat (map (\<lambda>piece. [[newline], piece]) ws))"

text \<open>\<^verbatim>\<open>str.replace(/c/g, rep)\<close> for a one-character pattern: every occurrence, left to right.\<close>

definition replaceAll :: "char \<Rightarrow> string \<Rightarrow> string \<Rightarrow> string" where
  "replaceAll c rep str = concat (map (\<lambda>x. if x = c then rep else [x]) str)"

text \<open>\<^verbatim>\<open>parts.join(sep)\<close>.\<close>

fun joinWith :: "string \<Rightarrow> string list \<Rightarrow> string" where
  "joinWith sep [] = []"
| "joinWith sep [x] = x"
| "joinWith sep (x # y # ys) = x @ sep @ joinWith sep (y # ys)"

text \<open>Decimal rendering of a natural number, as a template literal prints an index.\<close>

fun showNat :: "nat \<Rightarrow> string" where
  "showNat n = (if n < 10 then [digitChar n] else showNat (n div 10) @ [digitChar (n mod 10)])"

declare showNat.simps [simp del]

definition digitsToNat :: "string \<Rightarrow> nat" where
  "digitsToNat ds = foldl (\<lambda>n c. 10 * n + digitVal c) 0 ds"

section \<open>Numbers of the source language\<close>

text \<open>
  A source number is \<open>NaN\<close>, an infinity, or a finite value. Finite values are kept as
  exact rationals: the range of the double format is modelled (a magnitude beyond the
  largest double becomes an infinity, one below the smallest becomes zero), the rounding of
  the 53-bit mantissa is not. Every statement below about numbers is either about the
  guards (sign, finiteness), which rounding does not change, or evaluates the code at
  inputs whose double arithmetic is exact.
\<close>

datatype jsnum = NaN | PosInf | NegInf | Fin rat

definition toNumber :: "rat \<Rightarrow> jsnum" where
  "toNumber r =
     (if 2 ^ 1024 - 2 ^ 970 \<le> r then PosInf
      else if r \<le> - (2 ^ 1024 - 2 ^ 970) then NegInf
      else if \<bar>r\<bar> \<le> 1 / 2 ^ 1075 then Fin 0
      else Fin r)"

definition isFinite :: "jsnum \<Rightarrow> bool" where
  "isFinite x = (case x of Fin r \<Rightarrow> True | _ \<Rightarrow> False)"

definition isNaN :: "jsnum \<Rightarrow> bool" where
  "isNaN x = (case x of NaN \<Rightarrow> True | _ \<Rightarrow> False)"

text \<open>\<^verbatim>\<open>x <= 0\<close> and \<^verbatim>\<open>x > 0\<close>; both are false for \<open>NaN\<close>.\<close>

definition leZero :: "jsnum \<Rightarrow> bool" where
  "leZero x = (case x of Fin r \<Rightarrow> r \<le> 0 | NegInf \<Rightarrow> True | _ \<Rightarrow> False)"

definition gtZero :: "jsnum \<Rightarrow> bool" where
  "gtZero x = (case x of Fin r \<Rightarrow> 0 < r | PosInf \<Rightarrow> True | _ \<Rightarrow> False)"

text \<open>\<^verbatim>\<open>x >= c\<close> for a finite constant \<open>c\<close>.\<close>

definition geConst :: "jsnum \<Rightarrow> rat \<Rightarrow> bool" where
  "geConst x c = (case x of Fin r \<Rightarrow> c \<le> r | PosInf \<Rightarrow> True | _ \<Rightarrow> False)"

text \<open>\<^verbatim>\<open>x * c\<close> and \<^verbatim>\<open>x / c\<close> for a finite constant \<open>c > 0\<close>.\<close>

definition timesConst :: "jsnum \<Rightarrow> rat \<Rightarrow> jsnum" where
  "timesConst x c = (case x of Fin r \<Rightarrow> toNumber (r * c) | y \<Rightarrow> y)"

definition divConst :: "jsnum \<Rightarrow> rat \<Rightarrow> jsnum" where
  "divConst x c = (case x of Fin r \<Rightarrow> toNumber (r / c) | y \<Rightarrow> y)"

text \<open>\<^verbatim>\<open>Math.max(lo, Math.min(x, hi))\<close> for finite constants; \<open>NaN\<close> stays \<open>NaN\<close>.\<close>

definition clampConst :: "rat \<Rightarrow> rat \<Rightarrow> jsnum \<Rightarrow> jsnum" where
  "clampConst lo hi x =
     (case x of
        NaN \<Rightarrow> NaN
      | PosInf \<Rightarrow> Fin (max lo hi)
      | NegInf \<Rightarrow> Fin lo
      | Fin r \<Rightarrow> Fin (max lo (min r hi)))"

text \<open>\<^verbatim>\<open>Math.round\<close>: the nearest integer, a tie going up.\<close>

definition mathRound :: "jsnum \<Rightarrow> jsnum" where
  "mathRound x = (case x of Fin r \<Rightarrow> Fin (of_int \<lfloor>r + 1 / 2\<rfloor>) | y \<Rightarrow> y)"

definition isInteger :: "jsnum \<Rightarrow> bool" where
  "isInteger x = (case x of Fin r \<Rightarrow> of_int \<lfloor>r\<rfloor> = r | _ \<Rightarrow> False)"

subsection \<open>Reading numbers\<close>

text \<open>The optional exponent of a decimal literal: its value and nothing else is consumed.\<close>

definition exponentPart :: "string \<Rightarrow> int \<times> string" where
  "exponentPart s =
     (case s of
        [] \<Rightarrow> (0, s)
      | c # r \<Rightarrow>
          if c = CHR ''e'' \<or> c = CHR ''E'' then
            (let neg = (r \<noteq> [] \<and> hd r = CHR ''-'');
                 r1 = (if r \<noteq> [] \<and> (hd r = CHR ''-'' \<or> hd r = CHR ''+'') then tl r else r);
                 ds = takeWhile isDigit r1
             in if ds = [] then (0, s)
                else ((if neg then - int (digitsToNat ds) else int (digitsToNat ds)),
                      dropWhile isDigit r1))
          else (0, s))"

definition pow10 :: "int \<Rightarrow> rat" where
  "pow10 e = (if 0 \<le> e then 10 ^ nat e else 1 / 10 ^ nat (- e))"

text \<open>
  The longest prefix that is a decimal literal, after leading white space: the number it
  denotes and the rest of the string. \<open>NaN\<close> when there is no such prefix.
\<close>

definition readDecimal :: "string \<Rightarrow> jsnum \<times> string" where
  "readDecimal input =
     (let s = dropWhile isSpace input;
          neg = (s \<noteq> [] \<and> hd s = CHR ''-'');
          s1 = (if s \<noteq> [] \<and> (hd s = CHR ''-'' \<or> hd s = CHR ''+'') then tl s else s)
      in if startsWith ''Infinity'' s1 then ((if neg then NegInf else PosInf), drop 8 s1)
         else
           (let ip = takeWhile isDigit s1;
                r1 = dropWhile isDigit s1;
                hasDot = (r1 \<noteq> [] \<and> hd r1 = CHR ''.'');
                fp = (if hasDot then takeWhile isDigit (tl r1) else []);
                r2 = (if hasDot then dropWhile isDigit (tl r1) else r1)
            in if ip = [] \<and> fp = [] then (NaN, input)
               else
                 (let (e, r3) = exponentPart r2;
                      m = of_nat (digitsToNat (ip @ fp)) / 10 ^ length fp * pow10 e
                  in (toNumber (if neg then - m else m), r3))))"

definition parseFloat :: "string \<Rightarrow> jsnum" where
  "parseFloat s = fst (readDecimal s)"

text \<open>
  \<^verbatim>\<open>Number(s)\<close> on the strings \<^verbatim>\<open>toFixed\<close> produces: the whole string has to be the
  literal.
\<close>

definition stringToNumber :: "string \<Rightarrow> jsnum" where
  "stringToNumber s =
     (if trim s = [] then Fin 0
      else (case readDecimal s of (v, rest) \<Rightarrow> if trim rest = [] then v else NaN))"

text \<open>\<^verbatim>\<open>parseInt(s, 10)\<close>: sign and digits after leading white space.\<close>

definition parseInt :: "string \<Rightarrow> jsnum" where
  "parseInt input =
     (let s = dropWhile isSpace input;
          neg = (s \<noteq> [] \<and> hd s = CHR ''-'');
          s1 = (if s \<noteq> [] \<and> (hd s = CHR ''-'' \<or> hd s = CHR ''+'') then tl s else s);
          ds = takeWhile isDigit s1
      in if ds = [] then NaN
         else toNumber (if neg then - of_nat (digitsToNat ds) else of_nat (digitsToNat ds)))"

subsection \<open>Printing numbers\<close>

text \<open>The digits of \<open>n\<close>, padded on the left with zeros to at least \<open>w\<close> digits.\<close>

definition padDigits :: "nat \<Rightarrow> nat \<Rightarrow> string" where
  "padDigits w n = replicate (w - length (showNat n)) (CHR ''0'') @ showNat n"

text \<open>
  The least \<open>j\<close> (searched up to the fuel) with \<open>a * 10 ^ j\<close> an integer: the number of
  decimals of a terminating decimal.
\<close>

fun decimals :: "nat \<Rightarrow> rat \<Rightarrow> nat \<Rightarrow> nat" where
  "decimals 0 a j = j"
| "decimals (Suc fuel) a j =
     (if of_int \<lfloor>a * 10 ^ j\<rfloor> = a * 10 ^ j then j else decimals fuel a (Suc j))"

definition stripZeros :: "string \<Rightarrow> string" where
  "stripZeros ds = rev (dropWhile (\<lambda>c. c = CHR ''0'') (rev ds))"

text \<open>
  \<^verbatim>\<open>Number.prototype.toString\<close> on the exact value: with \<open>n\<close> the position of the decimal
  point among the significant digits, plain notation for \<open>-6 < n \<le> 21\<close> and exponent
  notation otherwise.
\<close>

definition positiveToString :: "rat \<Rightarrow> string" where
  "positiveToString a =
     (let j = decimals 1100 a 0;
          whole = showNat (nat \<lfloor>a * 10 ^ j\<rfloor>);
          ds = stripZeros whole;
          k = length ds;
          n = int (length whole) - int j
      in if int k \<le> n \<and> n \<le> 21 then ds @ replicate (nat n - k) (CHR ''0'')
         else if 0 < n \<and> n \<le> 21 then take (nat n) ds @ ''.'' @ drop (nat n) ds
         else if - 6 < n \<and> n \<le> 0 then ''0.'' @ replicate (nat (- n)) (CHR ''0'') @ ds
         else
           (let e = n - 1;
                ex = (if 0 \<le> e then ''e+'' @ showNat (nat e) else ''e-'' @ showNat (nat (- e)))
            in if k = 1 then ds @ ex else take 1 ds @ ''.'' @ drop 1 ds @ ex))"

definition numberToString :: "jsnum \<Rightarrow> string" where
  "numberToString x =
     (case x of
        NaN \<Rightarrow> ''NaN''
      | PosInf \<Rightarrow> ''Infinity''
      | NegInf \<Rightarrow> ''-Infinity''
      | Fin r \<Rightarrow>
          if r = 0 then ''0''
          else if r < 0 then ''-'' @ positiveToString (- r)
          else positiveToString r)"

text \<open>
  \<^verbatim>\<open>x.toFixed(k)\<close>: the integer nearest to \<open>|x| * 10 ^ k\<close> (a tie going up), printed with
  \<open>k\<close> decimals; from \<open>10 ^ 21\<close> on it is \<^verbatim>\<open>toString\<close>.
\<close>

definition toFixed :: "nat \<Rightarrow> jsnum \<Rightarrow> string" where
  "toFixed k x =
     (case x of
        Fin r \<Rightarrow>
          if 10 ^ 21 \<le> \<bar>r\<bar> then numberToString x
          else
            (let ds = padDigits (Suc k) (nat \<lfloor>\<bar>r\<bar> * 10 ^ k + 1 / 2\<rfloor>);
                 whole = take (length ds - k) ds;
                 frac = drop (length ds - k) ds
             in (if r < 0 then ''-'' else '''') @ whole @ (if k = 0 then '''' else ''.'' @ frac))
      | _ \<Rightarrow> numberToString x)"

section \<open>Truthiness and ordered maps\<close>

text \<open>
  An optional field is an \<^typ>\<open>'a option\<close>, \<open>None\<close> for \<^verbatim>\<open>undefined\<close>. A condition on
  such a field tests its truthiness: an absent field, \<^verbatim>\<open>false\<close>, the empty string, zero
  and \<open>NaN\<close> are falsy.
\<close>

definition truthyStr :: "string option \<Rightarrow> bool" where
  "truthyStr v = (case v of None \<Rightarrow> False | Some s \<Rightarrow> s \<noteq> [])"

definition truthyBool :: "bool option \<Rightarrow> bool" where
  "truthyBool v = (case v of None \<Rightarrow> False | Some b \<Rightarrow> b)"

definition truthyNat :: "nat option \<Rightarrow> bool" where
  "truthyNat v = (case v of None \<Rightarrow> False | Some n \<Rightarrow> n \<noteq> 0)"

definition truthyNum :: "jsnum option \<Rightarrow> bool" where
  "truthyNum v = (case v of None \<Rightarrow> False | Some NaN \<Rightarrow> False | Some (Fin r) \<Rightarrow> r \<noteq> 0 | Some _ \<Rightarrow> True)"

text \<open>
  A \<^verbatim>\<open>Map\<close> keeps its entries in insertion order: it is a list of key-value pairs with
  distinct keys. \<^verbatim>\<open>get\<close> is \<^const>\<open>map_of\<close>, \<^verbatim>\<open>size\<close> is \<^const>\<open>length\<close>, \<^verbatim>\<open>values()\<close>
  is \<^term>\<open>map snd\<close>, and \<^verbatim>\<open>set\<close> replaces the value of a present key in place and
  appends an absent one.
\<close>

fun mapSet :: "('k \<times> 'v) list \<Rightarrow> 'k \<Rightarrow> 'v \<Rightarrow> ('k \<times> 'v) list" where
  "mapSet [] k v = [(k, v)]"
| "mapSet ((k', v') # m) k v = (if k' = k then (k, v) # m else (k', v') # mapSet m k v)"

text \<open>
  \<^verbatim>\<open>xs.map(x => f(x, styles))\<close> where \<open>f\<close> updates the registry it is handed: the elements
  are visited left to right and each call sees the registry the previous one left.
\<close>

fun mapState :: "('a \<Rightarrow> 's \<Rightarrow> 'b \<times> 's) \<Rightarrow> 'a list \<Rightarrow> 's \<Rightarrow> 'b list \<times> 's" where
  "mapState f [] s = ([], s)"
| "mapState f (x # xs) s =
     (case f x s of (y, s1) \<Rightarrow> (case mapState f xs s1 of (ys, s2) \<Rightarrow> (y # ys, s2)))"

section \<open>types.ts\<close>

text \<open>
  The formatting fields of a span are a record of their own, which \<open>TextSpan\<close> extends by
  the text: the exporter's \<open>SpanStyle\<close> is \<open>TextSpan\<close> without \<open>text\<close>. The renderer also
  reads an undeclared \<open>attributes\<close> object of a span, absent unless a producer adds it.
\<close>

record SpanStyle =
  bold :: "bool option"
  italic :: "bool option"
  underline :: "bool option"
  color :: "string option"
  fontSize :: "string option"
  fontFamily :: "string option"

record TextSpan = SpanStyle +
  spanText :: string
  attributes :: "(string \<times> string) list option"

datatype align = AlignStart | AlignCenter | AlignEnd | AlignJustify

fun alignName :: "align \<Rightarrow> string" where
  "alignName AlignStart = ''start''"
| "alignName AlignCenter = ''center''"
| "alignName AlignEnd = ''end''"
| "alignName AlignJustify = ''justify''"

record ParagraphLayout =
  lineHeight :: "string option"
  marginTop :: "string option"
  marginBottom :: "string option"
  marginLeft :: "string option"
  marginRight :: "string option"
  textIndent :: "string option"

record ParagraphStyleProps = ParagraphLayout +
  align :: "align option"

record Paragraph = ParagraphStyleProps +
  spans :: "TextSpan list"

text \<open>\<open>colSpan\<close> and \<open>rowSpan\<close> are counts: natural numbers, zero being falsy.\<close>

record TableCell =
  paragraphs :: "Paragraph list"
  colSpan :: "nat option"
  rowSpan :: "nat option"
  backgroundColor :: "string option"

record TableRow =
  cells :: "TableCell list"

record Table =
  rows :: "TableRow list"
  widthPct :: "jsnum option"
  widthCm :: "string option"
  columnWidths :: "string option list option"

text \<open>
  A block is a paragraph or a table; the renderer has a branch for a block of any other
  type (the exporter emits page breaks), kept as \<open>OtherBlock\<close> with its type tag.
\<close>

datatype OdtBlock = ParagraphBlock Paragraph | TableBlock Table | OtherBlock string

record OdtMeta =
  title :: "string option"
  creator :: "string option"

record OdtStyles =
  bodyFont :: "string option"

record OdtDoc =
  meta :: OdtMeta
  styles :: OdtStyles
  body :: "OdtBlock list"

section \<open>styleMap.ts\<close>

text \<open>
  \<open>FONT_FAMILY_MAP\<close> is a plain object, and \<^verbatim>\<open>FONT_FAMILY_MAP[k]\<close> also finds what the
  object inherits from \<^verbatim>\<open>Object.prototype\<close>: under \<^verbatim>\<open>constructor\<close> the function \<^verbatim>\<open>Object\<close>,
  under \<^verbatim>\<open>__proto__\<close> the prototype itself, and under the name of each of its methods that
  method. The renderer only tests the value it finds against \<^verbatim>\<open>undefined\<close> and prints it
  in a template literal, so the value is modelled by the text printed: for a built-in
  function the text \<^verbatim>\<open>function f() { [native code] }\<close> (the white space inside is the
  engine's choice; this is the form of V8), for the prototype \<^verbatim>\<open>[object Object]\<close>.
\<close>

definition objectPrototypeMethods :: "string list" where
  "objectPrototypeMethods =
     [''hasOwnProperty'', ''isPrototypeOf'', ''propertyIsEnumerable'', ''toLocaleString'',
      ''toString'', ''valueOf'', ''__defineGetter__'', ''__defineSetter__'',
      ''__lookupGetter__'', ''__lookupSetter__'']"

definition nativeFunctionText :: "string \<Rightarrow> string" where
  "nativeFunctionText f = ''function '' @ f @ ''() { [native code] }''"

definition objectPrototypeMember :: "string \<Rightarrow> string option" where
  "objectPrototypeMember k =
     (if k = ''constructor'' then Some (nativeFunctionText ''Object'')
      else if k = ''__proto__'' then Some ''[object Object]''
      else if k \<in> set objectPrototypeMethods then Some (nativeFunctionText k)
      else None)"

definition FONT_FAMILY_MAP :: "string \<Rightarrow> string option" where
  "FONT_FAMILY_MAP k =
     (if k = ''body'' then Some ''T_Body''
      else if k = ''serif'' then Some ''T_Serif''
      else if k = ''gungsuh'' then Some ''T_Gungsuh''
      else objectPrototypeMember k)"

section \<open>odtTemplates.ts\<close>

definition escapeXml :: "string \<Rightarrow> string" where
  "escapeXml str =
     replaceAll squote ''&apos;''
       (replaceAll dquote ''&quot;''
         (replaceAll gt ''&gt;''
           (replaceAll lt ''&lt;''
             (replaceAll amp ''&amp;'' str))))"

definition fontFaceDecls :: "string" where
  \<open>fontFaceDecls =
     ''\<newline>'' @
     ''  <office:font-face-decls>\<newline>'' @
     ''    <style:font-face \<newline>'' @
     ''      style:name="BodyFont" \<newline>'' @
     ''      svg:font-family="'' @ [squote] @ ''Malgun Gothic'' @ [squote] @ '','' @ [squote] @
     ''Nanum Gothic'' @ [squote] @ '','' @ [squote] @ ''Apple SD Gothic Neo'' @ [squote] @
     '','' @ [squote] @ ''Segoe UI Emoji'' @ [squote] @ '','' @ [squote] @
     ''Apple Color Emoji'' @ [squote] @ '','' @ [squote] @ ''Noto Color Emoji'' @ [squote] @
     '',Arial" \<newline>'' @
     ''      style:font-family-generic="system" \<newline>'' @
     ''      style:font-pitch="variable"\<newline>'' @
     ''    />\<newline>'' @
     ''    <style:font-face \<newline>'' @
     ''      style:name="EmojiFont" \<newline>'' @
     ''      svg:font-family="'' @ [squote] @ ''Segoe UI Emoji'' @ [squote] @ '','' @ [squote] @
     ''Apple Color Emoji'' @ [squote] @ '','' @ [squote] @ ''Noto Color Emoji'' @ [squote] @
     ''" \<newline>'' @
     ''      style:font-family-generic="system" \<newline>'' @
     ''      style:font-pitch="variable"\<newline>'' @
     ''    />\<newline>'' @
     ''\<newline>'' @
     ''    <!-- '' @ [CHR 0xE2, CHR 0x9C, CHR 0x85, CHR 0xE2, CHR 0x9C, CHR 0x85] @ '' '' @
     [CHR 0xEA, CHR 0xB6, CHR 0x81, CHR 0xEC, CHR 0x84, CHR 0x9C, CHR 0xEC, CHR 0xB2, CHR 0xB4] @
     '' '' @ [CHR 0xED, CHR 0x8F, CHR 0xB0, CHR 0xED, CHR 0x8A, CHR 0xB8] @ '' '' @
     [CHR 0xEC, CHR 0x84, CHR 0xA0, CHR 0xEC, CHR 0x96, CHR 0xB8] @ '' '' @
     [CHR 0xEC, CHR 0xB6, CHR 0x94, CHR 0xEA, CHR 0xB0, CHR 0x80] @ '' -->\<newline>'' @
     ''    <style:font-face \<newline>'' @
     ''      style:name="GungsuhFont"\<newline>'' @
     ''      svg:font-family="'' @ [squote] @ ''Gungsuh'' @ [squote] @ '','' @
     [squote, CHR 0xEA, CHR 0xB6, CHR 0x81, CHR 0xEC, CHR 0x84, CHR 0x9C, squote] @ '','' @
     [squote] @ ''GungsuhChe'' @ [squote] @ '','' @
     [squote, CHR 0xEA, CHR 0xB6, CHR 0x81, CHR 0xEC, CHR 0x84, CHR 0x9C, CHR 0xEC, CHR 0xB2] @
     [CHR 0xB4, squote] @ ''"\<newline>'' @
     ''    />\<newline>'' @
     ''  </office:font-face-decls>''\<close>

definition pageLayout :: "string" where
  \<open>pageLayout =
     ''\<newline>'' @
     ''  <style:page-layout style:name="PageLayout">\<newline>'' @
     ''    <style:page-layout-properties \<newline>'' @
     ''      fo:page-width="21cm" fo:page-height="29.7cm"\<newline>'' @
     ''      fo:margin-top="2cm" fo:margin-bottom="2cm"\<newline>'' @
     ''      fo:margin-left="2cm" fo:margin-right="2cm"\<newline>'' @
     ''    />\<newline>'' @
     ''  </style:page-layout>\<newline>'' @
     ''  <style:master-page style:name="Standard" style:page-layout-name="PageLayou'' @
     ''t"/>''\<close>

definition odfDocumentContent :: "string \<Rightarrow> string \<Rightarrow> string" where
  \<open>odfDocumentContent contentInnerXml automaticStylesInner =
     ''<?xml version="1.0" encoding="UTF-8"?>\<newline>'' @
     ''<office:document-content xmlns:office="urn:oasis:names:tc:opendocument:xmlns'' @
     '':office:1.0"\<newline>'' @
     ''  xmlns:text="urn:oasis:names:tc:opendocument:xmlns:text:1.0"\<newline>'' @
     ''  xmlns:style="urn:oasis:names:tc:opendocument:xmlns:style:1.0"\<newline>'' @
     ''  xmlns:table="urn:oasis:names:tc:opendocument:xmlns:table:1.0"\<newline>'' @
     ''  xmlns:fo="urn:oasis:names:tc:opendocument:xmlns:xsl-fo-compatible:1.0"'' @
     ''\<newline>'' @
     ''  xmlns:svg="urn:oasis:names:tc:opendocument:xmlns:svg-compatible:1.0"'' @
     ''\<newline>'' @
     ''  office:version="1.4">\<newline>'' @
     ''\<newline>'' @
     ''  '' @
     fontFaceDecls @
     ''\<newline>'' @
     ''\<newline>'' @
     ''  <office:automatic-styles>\<newline>'' @
     ''\<newline>'' @
     ''    '' @
     pageLayout @
     ''\<newline>'' @
     ''\<newline>'' @
     ''    <!-- '' @ [CHR 0xE2, CHR 0x9C, CHR 0x85, CHR 0xE2, CHR 0x9C, CHR 0x85] @ '' '' @
     [CHR 0xEC, CHR 0x97, CHR 0xAC, CHR 0xEA, CHR 0xB8, CHR 0xB0, CHR 0xEC, CHR 0x97, CHR 0x90] @
     '' '' @ [CHR 0xEC, CHR 0x9E, CHR 0x90, CHR 0xEB, CHR 0x8F, CHR 0x99] @ '' '' @
     [CHR 0xED, CHR 0x85, CHR 0x8D, CHR 0xEC, CHR 0x8A, CHR 0xA4, CHR 0xED, CHR 0x8A, CHR 0xB8] @
     '' '' @
     [CHR 0xEC, CHR 0x8A, CHR 0xA4, CHR 0xED, CHR 0x83, CHR 0x80, CHR 0xEC, CHR 0x9D, CHR 0xBC] @
     ''(T_Gungsuh)'' @ [CHR 0xEC, CHR 0x9D, CHR 0x84] @ '' '' @
     [CHR 0xEB, CHR 0x84, CHR 0xA3, CHR 0xEC, CHR 0x96, CHR 0xB4, CHR 0xEC, CHR 0x95, CHR 0xBC] @
     '' '' @ [CHR 0xED, CHR 0x95, CHR 0xA8] @ '' -->\<newline>'' @
     ''    <style:style style:name="T_Gungsuh" style:family="text">\<newline>'' @
     ''      <style:text-properties style:font-name="GungsuhFont"/>\<newline>'' @
     ''    </style:style>\<newline>'' @
     ''\<newline>'' @
     ''    <!-- '' @ [CHR 0xEA, CHR 0xB8, CHR 0xB0, CHR 0xEC, CHR 0xA1, CHR 0xB4] @ '' '' @
     [CHR 0xEC, CHR 0x83, CHR 0x9D, CHR 0xEC, CHR 0x84, CHR 0xB1, CHR 0xEB, CHR 0x90, CHR 0x9C] @
     '' '' @ [CHR 0xEC, CHR 0x9E, CHR 0x90, CHR 0xEB, CHR 0x8F, CHR 0x99] @ '' '' @
     [CHR 0xEC, CHR 0x8A, CHR 0xA4, CHR 0xED, CHR 0x83, CHR 0x80, CHR 0xEC, CHR 0x9D, CHR 0xBC] @
     [CHR 0xEB, CHR 0x93, CHR 0xA4] @ '' -->\<newline>'' @
     ''    '' @
     automaticStylesInner @
     ''\<newline>'' @
     ''\<newline>'' @
     ''  </office:automatic-styles>\<newline>'' @
     ''\<newline>'' @
     ''  <office:body>\<newline>'' @
     ''    <office:text>\<newline>'' @
     ''      '' @
     contentInnerXml @
     ''\<newline>'' @
     ''    </office:text>\<newline>'' @
     ''  </office:body>\<newline>'' @
     ''\<newline>'' @
     ''</office:document-content>''\<close>

definition odfStylesXml :: "string" where
  \<open>odfStylesXml =
     ''<?xml version="1.0" encoding="UTF-8"?>\<newline>'' @
     ''<office:document-styles \<newline>'' @
     ''  xmlns:office="urn:oasis:names:tc:opendocument:xmlns:office:1.0"\<newline>'' @
     ''  xmlns:style="urn:oasis:names:tc:opendocument:xmlns:style:1.0"\<newline>'' @
     ''  xmlns:text="urn:oasis:names:tc:opendocument:xmlns:text:1.0"\<newline>'' @
     ''  xmlns:fo="urn:oasis:names:tc:opendocument:xmlns:xsl-fo-compatible:1.0"'' @
     ''\<newline>'' @
     ''  xmlns:svg="urn:oasis:names:tc:opendocument:xmlns:svg-compatible:1.0"'' @
     ''\<newline>'' @
     ''  office:version="1.4">\<newline>'' @
     ''\<newline>'' @
     ''  <office:styles>\<newline>'' @
     ''    <style:default-style style:family="paragraph">\<newline>'' @
     ''      <style:paragraph-properties \<newline>'' @
     ''        fo:margin-top="0cm" \<newline>'' @
     ''        fo:margin-bottom="0cm"\<newline>'' @
     ''        fo:line-height="140%" \<newline>'' @
     ''        fo:text-indent="0cm"\<newline>'' @
     ''      />\<newline>'' @
     ''      <style:text-properties \<newline>'' @
     ''        style:font-name="BodyFont" \<newline>'' @
     ''        fo:font-size="12pt"\<newline>'' @
     ''      />\<newline>'' @
     ''    </style:default-style>\<newline>'' @
     ''\<newline>'' @
     ''    <style:default-style style:family="text">\<newline>'' @
     ''      <style:text-properties \<newline>'' @
     ''        style:font-name="BodyFont" \<newline>'' @
     ''        fo:font-size="12pt"\<newline>'' @
     ''      />\<newline>'' @
     ''    </style:default-style>\<newline>'' @
     ''  </office:styles>\<newline>'' @
     ''\<newline>'' @
     ''</office:document-styles>''\<close>

text \<open>
  The creation date is the time of the call, \<^verbatim>\<open>new Date().toISOString()\<close>: the parameter
  \<open>now\<close>.
\<close>

definition odfMetaXml :: "string option \<Rightarrow> string option \<Rightarrow> string \<Rightarrow> string" where
  \<open>odfMetaXml docTitle docCreator now =
     ''<?xml version="1.0" encoding="UTF-8"?>\<newline>'' @
     ''<office:document-meta \<newline>'' @
     ''  xmlns:office="urn:oasis:names:tc:opendocument:xmlns:office:1.0"\<newline>'' @
     ''  xmlns:dc="http://purl.org/dc/elements/1.1/"\<newline>'' @
     ''  xmlns:meta="urn:oasis:names:tc:opendocument:xmlns:meta:1.0"\<newline>'' @
     ''  office:version="1.4">\<newline>'' @
     ''\<newline>'' @
     ''  <office:meta>\<newline>'' @
     ''    '' @
     (case docTitle of None \<Rightarrow> ''''
      | Some t \<Rightarrow> if t \<noteq> [] then ''<dc:title>'' @ escapeXml t @ ''</dc:title>'' else '''') @
     ''\<newline>'' @
     ''    '' @
     (case docCreator of None \<Rightarrow> ''''
      | Some c \<Rightarrow> if c \<noteq> [] then ''<dc:creator>'' @ escapeXml c @ ''</dc:creator>'' else '''') @
     ''\<newline>'' @
     ''    <meta:creation-date>'' @
     now @
     ''</meta:creation-date>\<newline>'' @
     ''  </office:meta>\<newline>'' @
     ''\<newline>'' @
     ''</office:document-meta>''\<close>

definition odfSettingsXml :: "string" where
  \<open>odfSettingsXml =
     ''<?xml version="1.0" encoding="UTF-8"?>\<newline>'' @
     ''<office:document-settings \<newline>'' @
     ''  xmlns:office="urn:oasis:names:tc:opendocument:xmlns:office:1.0"\<newline>'' @
     ''  xmlns:config="urn:oasis:names:tc:opendocument:xmlns:config:1.0"\<newline>'' @
     ''  office:version="1.4">\<newline>'' @
     ''\<newline>'' @
     ''  <office:settings>\<newline>'' @
     ''    <config:config-item-set config:name="ooo:view-settings">\<newline>'' @
     ''      <config:config-item config:name="ZoomType" config:type="short">0</conf'' @
     ''ig:config-item>\<newline>'' @
     ''    </config:config-item-set>\<newline>'' @
     ''  </office:settings>\<newline>'' @
     ''\<newline>'' @
     ''</office:document-settings>''\<close>

definition odfManifestXml :: "string" where
  \<open>odfManifestXml =
     ''<?xml version="1.0" encoding="UTF-8"?>\<newline>'' @
     ''<manifest:manifest \<newline>'' @
     ''  xmlns:manifest="urn:oasis:names:tc:opendocument:xmlns:manifest:1.0" '' @
     ''\<newline>'' @
     ''  manifest:version="1.2">\<newline>'' @
     ''\<newline>'' @
     ''  <manifest:file-entry \<newline>'' @
     ''    manifest:media-type="application/vnd.oasis.opendocument.text" \<newline>'' @
     ''    manifest:full-path="/" \<newline>'' @
     ''  />\<newline>'' @
     ''  <manifest:file-entry manifest:media-type="text/xml" manifest:full-path="co'' @
     ''ntent.xml"/>\<newline>'' @
     ''  <manifest:file-entry manifest:media-type="text/xml" manifest:full-path="st'' @
     ''yles.xml"/>\<newline>'' @
     ''  <manifest:file-entry manifest:media-type="text/xml" manifest:full-path="me'' @
     ''ta.xml"/>\<newline>'' @
     ''  <manifest:file-entry manifest:media-type="text/xml" manifest:full-path="se'' @
     ''ttings.xml"/>\<newline>'' @
     ''</manifest:manifest>''\<close>

section \<open>odtBuilder.ts\<close>

subsection \<open>The style registry\<close>

text \<open>
  The registry is the object the render functions share and update; here each of its
  methods takes the registry and returns the result with the registry it leaves. An entry
  \<^verbatim>\<open>{ name, ... }\<close> of one of its maps is the pair of the name and the rest.
\<close>

record StyleRegistry =
  spanStyles :: "(string \<times> (string \<times> TextSpan)) list"
  tableColumnStyles :: "(string \<times> string) list"
  tableStyles :: "(string \<times> (string \<times> string option \<times> string option)) list"
  paragraphStyles :: "(string \<times> (string \<times> ParagraphStyleProps)) list"
  tableCellStyles :: "(string \<times> (string \<times> string)) list"

definition newStyleRegistry :: StyleRegistry where
  "newStyleRegistry =
     \<lparr>spanStyles = [], tableColumnStyles = [], tableStyles = [], paragraphStyles = [],
      tableCellStyles = []\<rparr>"

definition keyForSpan :: "TextSpan \<Rightarrow> string" where
  "keyForSpan sp =
     joinWith ''|''
       [(if truthyStr (fontFamily sp) then ''ff:'' @ the (fontFamily sp) else ''ff:''),
        (if truthyBool (bold sp) then ''b1'' else ''b0''),
        (if truthyBool (italic sp) then ''i1'' else ''i0''),
        (if truthyBool (underline sp) then ''u1'' else ''u0''),
        (if truthyStr (color sp) then ''c:'' @ the (color sp) else ''c:''),
        (if truthyStr (fontSize sp) then ''f:'' @ the (fontSize sp) else ''f:'')]"

definition getSpanStyle :: "TextSpan \<Rightarrow> StyleRegistry \<Rightarrow> string option \<times> StyleRegistry" where
  "getSpanStyle sp reg =
     (if truthyStr (fontFamily sp) then (None, reg)
      else
        (let hasFormatting =
               (truthyBool (bold sp) \<or> truthyBool (italic sp) \<or> truthyBool (underline sp)
                \<or> truthyStr (color sp) \<or> truthyStr (fontSize sp))
         in if \<not> hasFormatting then (None, reg)
            else
              (let key = keyForSpan sp
               in case map_of (spanStyles reg) key of
                    Some exist \<Rightarrow> (Some (fst exist), reg)
                  | None \<Rightarrow>
                      (let name = ''T'' @ showNat (length (spanStyles reg) + 1)
                       in (Some name,
                           reg\<lparr>spanStyles := mapSet (spanStyles reg) key (name, sp)\<rparr>)))))"

text \<open>
  \<^verbatim>\<open>JSON.stringify\<close> of a string, and of the properties object of a paragraph style, whose
  keys are in the order in which \<open>getParagraphStyle\<close> sets them.
\<close>

definition hexDigit :: "nat \<Rightarrow> char" where
  "hexDigit d = (if d < 10 then char_of (48 + d) else char_of (87 + d))"

definition jsonEscapeChar :: "char \<Rightarrow> string" where
  \<open>jsonEscapeChar c =
     (if c = dquote then [CHR 0x5C, dquote]
      else if c = CHR 0x5C then [CHR 0x5C, CHR 0x5C]
      else if c = CHR 0x08 then [CHR 0x5C, CHR ''b'']
      else if c = CHR 0x0C then [CHR 0x5C, CHR ''f'']
      else if c = CHR 0x0A then [CHR 0x5C, CHR ''n'']
      else if c = CHR 0x0D then [CHR 0x5C, CHR ''r'']
      else if c = CHR 0x09 then [CHR 0x5C, CHR ''t'']
      else if (of_char c :: nat) < 32
        then [CHR 0x5C, CHR ''u'', CHR ''0'', CHR ''0'', hexDigit (of_char c div 16),
              hexDigit (of_char c mod 16)]
      else [c])\<close>

definition jsonString :: "string \<Rightarrow> string" where
  "jsonString s = [dquote] @ concat (map jsonEscapeChar s) @ [dquote]"

definition jsonMember :: "string \<Rightarrow> string option \<Rightarrow> string list" where
  "jsonMember k v = (case v of None \<Rightarrow> [] | Some s \<Rightarrow> [jsonString k @ '':'' @ jsonString s])"

definition stringifyProps :: "ParagraphStyleProps \<Rightarrow> string" where
  "stringifyProps props =
     ''{'' @
     joinWith '',''
       (jsonMember ''align'' (map_option alignName (align props)) @
        jsonMember ''lineHeight'' (lineHeight props) @
        jsonMember ''marginTop'' (marginTop props) @
        jsonMember ''marginBottom'' (marginBottom props) @
        jsonMember ''marginLeft'' (marginLeft props) @
        jsonMember ''marginRight'' (marginRight props) @
        jsonMember ''textIndent'' (textIndent props)) @
     ''}''"

text \<open>\<^verbatim>\<open>if (p.f) props.f = p.f\<close>: the field is copied when it is truthy.\<close>

definition keepTruthy :: "string option \<Rightarrow> string option" where
  "keepTruthy v = (if truthyStr v then v else None)"

definition paragraphProps :: "'a ParagraphStyleProps_scheme \<Rightarrow> ParagraphStyleProps" where
  "paragraphProps p =
     \<lparr>lineHeight = keepTruthy (lineHeight p),
      marginTop = keepTruthy (marginTop p),
      marginBottom = keepTruthy (marginBottom p),
      marginLeft = keepTruthy (marginLeft p),
      marginRight = keepTruthy (marginRight p),
      textIndent = keepTruthy (textIndent p),
      align = (case align p of Some AlignStart \<Rightarrow> None | a \<Rightarrow> a)\<rparr>"

definition hasProps :: "ParagraphStyleProps \<Rightarrow> bool" where
  "hasProps props =
     (align props \<noteq> None \<or> lineHeight props \<noteq> None \<or> marginTop props \<noteq> None
      \<or> marginBottom props \<noteq> None \<or> marginLeft props \<noteq> None \<or> marginRight props \<noteq> None
      \<or> textIndent props \<noteq> None)"

definition getParagraphStyle :: "Paragraph \<Rightarrow> StyleRegistry \<Rightarrow> string option \<times> StyleRegistry" where
  "getParagraphStyle p reg =
     (let props = paragraphProps p
      in if \<not> hasProps props then (None, reg)
         else
           (let key = stringifyProps props
            in case map_of (paragraphStyles reg) key of
                 Some exist \<Rightarrow> (Some (fst exist), reg)
               | None \<Rightarrow>
                   (let name = ''PStyle'' @ showNat (length (paragraphStyles reg) + 1)
                    in (Some name,
                        reg\<lparr>paragraphStyles := mapSet (paragraphStyles reg) key (name, props)\<rparr>))))"

definition getTableColumnStyle :: "string option \<Rightarrow> StyleRegistry \<Rightarrow> string option \<times> StyleRegistry" where
  "getTableColumnStyle width reg =
     (let w = map_option trim width
      in if \<not> truthyStr w then (None, reg)
         else
           (case map_of (tableColumnStyles reg) (the w) of
              Some exist \<Rightarrow> (Some exist, reg)
            | None \<Rightarrow>
                (let styleName =
                       ''TableColumnCustom'' @ showNat (length (tableColumnStyles reg) + 1)
                 in (Some styleName,
                     reg\<lparr>tableColumnStyles :=
                           mapSet (tableColumnStyles reg) (the w) styleName\<rparr>))))"

text \<open>
  \<open>lengthStringToCm\<close> matches \<^verbatim>\<open>/^([\d.]+)\s*cm$/i\<close>: a non-empty run of digits and dots,
  white space, and \<open>cm\<close> in either case up to the end; the run is then read as a number.
\<close>

definition isDigitOrDot :: "char \<Rightarrow> bool" where
  "isDigitOrDot c = (isDigit c \<or> c = CHR ''.'')"

definition lengthStringToCm :: "string option \<Rightarrow> jsnum option" where
  "lengthStringToCm v =
     (if \<not> truthyStr v then None
      else
        (let m1 = takeWhile isDigitOrDot (the v);
             rest = dropWhile isSpace (dropWhile isDigitOrDot (the v))
         in if m1 = [] \<or> toLowerCase rest \<noteq> ''cm'' then None
            else
              (let n = parseFloat m1
               in if isFinite n \<and> gtZero n then Some n else None)))"

text \<open>Addition of two numbers that are finite and positive, as the widths summed below are.\<close>

definition plusNum :: "jsnum \<Rightarrow> jsnum \<Rightarrow> jsnum" where
  "plusNum a b =
     (case (a, b) of
        (Fin x, Fin y) \<Rightarrow> toNumber (x + y)
      | (NaN, _) \<Rightarrow> NaN
      | (_, NaN) \<Rightarrow> NaN
      | (PosInf, NegInf) \<Rightarrow> NaN
      | (NegInf, PosInf) \<Rightarrow> NaN
      | (Fin x, y) \<Rightarrow> y
      | (x, _) \<Rightarrow> x)"

definition computeAbsoluteWidth :: "string option list option \<Rightarrow> string option" where
  "computeAbsoluteWidth widths =
     (case widths of
        None \<Rightarrow> None
      | Some ws \<Rightarrow>
          if ws = [] then None
          else
            (let nums = List.map_filter lengthStringToCm ws
             in if nums = [] then None
                else Some (toFixed 4 (foldl plusNum (Fin 0) nums) @ ''cm'')))"

definition getTableStyle ::
  "jsnum option \<Rightarrow> string option list option \<Rightarrow> string option \<Rightarrow> StyleRegistry
     \<Rightarrow> string \<times> StyleRegistry" where
  "getTableStyle pct widths explicitWidthCm reg =
     (let absolute =
            (case explicitWidthCm of Some e \<Rightarrow> Some e | None \<Rightarrow> computeAbsoluteWidth widths);
          (key, widthAttr, rel) =
            (if truthyStr absolute then (''abs:'' @ the absolute, absolute, None)
             else if truthyNum pct then
               (let clamped = clampConst 1 1000 (the pct);
                    rel = toFixed 2 clamped @ ''%''
                in (''rel:'' @ rel, None, Some rel))
             else (''abs:17cm'', Some ''17cm'', None))
      in case map_of (tableStyles reg) key of
           Some exist \<Rightarrow> (fst exist, reg)
         | None \<Rightarrow>
             (let name = ''TableCustom'' @ showNat (length (tableStyles reg) + 1)
              in (name, reg\<lparr>tableStyles := mapSet (tableStyles reg) key (name, widthAttr, rel)\<rparr>)))"

definition getTableCellStyle :: "string option \<Rightarrow> StyleRegistry \<Rightarrow> string option \<times> StyleRegistry" where
  "getTableCellStyle bg reg =
     (let b = map_option trim bg
      in if \<not> truthyStr b then (None, reg)
         else
           (case map_of (tableCellStyles reg) (the b) of
              Some exist \<Rightarrow> (Some (fst exist), reg)
            | None \<Rightarrow>
                (let name = ''TableCellCustom'' @ showNat (length (tableCellStyles reg) + 1)
                 in (Some name,
                     reg\<lparr>tableCellStyles := mapSet (tableCellStyles reg) (the b) (name, the b)\<rparr>))))"

subsection \<open>Rendering the automatic styles\<close>

definition automaticStylesBase :: "string" where
  \<open>automaticStylesBase =
     ''\<newline>'' @
     ''    <style:style style:name="P" style:family="paragraph">\<newline>'' @
     ''      <style:paragraph-properties fo:margin-top="0cm" fo:margin-bottom="0.42'' @
     ''cm" fo:line-height="160%"/>\<newline>'' @
     ''      <style:text-properties style:font-name="BodyFont" fo:font-size="12pt"/'' @
     ''>\<newline>'' @
     ''    </style:style>\<newline>'' @
     ''\<newline>'' @
     ''    <style:style style:name="T" style:family="text">\<newline>'' @
     ''      <style:text-properties style:font-name="BodyFont" fo:font-size="12pt"/'' @
     ''>\<newline>'' @
     ''    </style:style>\<newline>'' @
     ''\<newline>'' @
     ''    <style:style style:name="Table" style:family="table">\<newline>'' @
     ''      <style:table-properties table:align="left" table:border-model="collaps'' @
     ''ing"/>\<newline>'' @
     ''    </style:style>\<newline>'' @
     ''\<newline>'' @
     ''    <style:style style:name="TableColumn" style:family="table-column">'' @
     ''\<newline>'' @
     ''      <style:table-column-properties/>\<newline>'' @
     ''    </style:style>\<newline>'' @
     ''\<newline>'' @
     ''    <style:style style:name="TableRow" style:family="table-row">\<newline>'' @
     ''      <style:table-row-properties/>\<newline>'' @
     ''    </style:style>\<newline>'' @
     ''\<newline>'' @
     ''    <style:style style:name="TableCell" style:family="table-cell">\<newline>'' @
     ''      <style:table-cell-properties fo:border="0.75pt solid #c5ccd6" fo:paddi'' @
     ''ng="0.20cm"/>\<newline>'' @
     ''    </style:style>''\<close>

definition renderTableStyleEntry :: "string \<times> string option \<times> string option \<Rightarrow> string" where
  \<open>renderTableStyleEntry s =
     (case s of (name, widthAttr, relWidthAttr) \<Rightarrow>
        (let props =
               [''table:align="left"'', ''table:border-model="collapsing"''] @
               (if truthyStr widthAttr then [''style:width="'' @ the widthAttr @ ''"''] else []) @
               (if truthyStr relWidthAttr then [''style:rel-width="'' @ the relWidthAttr @ ''"'']
                else [])
         in ''\<newline>'' @
            ''      <style:style style:name="'' @ name @ ''" style:family="table">\<newline>'' @
            ''        <style:table-properties '' @ joinWith '' '' props @ ''/>\<newline>'' @
            ''      </style:style>''))\<close>

definition renderTableColumnStyleEntry :: "string \<times> string \<Rightarrow> string" where
  \<open>renderTableColumnStyleEntry e =
     (case e of (w, name) \<Rightarrow>
        ''\<newline>'' @
        ''      <style:style style:name="'' @ name @ ''" style:family="table-column">\<newline>'' @
        ''        <style:table-column-properties style:column-width="'' @ w @ ''"/>\<newline>'' @
        ''      </style:style>'')\<close>

definition renderTableCellStyleEntry :: "string \<times> string \<Rightarrow> string" where
  \<open>renderTableCellStyleEntry c =
     (case c of (name, bg) \<Rightarrow>
        ''\<newline>'' @
        ''      <style:style style:name="'' @ name @ ''" style:family="table-cell">\<newline>'' @
        ''        <style:table-cell-properties fo:border="0.75pt solid #c5ccd6" '' @
        ''fo:padding="0.20cm" fo:background-color="'' @ bg @ ''"/>\<newline>'' @
        ''      </style:style>'')\<close>

definition renderSpanStyleEntry :: "string \<times> TextSpan \<Rightarrow> string" where
  \<open>renderSpanStyleEntry s =
     (case s of (name, sp) \<Rightarrow>
        (let p =
               [''style:font-name="BodyFont"''] @
               (if truthyBool (bold sp) then [''fo:font-weight="bold"''] else []) @
               (if truthyBool (italic sp) then [''fo:font-style="italic"''] else []) @
               (if truthyBool (underline sp)
                then [''style:text-underline-style="solid"'', ''style:text-underline-type="single"'']
                else []) @
               (if truthyStr (color sp) then [''fo:color="'' @ the (color sp) @ ''"''] else []) @
               (if truthyStr (fontSize sp) then [''fo:font-size="'' @ the (fontSize sp) @ ''"'']
                else [])
         in ''\<newline>'' @
            ''      <style:style style:name="'' @ name @ ''" style:family="text">\<newline>'' @
            ''        <style:text-properties '' @ joinWith '' '' p @ '' />\<newline>'' @
            ''      </style:style>''))\<close>

definition renderParagraphStyleEntry :: "string \<times> ParagraphStyleProps \<Rightarrow> string" where
  \<open>renderParagraphStyleEntry s =
     (case s of (name, props) \<Rightarrow>
        (let attr = (\<lambda>k v. if truthyStr v then [k @ ''="'' @ the v @ ''"''] else []);
             p =
               attr ''fo:text-align'' (map_option alignName (align props)) @
               attr ''fo:line-height'' (lineHeight props) @
               attr ''fo:margin-top'' (marginTop props) @
               attr ''fo:margin-bottom'' (marginBottom props) @
               attr ''fo:margin-left'' (marginLeft props) @
               attr ''fo:margin-right'' (marginRight props) @
               attr ''fo:text-indent'' (textIndent props)
         in ''\<newline>'' @
            ''      <style:style style:name="'' @ name @ ''" style:family="paragraph">\<newline>'' @
            ''        <style:paragraph-properties '' @ joinWith '' '' p @ ''/>\<newline>'' @
            ''      </style:style>''))\<close>

definition renderAutomaticStyles :: "StyleRegistry \<Rightarrow> string" where
  "renderAutomaticStyles reg =
     (let tableXml = concat (map (renderTableStyleEntry \<circ> snd) (tableStyles reg));
          col = concat (map renderTableColumnStyleEntry (tableColumnStyles reg));
          cell = concat (map (renderTableCellStyleEntry \<circ> snd) (tableCellStyles reg));
          spanXml = concat (map (renderSpanStyleEntry \<circ> snd) (spanStyles reg));
          para = concat (map (renderParagraphStyleEntry \<circ> snd) (paragraphStyles reg))
      in automaticStylesBase @ tableXml @ col @ cell @ para @ spanXml)"

subsection \<open>Rendering the body\<close>

definition lookupAttr :: "(string \<times> string) list option \<Rightarrow> string \<Rightarrow> string option" where
  "lookupAttr a k = (case a of None \<Rightarrow> None | Some kvs \<Rightarrow> map_of kvs k)"

text \<open>
  \<open>mergeSpanProps\<close>: a declared field wins over the attribute (\<^verbatim>\<open>??\<close>). The underline
  flag computed from an attribute is used for its truthiness only, so the empty attribute,
  which the source leaves as the empty string, is \<open>Some False\<close> here.
\<close>

definition mergeSpanProps :: "TextSpan \<Rightarrow> TextSpan" where
  "mergeSpanProps sp =
     (let a = attributes sp
      in sp\<lparr>
           bold := (case bold sp of Some b \<Rightarrow> Some b
                    | None \<Rightarrow> Some (lookupAttr a ''fo:font-weight'' = Some ''bold'')),
           italic := (case italic sp of Some b \<Rightarrow> Some b
                      | None \<Rightarrow> Some (lookupAttr a ''fo:font-style'' = Some ''italic'')),
           underline := (case underline sp of Some b \<Rightarrow> Some b
                         | None \<Rightarrow>
                             (case lookupAttr a ''style:text-underline-style'' of
                                None \<Rightarrow> None
                              | Some v \<Rightarrow> Some (v \<noteq> [] \<and> v \<noteq> ''none''))),
           fontSize := (case fontSize sp of Some s \<Rightarrow> Some s
                        | None \<Rightarrow> lookupAttr a ''fo:font-size''),
           color := (case color sp of Some s \<Rightarrow> Some s | None \<Rightarrow> lookupAttr a ''fo:color''),
           fontFamily := (case fontFamily sp of Some s \<Rightarrow> Some s
                          | None \<Rightarrow> lookupAttr a ''style:font-name'')\<rparr>)"

text \<open>The fragments one token of a span's text adds.\<close>

definition tokenFragments :: "string \<Rightarrow> string \<Rightarrow> string list" where
  \<open>tokenFragments spanAttr token =
     (if token = [newline] then [''<text:line-break/>'']
      else if token = [] then []
      else [''<text:span'' @ spanAttr @ ''>'' @ escapeXml token @ ''</text:span>''])\<close>

text \<open>The body of the loop over the spans of a paragraph: the fragments one span adds.\<close>

definition renderSpan :: "TextSpan \<Rightarrow> StyleRegistry \<Rightarrow> string list \<times> StyleRegistry" where
  \<open>renderSpan sp reg =
     (let merged = mergeSpanProps sp;
          familyStyle =
            (if truthyStr (fontFamily merged) then FONT_FAMILY_MAP (the (fontFamily merged))
             else None);
          (styleName, reg1) =
            (case familyStyle of Some f \<Rightarrow> (Some f, reg) | None \<Rightarrow> getSpanStyle merged reg);
          spanAttr =
            (if truthyStr styleName then '' text:style-name="'' @ the styleName @ ''"'' else '''');
          tokens = splitKeepNewline (spanText merged)
      in (concat (map (tokenFragments spanAttr) tokens), reg1))\<close>

definition renderParagraph :: "Paragraph \<Rightarrow> StyleRegistry \<Rightarrow> string \<times> StyleRegistry" where
  \<open>renderParagraph p reg =
     (case getParagraphStyle p reg of (styleName, reg1) \<Rightarrow>
        (let styleAttr =
               (if truthyStr styleName then '' text:style-name="'' @ the styleName @ ''"''
                else '''')
         in if spans p = [] then (''<text:p'' @ styleAttr @ ''/>'', reg1)
            else
              (case mapState renderSpan (spans p) reg1 of (fragments, reg2) \<Rightarrow>
                 (''<text:p'' @ styleAttr @ ''>'' @ concat (concat fragments) @ ''</text:p>'',
                  reg2))))\<close>

text \<open>\<^verbatim>\<open>t.columnWidths?.[index]\<close>: absent when the array is, or has no such element.\<close>

definition columnWidthAt :: "Table \<Rightarrow> nat \<Rightarrow> string option" where
  "columnWidthAt t index =
     (case columnWidths t of
        None \<Rightarrow> None
      | Some ws \<Rightarrow> if index < length ws then ws ! index else None)"

definition colsCount :: "Table \<Rightarrow> nat" where
  "colsCount t =
     (if rows t = [] then 0 else Max (set (map (\<lambda>r. length (cells r)) (rows t))))"

definition renderColumn :: "Table \<Rightarrow> nat \<Rightarrow> StyleRegistry \<Rightarrow> string \<times> StyleRegistry" where
  \<open>renderColumn t index reg =
     (case getTableColumnStyle (columnWidthAt t index) reg of (styleName, reg1) \<Rightarrow>
        (let attr =
               (if truthyStr styleName then '' table:style-name="'' @ the styleName @ ''"''
                else '' table:style-name="TableColumn"'')
         in (''<table:table-column'' @ attr @ ''/>'', reg1)))\<close>

definition renderCell :: "TableCell \<Rightarrow> StyleRegistry \<Rightarrow> string \<times> StyleRegistry" where
  \<open>renderCell c reg =
     (case mapState renderParagraph (paragraphs c) reg of (rendered, reg1) \<Rightarrow>
        (let ps = concat rendered;
             spanAttr =
               (if truthyNat (colSpan c)
                then '' table:number-columns-spanned="'' @ showNat (the (colSpan c)) @ ''"''
                else '''') @
               (if truthyNat (rowSpan c)
                then '' table:number-rows-spanned="'' @ showNat (the (rowSpan c)) @ ''"''
                else '''')
         in case getTableCellStyle (backgroundColor c) reg1 of (style, reg2) \<Rightarrow>
              (let cellStyle = (case style of Some s \<Rightarrow> s | None \<Rightarrow> ''TableCell'')
               in (''<table:table-cell table:style-name="'' @ cellStyle @ ''"'' @ spanAttr @ ''>'' @
                   (if ps = [] then ''<text:p/>'' else ps) @ ''</table:table-cell>'',
                   reg2))))\<close>

definition renderRow :: "TableRow \<Rightarrow> StyleRegistry \<Rightarrow> string \<times> StyleRegistry" where
  \<open>renderRow r reg =
     (case mapState renderCell (cells r) reg of (rendered, reg1) \<Rightarrow>
        (''<table:table-row table:style-name="TableRow">'' @ concat rendered @
         ''</table:table-row>'', reg1))\<close>

text \<open>
  The \<^verbatim>\<open><table:table-column/>\<close> elements of a table, one per index below \<open>colsCount\<close>, in
  the registry the table style left.
\<close>

definition renderColumns :: "Table \<Rightarrow> StyleRegistry \<Rightarrow> string list \<times> StyleRegistry" where
  "renderColumns t reg = mapState (renderColumn t) [0 ..< colsCount t] reg"

definition renderTable :: "Table \<Rightarrow> StyleRegistry \<Rightarrow> string \<times> StyleRegistry" where
  \<open>renderTable t reg =
     (case getTableStyle (widthPct t) (columnWidths t) (widthCm t) reg of (tableStyle, reg1) \<Rightarrow>
        (case renderColumns t reg1 of (cols, reg2) \<Rightarrow>
           (case mapState renderRow (rows t) reg2 of (rendered, reg3) \<Rightarrow>
              (''<table:table table:style-name="'' @ tableStyle @ ''">'' @ concat cols @
               concat rendered @ ''</table:table>'', reg3))))\<close>

fun renderBlock :: "OdtBlock \<Rightarrow> StyleRegistry \<Rightarrow> string \<times> StyleRegistry" where
  "renderBlock (ParagraphBlock p) reg = renderParagraph p reg"
| "renderBlock (TableBlock t) reg = renderTable t reg"
| "renderBlock (OtherBlock ty) reg = ('''', reg)"

definition buildContentXml :: "OdtDoc \<Rightarrow> string" where
  "buildContentXml doc =
     (case mapState renderBlock (body doc) newStyleRegistry of (rendered, reg) \<Rightarrow>
        odfDocumentContent (joinWith [newline] rendered) (renderAutomaticStyles reg))"

section \<open>The HTML exporter: lengths and colours\<close>

text \<open>
  The second file of \<^verbatim>\<open>src/unnamed/part_004\<close> turns the editor's HTML into the document
  model. Its helpers come first.
\<close>

definition pxToCm :: "jsnum \<Rightarrow> string option" where
  "pxToCm v =
     (if \<not> isFinite v \<or> leZero v then None
      else
        (let cm = timesConst (divConst v 96) (254 / 100)
         in if \<not> isFinite cm \<or> leZero cm then None else Some (toFixed 4 cm @ ''cm'')))"

definition cssLengthToCm :: "string \<Rightarrow> string option" where
  "cssLengthToCm v =
     (let trimmed = toLowerCase (trim v)
      in if trimmed = [] then None
         else if endsWith ''cm'' trimmed then
           (let numeric = parseFloat (dropLast 2 trimmed)
            in if \<not> isFinite numeric \<or> leZero numeric then None
               else Some (toFixed 4 numeric @ ''cm''))
         else if endsWith ''mm'' trimmed then
           (let numeric = parseFloat (dropLast 2 trimmed)
            in if \<not> isFinite numeric \<or> leZero numeric then None
               else (let cmValue = divConst numeric 10 in Some (toFixed 4 cmValue @ ''cm'')))
         else if endsWith ''in'' trimmed then
           (let numeric = parseFloat (dropLast 2 trimmed)
            in if \<not> isFinite numeric \<or> leZero numeric then None
               else
                 (let cmValue = timesConst numeric (254 / 100)
                  in Some (toFixed 4 cmValue @ ''cm'')))
         else if endsWith ''pt'' trimmed then
           (let numeric = parseFloat (dropLast 2 trimmed)
            in if \<not> isFinite numeric \<or> leZero numeric then None
               else
                 (let inches = divConst numeric 72;
                      cmValue = timesConst inches (254 / 100)
                  in Some (toFixed 4 cmValue @ ''cm'')))
         else if endsWith ''px'' trimmed then
           (let numeric = parseFloat (dropLast 2 trimmed)
            in if \<not> isFinite numeric \<or> leZero numeric then None else pxToCm numeric)
         else
           (let numeric = parseFloat trimmed
            in if \<not> isNaN numeric \<and> gtZero numeric then pxToCm numeric else None))"

definition formatPt :: "jsnum \<Rightarrow> string" where
  "formatPt v =
     (let normalized = stringToNumber (toFixed 2 v);
          txt = (if isInteger normalized then toFixed 0 normalized else numberToString normalized)
      in txt @ ''pt'')"

definition formatPercent :: "jsnum \<Rightarrow> string" where
  "formatPercent v =
     (let clamped = clampConst 0 1000 v;
          normalized = stringToNumber (toFixed 2 clamped);
          txt = (if isInteger normalized then toFixed 0 normalized else numberToString normalized)
      in txt @ ''%'')"

definition cssFontSizeToPt :: "string \<Rightarrow> string option" where
  "cssFontSizeToPt v =
     (let trimmed = toLowerCase (trim v)
      in if trimmed = [] then None
         else if endsWith ''px'' trimmed then
           (let px = parseFloat (dropLast 2 trimmed)
            in if \<not> isNaN px then Some (formatPt (timesConst px (3 / 4))) else None)
         else if endsWith ''pt'' trimmed then
           (let pt = parseFloat (dropLast 2 trimmed)
            in if \<not> isNaN pt then Some (formatPt pt) else None)
         else
           (let numeric = parseFloat trimmed
            in if \<not> isNaN numeric then Some (formatPt (timesConst numeric (3 / 4))) else None))"

definition normalizeLineHeight :: "string \<Rightarrow> string option" where
  "normalizeLineHeight v =
     (let trimmed = trim v
      in if trimmed = [] then None
         else
           (let lowered = toLowerCase trimmed
            in if lowered = ''normal'' \<or> lowered = ''inherit'' \<or> lowered = ''initial'' then None
               else if endsWith ''%'' lowered then
                 (let numeric = parseFloat (dropLast 1 lowered)
                  in if \<not> isNaN numeric \<and> gtZero numeric then Some (formatPercent numeric)
                     else None)
               else if endsWith ''px'' lowered then
                 (let numeric = parseFloat (dropLast 2 lowered)
                  in if \<not> isNaN numeric \<and> gtZero numeric
                     then Some (formatPt (timesConst numeric (3 / 4)))
                     else None)
               else if endsWith ''pt'' lowered then
                 (let numeric = parseFloat (dropLast 2 lowered)
                  in if \<not> isNaN numeric \<and> gtZero numeric then Some (formatPt numeric) else None)
               else if endsWith ''em'' lowered \<or> endsWith ''rem'' lowered then
                 (let numeric = parseFloat (dropLast 2 lowered)
                  in if \<not> isNaN numeric \<and> gtZero numeric
                     then Some (formatPercent (timesConst numeric 100))
                     else None)
               else
                 (case cssLengthToCm trimmed of
                    Some absolute \<Rightarrow> Some absolute
                  | None \<Rightarrow>
                      if lowered \<noteq> [] \<and> list_all isDigitOrDot lowered then
                        (let numeric = parseFloat lowered
                         in if \<not> isNaN numeric \<and> gtZero numeric
                            then Some (formatPercent (timesConst numeric 100))
                            else None)
                      else None)))"

text \<open>
  \<open>normalizeColor\<close>. The first pattern, \<^verbatim>\<open>/^#[0-9a-f]{3,8}$/i\<close>, is a hash and three to
  eight hexadecimal digits; the second, \<^verbatim>\<open>/^rgba?\(([^)]+)\)$/i\<close>, is \<open>rgb(\<close> or \<open>rgba(\<close>,
  a non-empty group without a closing parenthesis, and the closing parenthesis at the end.
\<close>

definition isHexColor :: "string \<Rightarrow> bool" where
  "isHexColor s =
     (s \<noteq> [] \<and> hd s = CHR ''#'' \<and> 3 \<le> length (tl s) \<and> length (tl s) \<le> 8
      \<and> list_all isHexDigit (tl s))"

definition rgbGroup :: "string \<Rightarrow> string option" where
  "rgbGroup s =
     (let l = toLowerCase s;
          n = (if startsWith ''rgb('' l then 4 else if startsWith ''rgba('' l then 5 else 0);
          inner = drop n (dropLast 1 s)
      in if n \<noteq> 0 \<and> endsWith '')'' s \<and> inner \<noteq> [] \<and> CHR '')'' \<notin> set inner
         then Some inner else None)"

text \<open>One colour channel: a percentage of 255 or a number, rounded; 0 when unreadable.\<close>

definition rgbChannel :: "string \<Rightarrow> jsnum" where
  "rgbChannel part =
     (if endsWith ''%'' part then
        (let percent = parseFloat part
         in if isNaN percent then Fin 0
            else mathRound (timesConst (divConst percent 100) 255))
      else
        (let num = parseFloat part in if isNaN num then Fin 0 else mathRound num))"

definition toHex :: "jsnum \<Rightarrow> string" where
  "toHex component =
     (case clampConst 0 255 component of
        Fin r \<Rightarrow> [hexDigit (nat \<lfloor>r\<rfloor> div 16), hexDigit (nat \<lfloor>r\<rfloor> mod 16)]
      | other \<Rightarrow> numberToString other)"

definition normalizeColor :: "string \<Rightarrow> string" where
  "normalizeColor v =
     (let trimmed = trim v
      in if trimmed = [] then ''''
         else if isHexColor trimmed then
           (if length trimmed = 4 then
              [CHR ''#'', trimmed ! 1, trimmed ! 1, trimmed ! 2, trimmed ! 2, trimmed ! 3,
               trimmed ! 3]
            else if length trimmed = 7 then trimmed
            else if length trimmed = 9 then take 7 trimmed
            else trimmed)
         else
           (case rgbGroup trimmed of
              Some inner \<Rightarrow>
                (case map trim (splitOn (CHR '','') inner) of
                   r # g # b # rest \<Rightarrow>
                     ''#'' @ toHex (rgbChannel r) @ toHex (rgbChannel g) @ toHex (rgbChannel b)
                 | _ \<Rightarrow> trimmed)
            | None \<Rightarrow> trimmed))"

section \<open>The HTML exporter: styles of an element\<close>

text \<open>
  The parsed HTML is a tree of DOM nodes: a text node with its text, an element with its
  upper-case tag name, its class list, its \<open>style\<close> attribute and its child nodes, or a
  node of another kind (a comment).
\<close>

datatype domNode =
    TextNode string
  | ElementNode (tagName: string) (classList: "string list") (styleAttribute: "string option")
      (childNodes: "domNode list")
  | OtherNode

text \<open>
  The class and tag tables are plain objects too. What a lookup finds in
  \<^verbatim>\<open>Object.prototype\<close> has no entries of its own and none of the formatting fields, so it
  adds nothing to the styles: such a key is absent here.
\<close>

definition STYLE_MAP :: "string \<Rightarrow> (string \<times> string) list option" where
  "STYLE_MAP cls =
     map_of
       [(''text-red'', [(''color'', ''#ff0000'')]),
        (''text-blue'', [(''color'', ''#0070ff'')]),
        (''text-green'', [(''color'', ''#2ecc71'')]),
        (''text-yellow'', [(''color'', ''#f1c40f'')]),
        (''text-gray'', [(''color'', ''#555555'')]),
        (''font-12'', [(''fontSize'', ''9pt'')]),
        (''font-14'', [(''fontSize'', ''10.5pt'')]),
        (''font-16'', [(''fontSize'', ''12pt'')]),
        (''font-18'', [(''fontSize'', ''13.5pt'')]),
        (''font-20'', [(''fontSize'', ''15pt'')]),
        (''font-24'', [(''fontSize'', ''18pt'')]),
        (''ql-size-small'', [(''fontSize'', ''8pt'')]),
        (''ql-size-large'', [(''fontSize'', ''14pt'')]),
        (''ql-size-huge'', [(''fontSize'', ''24pt'')]),
        (''center'', [(''textAlign'', ''center'')]),
        (''right'', [(''textAlign'', ''end'')]),
        (''left'', [(''textAlign'', ''start'')]),
        (''ql-align-center'', [(''textAlign'', ''center'')]),
        (''ql-align-right'', [(''textAlign'', ''end'')]),
        (''ql-align-left'', [(''textAlign'', ''start'')]),
        (''ql-align-justify'', [(''textAlign'', ''justify'')]),
        (''bold'', [(''fontWeight'', ''bold'')]),
        (''italic'', [(''fontStyle'', ''italic'')]),
        (''underline'', [(''textDecoration'', ''underline'')]),
        (''highlight-yellow'', [(''backgroundColor'', ''#fff59d'')]),
        (''highlight-green'', [(''backgroundColor'', ''#d4efdf'')]),
        (''highlight-blue'', [(''backgroundColor'', ''#d6eaf8'')]),
        (''table-bordered'', [(''border'', ''1px solid #444'')]),
        (''table-borderless'', [(''border'', ''none'')])]
       cls"

definition emptySpanStyle :: SpanStyle where
  "emptySpanStyle =
     \<lparr>bold = None, italic = None, underline = None, color = None, fontSize = None,
      fontFamily = None\<rparr>"

definition BLOCK_TAG_SPAN_STYLES :: "string \<Rightarrow> SpanStyle option" where
  "BLOCK_TAG_SPAN_STYLES tag =
     map_of
       [(''H1'', emptySpanStyle\<lparr>bold := Some True, fontSize := Some ''24pt''\<rparr>),
        (''H2'', emptySpanStyle\<lparr>bold := Some True, fontSize := Some ''20pt''\<rparr>),
        (''H3'', emptySpanStyle\<lparr>bold := Some True, fontSize := Some ''18pt''\<rparr>),
        (''H4'', emptySpanStyle\<lparr>bold := Some True, fontSize := Some ''16pt''\<rparr>)]
       tag"

definition INLINE_TAG_STYLES :: "string \<Rightarrow> SpanStyle option" where
  "INLINE_TAG_STYLES tag =
     map_of
       [(''STRONG'', emptySpanStyle\<lparr>bold := Some True\<rparr>),
        (''B'', emptySpanStyle\<lparr>bold := Some True\<rparr>),
        (''EM'', emptySpanStyle\<lparr>italic := Some True\<rparr>),
        (''I'', emptySpanStyle\<lparr>italic := Some True\<rparr>),
        (''U'', emptySpanStyle\<lparr>underline := Some True\<rparr>)]
       tag"

definition PARAGRAPH_TAGS :: "string set" where
  "PARAGRAPH_TAGS = {''P'', ''DIV'', ''H1'', ''H2'', ''H3'', ''H4'', ''H5'', ''H6'', ''BLOCKQUOTE''}"

text \<open>\<^verbatim>\<open>key.replace(/[A-Z]/g, char => `-${char.toLowerCase()}`).toLowerCase()\<close>.\<close>

definition toCssPropName :: "string \<Rightarrow> string" where
  "toCssPropName key =
     toLowerCase (concat (map (\<lambda>c. if isUpper c then [CHR ''-'', lowerChar c] else [c]) key))"

text \<open>\<^verbatim>\<open>s.indexOf(c)\<close> for a character: the number of characters before its first occurrence.\<close>

definition indexOfChar :: "char \<Rightarrow> string \<Rightarrow> nat option" where
  "indexOfChar c s = (if c \<in> set s then Some (length (takeWhile (\<lambda>x. x \<noteq> c) s)) else None)"

text \<open>One rule of an inline style, already trimmed and not empty, added to the styles.\<close>

definition addRule :: "(string \<times> string) list \<Rightarrow> string \<Rightarrow> (string \<times> string) list" where
  "addRule st rule =
     (case indexOfChar (CHR '':'') rule of
        None \<Rightarrow> st
      | Some colonIndex \<Rightarrow>
          (let property = toLowerCase (trim (take colonIndex rule));
               val = trim (drop (colonIndex + 1) rule)
           in if property = [] \<or> val = [] then st else mapSet st property val))"

definition addClass :: "(string \<times> string) list \<Rightarrow> string \<Rightarrow> (string \<times> string) list" where
  "addClass st cls =
     (case STYLE_MAP cls of
        None \<Rightarrow> st
      | Some entry \<Rightarrow> foldl (\<lambda>acc (key, val). mapSet acc (toCssPropName key) val) st entry)"

definition collectCssStyles :: "domNode \<Rightarrow> (string \<times> string) list" where
  "collectCssStyles el =
     (let fromClasses = foldl addClass [] (classList el)
      in case styleAttribute el of
           None \<Rightarrow> fromClasses
         | Some inlineStyle \<Rightarrow>
             if inlineStyle = [] then fromClasses
             else
               foldl addRule fromClasses
                 (filter (\<lambda>rule. rule \<noteq> []) (map trim (splitOn (CHR '';'') inlineStyle))))"

definition emptyLayout :: ParagraphLayout where
  "emptyLayout =
     \<lparr>lineHeight = None, marginTop = None, marginBottom = None, marginLeft = None,
      marginRight = None, textIndent = None\<rparr>"

text \<open>A CSS length property, normalised when present and readable.\<close>

definition cssLength :: "(string \<times> string) list \<Rightarrow> string \<Rightarrow> string option" where
  "cssLength css k =
     (case map_of css k of
        None \<Rightarrow> None
      | Some v \<Rightarrow> if v = [] then None else keepTruthy (cssLengthToCm v))"

definition cssToStyles :: "(string \<times> string) list \<Rightarrow> SpanStyle \<times> align option \<times> ParagraphLayout" where
  "cssToStyles css =
     (let fontWeight = map_of css ''font-weight'';
          isBold =
            (truthyStr fontWeight \<and>
             (let weight = toLowerCase (the fontWeight);
                  numericWeight = parseInt weight
              in includesStr ''bold'' weight
                 \<or> (\<not> isNaN numericWeight \<and> geConst numericWeight 600)));
          fontStyle = map_of css ''font-style'';
          isItalic = (truthyStr fontStyle \<and> includesStr ''italic'' (toLowerCase (the fontStyle)));
          textDecoration = map_of css ''text-decoration'';
          isUnderline =
            (truthyStr textDecoration \<and>
             includesStr ''underline'' (toLowerCase (the textDecoration)));
          colorCss = map_of css ''color'';
          fontSizeCss = map_of css ''font-size'';
          textAlign = map_of css ''text-align'';
          lineHeightRaw = map_of css ''line-height'';
          sp =
            \<lparr>bold = (if isBold then Some True else None),
             italic = (if isItalic then Some True else None),
             underline = (if isUnderline then Some True else None),
             color = (if truthyStr colorCss then Some (normalizeColor (the colorCss)) else None),
             fontSize =
               (if truthyStr fontSizeCss then keepTruthy (cssFontSizeToPt (the fontSizeCss))
                else None),
             fontFamily = None\<rparr>;
          al =
            (if truthyStr textAlign then
               (let normalized = toLowerCase (the textAlign)
                in if normalized = ''center'' then Some AlignCenter
                   else if normalized = ''right'' \<or> normalized = ''end'' then Some AlignEnd
                   else if normalized = ''justify'' then Some AlignJustify
                   else if normalized = ''left'' \<or> normalized = ''start'' then Some AlignStart
                   else None)
             else None);
          layout =
            \<lparr>lineHeight =
               (if truthyStr lineHeightRaw then keepTruthy (normalizeLineHeight (the lineHeightRaw))
                else None),
             marginTop = cssLength css ''margin-top'',
             marginBottom = cssLength css ''margin-bottom'',
             marginLeft = cssLength css ''margin-left'',
             marginRight = cssLength css ''margin-right'',
             textIndent = cssLength css ''text-indent''\<rparr>
      in (sp, al, layout))"

text \<open>
  \<open>mergeSpanStyles\<close>: each of the five formatting fields of a later style replaces the
  accumulated one when it is defined.
\<close>

definition mergeOne :: "SpanStyle \<Rightarrow> SpanStyle \<Rightarrow> SpanStyle" where
  "mergeOne acc style =
     acc\<lparr>bold := (if bold style \<noteq> None then bold style else bold acc),
         italic := (if italic style \<noteq> None then italic style else italic acc),
         underline := (if underline style \<noteq> None then underline style else underline acc),
         color := (if color style \<noteq> None then color style else color acc),
         fontSize := (if fontSize style \<noteq> None then fontSize style else fontSize acc)\<rparr>"

definition mergeSpanStyles :: "SpanStyle \<Rightarrow> SpanStyle list \<Rightarrow> SpanStyle" where
  "mergeSpanStyles base others = foldl mergeOne base others"

definition getElementStyles :: "domNode \<Rightarrow> SpanStyle \<times> align option \<times> ParagraphLayout" where
  "getElementStyles el =
     (let blockStyle =
            (case BLOCK_TAG_SPAN_STYLES (tagName el) of Some s \<Rightarrow> s | None \<Rightarrow> emptySpanStyle);
          tagStyle =
            (case INLINE_TAG_STYLES (tagName el) of Some s \<Rightarrow> s | None \<Rightarrow> emptySpanStyle);
          cssStyles = collectCssStyles el
      in case cssToStyles cssStyles of (cssSpan, al, layout) \<Rightarrow>
           (mergeSpanStyles emptySpanStyle [blockStyle, tagStyle, cssSpan], al, layout))"

section \<open>The HTML exporter: spans and paragraphs\<close>

text \<open>\<^verbatim>\<open>{ ...inheritedStyle, text }\<close>: the span of a style and a text.\<close>

definition withText :: "SpanStyle \<Rightarrow> string \<Rightarrow> TextSpan" where
  "withText st t =
     \<lparr>bold = bold st, italic = italic st, underline = underline st, color = color st,
      fontSize = fontSize st, fontFamily = fontFamily st, spanText = t, attributes = None\<rparr>"

fun nodeToSpans :: "domNode \<Rightarrow> SpanStyle \<Rightarrow> TextSpan list"
  and flattenChildNodes :: "domNode list \<Rightarrow> SpanStyle \<Rightarrow> TextSpan list" where
  "nodeToSpans (TextNode t) inheritedStyle =
     (if t = [] then [] else [withText inheritedStyle t])"
| "nodeToSpans (ElementNode tag cls sty kids) inheritedStyle =
     (if tag = ''BR'' then [withText inheritedStyle [newline]]
      else
        (let elementStyle = fst (getElementStyles (ElementNode tag cls sty kids));
             combinedStyle = mergeSpanStyles inheritedStyle [elementStyle]
         in if kids = [] then [] else flattenChildNodes kids combinedStyle))"
| "nodeToSpans OtherNode inheritedStyle = []"
| "flattenChildNodes [] inheritedStyle = []"
| "flattenChildNodes (n # ns) inheritedStyle =
     nodeToSpans n inheritedStyle @ flattenChildNodes ns inheritedStyle"

definition sameSpanStyle :: "TextSpan \<Rightarrow> TextSpan \<Rightarrow> bool" where
  "sameSpanStyle a b =
     (case_option False id (bold a) = case_option False id (bold b)
      \<and> case_option False id (italic a) = case_option False id (italic b)
      \<and> case_option False id (underline a) = case_option False id (underline b)
      \<and> case_option [] id (color a) = case_option [] id (color b)
      \<and> case_option [] id (fontSize a) = case_option [] id (fontSize b))"

text \<open>
  \<open>mergeAdjacentSpans\<close>: the body of its loop, on the list \<open>merged\<close> built so far, and the
  loop. Appending to the text of the last element is the update of that element; the
  spans pushed are copies, so the input is not changed.
\<close>

definition mergeStep :: "TextSpan list \<Rightarrow> TextSpan \<Rightarrow> TextSpan list" where
  "mergeStep merged sp =
     (if spanText sp = [] then merged
      else if merged \<noteq> [] \<and> sameSpanStyle (last merged) sp
        then butlast merged @ [(last merged)\<lparr>spanText := spanText (last merged) @ spanText sp\<rparr>]
      else merged @ [sp])"

definition mergeAdjacentSpans :: "TextSpan list \<Rightarrow> TextSpan list" where
  "mergeAdjacentSpans sps = foldl mergeStep [] sps"

definition applyParagraphLayout :: "Paragraph \<Rightarrow> ParagraphLayout \<Rightarrow> Paragraph" where
  "applyParagraphLayout target st =
     target\<lparr>
       lineHeight := (if truthyStr (lineHeight st) then lineHeight st else lineHeight target),
       marginTop := (if truthyStr (marginTop st) then marginTop st else marginTop target),
       marginBottom :=
         (if truthyStr (marginBottom st) then marginBottom st else marginBottom target),
       marginLeft := (if truthyStr (marginLeft st) then marginLeft st else marginLeft target),
       marginRight := (if truthyStr (marginRight st) then marginRight st else marginRight target),
       textIndent := (if truthyStr (textIndent st) then textIndent st else textIndent target)\<rparr>"

text \<open>\<^verbatim>\<open>{ spans, align }\<close>: a paragraph with no layout field yet.\<close>

definition newParagraph :: "TextSpan list \<Rightarrow> align option \<Rightarrow> Paragraph" where
  "newParagraph sps al =
     \<lparr>lineHeight = None, marginTop = None, marginBottom = None, marginLeft = None,
      marginRight = None, textIndent = None, align = al, spans = sps\<rparr>"

text \<open>\<open>elementToParagraph\<close> is called on elements; \<open>None\<close> is its \<^verbatim>\<open>null\<close>.\<close>

definition elementToParagraph :: "domNode \<Rightarrow> Paragraph option" where
  "elementToParagraph el =
     (case getElementStyles el of (elementSpanStyle, al, layoutStyles) \<Rightarrow>
        (let baseStyle = mergeSpanStyles emptySpanStyle [elementSpanStyle];
             sps = mergeAdjacentSpans (flattenChildNodes (childNodes el) baseStyle)
         in if sps = [] then
              (if tagName el = ''P''
               then Some (applyParagraphLayout (newParagraph [] al) layoutStyles)
               else None)
            else Some (applyParagraphLayout (newParagraph sps al) layoutStyles)))"

section \<open>odtJsonToHtml.ts: values and helpers\<close>

text \<open>
  A call of the converter either returns or throws; a thrown error is \<open>Inl\<close> of its kind.
\<close>

datatype jsError = RangeError | TypeError

definition andThen :: "jsError + 'a \<Rightarrow> ('a \<Rightarrow> jsError + 'b) \<Rightarrow> jsError + 'b" where
  "andThen r f = (case r of Inl e \<Rightarrow> Inl e | Inr x \<Rightarrow> f x)"

text \<open>
  The style data of a node is read defensively, whatever its shape: it is kept as an
  untyped JSON value.
\<close>

datatype jv =
    JUndefined
  | JNull
  | JBool bool
  | JNum jsnum
  | JStr string
  | JArr "jv list"
  | JObj "(string \<times> jv) list"

definition truthy :: "jv \<Rightarrow> bool" where
  "truthy v =
     (case v of
        JUndefined \<Rightarrow> False
      | JNull \<Rightarrow> False
      | JBool b \<Rightarrow> b
      | JNum n \<Rightarrow> truthyNum (Some n)
      | JStr s \<Rightarrow> s \<noteq> []
      | JArr xs \<Rightarrow> True
      | JObj kvs \<Rightarrow> True)"

text \<open>
  \<^verbatim>\<open>v[k]\<close> throws a \<open>TypeError\<close> on \<^verbatim>\<open>null\<close> and \<^verbatim>\<open>undefined\<close>. The keys the converter
  reads are names of style families and \<open>resolvedProperties\<close>, which only an object can
  hold. \<^verbatim>\<open>v?.[k]\<close> is \<^verbatim>\<open>undefined\<close> instead of the error.
\<close>

definition jsGet :: "jv \<Rightarrow> string \<Rightarrow> jsError + jv" where
  "jsGet v k =
     (case v of
        JUndefined \<Rightarrow> Inl TypeError
      | JNull \<Rightarrow> Inl TypeError
      | JObj kvs \<Rightarrow> Inr (case map_of kvs k of Some x \<Rightarrow> x | None \<Rightarrow> JUndefined)
      | _ \<Rightarrow> Inr JUndefined)"

definition optGet :: "jv \<Rightarrow> string \<Rightarrow> jsError + jv" where
  "optGet v k =
     (case v of JUndefined \<Rightarrow> Inr JUndefined | JNull \<Rightarrow> Inr JUndefined | _ \<Rightarrow> jsGet v k)"

text \<open>
  \<^verbatim>\<open>Object.entries(v)\<close>: the entries of an object, the indexed elements of an array and
  the indexed characters of a string, none for a number or a boolean, and a \<open>TypeError\<close> for
  \<^verbatim>\<open>null\<close> and \<^verbatim>\<open>undefined\<close>.
\<close>

definition objectEntries :: "jv \<Rightarrow> jsError + (string \<times> jv) list" where
  "objectEntries v =
     (case v of
        JUndefined \<Rightarrow> Inl TypeError
      | JNull \<Rightarrow> Inl TypeError
      | JObj kvs \<Rightarrow> Inr kvs
      | JArr xs \<Rightarrow> Inr (zip (map showNat [0 ..< length xs]) xs)
      | JStr s \<Rightarrow> Inr (zip (map showNat [0 ..< length s]) (map (\<lambda>c. JStr [c]) s))
      | _ \<Rightarrow> Inr [])"

text \<open>
  A node of the imported tree. Absent or \<^verbatim>\<open>null\<close> children are the empty list, which is
  how every function of the file reads them (\<^verbatim>\<open>node.children ?? []\<close>, \<^verbatim>\<open>!nodes?.length\<close>);
  absent attributes are the empty map.
\<close>

datatype OdtNode =
  OdtNode (nodeType: string) (nodeName: string) (nodeAttributes: "(string \<times> string) list")
    (textContent: "string option") (children: "OdtNode list") (styleApplication: jv)

definition getResolvedProperties :: "OdtNode \<Rightarrow> string \<Rightarrow> jsError + (string \<times> string) list" where
  "getResolvedProperties node key =
     andThen (optGet (styleApplication node) ''resolvedProperties'') (\<lambda>guard.
       if \<not> truthy guard then Inr []
       else
         andThen (jsGet (styleApplication node) ''resolvedProperties'') (\<lambda>resolved.
           andThen (jsGet resolved key) (\<lambda>entry.
             if \<not> truthy entry then Inr []
             else
               andThen (objectEntries entry) (\<lambda>entries.
                 Inr (foldl
                        (\<lambda>result (propKey, propValue).
                           case propValue of
                             JStr s \<Rightarrow> if s \<noteq> [] then mapSet result propKey s else result
                           | _ \<Rightarrow> result)
                        [] entries)))))"

definition copyIfPresent ::
  "(string \<times> string) list \<Rightarrow> (string \<times> string) list \<Rightarrow> string \<Rightarrow> string
     \<Rightarrow> (string \<times> string) list" where
  "copyIfPresent source target src dst =
     (if truthyStr (map_of source src) then mapSet target dst (the (map_of source src))
      else target)"

text \<open>A run of \<open>copyIfPresent\<close> calls on one target, in the order of the list.\<close>

definition copyAll ::
  "(string \<times> string) list \<Rightarrow> (string \<times> string) list \<Rightarrow> (string \<times> string) list
     \<Rightarrow> (string \<times> string) list" where
  "copyAll source target pairs = foldl (\<lambda>m (src, dst). copyIfPresent source m src dst) target pairs"

definition mapParagraphProperties :: "(string \<times> string) list \<Rightarrow> (string \<times> string) list" where
  "mapParagraphProperties source =
     copyAll source []
       [(''fo:text-align'', ''text-align''),
        (''fo:margin-left'', ''margin-left''),
        (''fo:margin-right'', ''margin-right''),
        (''fo:margin-top'', ''margin-top''),
        (''fo:margin-bottom'', ''margin-bottom''),
        (''fo:text-indent'', ''text-indent''),
        (''fo:line-height'', ''line-height''),
        (''fo:padding'', ''padding''),
        (''fo:padding-left'', ''padding-left''),
        (''fo:padding-right'', ''padding-right''),
        (''fo:padding-top'', ''padding-top''),
        (''fo:padding-bottom'', ''padding-bottom''),
        (''fo:border'', ''border''),
        (''fo:border-left'', ''border-left''),
        (''fo:border-right'', ''border-right''),
        (''fo:border-top'', ''border-top''),
        (''fo:border-bottom'', ''border-bottom''),
        (''fo:background-color'', ''background-color''),
        (''style:writing-mode'', ''writing-mode''),
        (''style:vertical-align'', ''vertical-align'')]"

definition leConst :: "jsnum \<Rightarrow> rat \<Rightarrow> bool" where
  "leConst x c = (case x of Fin r \<Rightarrow> r \<le> c | NegInf \<Rightarrow> True | _ \<Rightarrow> False)"

definition gtConst :: "jsnum \<Rightarrow> rat \<Rightarrow> bool" where
  "gtConst x c = (case x of Fin r \<Rightarrow> c < r | PosInf \<Rightarrow> True | _ \<Rightarrow> False)"

definition normalizeOpacity :: "string \<Rightarrow> string option" where
  "normalizeOpacity v =
     (let trimmed = trim v
      in if endsWith ''%'' trimmed then
           (let num = parseFloat (dropLast 1 trimmed)
            in if \<not> isNaN num then Some (numberToString (divConst (clampConst 0 100 num) 100))
               else None)
         else
           (let num = parseFloat trimmed
            in if isNaN num then None
               else if geConst num 0 \<and> leConst num 1 then Some (numberToString num)
               else if gtConst num 1 \<and> leConst num 100 then Some (numberToString (divConst num 100))
               else None))"

text \<open>A decoration is listed when its style property is present and not \<open>none\<close>.\<close>

definition decoration :: "(string \<times> string) list \<Rightarrow> string \<Rightarrow> string \<Rightarrow> string list" where
  "decoration source k word =
     (if truthyStr (map_of source k) \<and> toLowerCase (the (map_of source k)) \<noteq> ''none''
      then [word] else [])"

definition mapTextProperties :: "(string \<times> string) list \<Rightarrow> (string \<times> string) list" where
  "mapTextProperties source =
     (let m1 = copyAll source []
                 [(''fo:font-weight'', ''font-weight''),
                  (''fo:font-style'', ''font-style''),
                  (''fo:font-size'', ''font-size'')];
          m2 = (if \<not> truthyStr (map_of m1 ''font-size'')
                then copyIfPresent source m1 ''style:font-size-asian'' ''font-size'' else m1);
          m3 = copyAll source m2
                 [(''fo:color'', ''color''),
                  (''fo:letter-spacing'', ''letter-spacing''),
                  (''fo:text-transform'', ''text-transform''),
                  (''fo:background-color'', ''background-color''),
                  (''style:text-outline'', ''text-outline'')];
          opacity = map_of source ''loext:opacity'';
          m4 = (if truthyStr opacity then
                  (case normalizeOpacity (the opacity) of
                     Some normalized \<Rightarrow> mapSet m3 ''opacity'' normalized
                   | None \<Rightarrow> m3)
                else m3);
          families =
            filter (\<lambda>f. truthyStr f)
              [map_of source ''style:font-name'', map_of source ''style:font-name-asian'',
               map_of source ''style:font-name-complex''];
          m5 = (if families \<noteq> [] then mapSet m4 ''font-family'' (the (hd families)) else m4);
          decorations =
            decoration source ''style:text-underline-style'' ''underline'' @
            decoration source ''style:text-line-through-style'' ''line-through'' @
            decoration source ''style:text-overline-style'' ''overline'';
          m6 = (if decorations \<noteq> []
                then mapSet m5 ''text-decoration-line'' (joinWith '' '' decorations) else m5);
          underlineColor = map_of source ''style:text-underline-color'';
          m7 = (if truthyStr underlineColor \<and> toLowerCase (the underlineColor) \<noteq> ''font-color''
                then mapSet m6 ''text-decoration-color'' (the underlineColor) else m6);
          underlineWidth = map_of source ''style:text-underline-width'';
          m8 = (if truthyStr underlineWidth
                then mapSet m7 ''text-decoration-thickness'' (the underlineWidth) else m7);
          textPosition = map_of source ''style:text-position''
      in if truthyStr textPosition then
           (let lowered = toLowerCase (the textPosition)
            in if includesStr ''super'' lowered then mapSet m8 ''vertical-align'' ''super''
               else if includesStr ''sub'' lowered then mapSet m8 ''vertical-align'' ''sub''
               else m8)
         else m8)"

definition mapTableProperties :: "(string \<times> string) list \<Rightarrow> (string \<times> string) list" where
  "mapTableProperties source =
     (let m1 = copyAll source []
                 [(''style:width'', ''width''),
                  (''fo:margin-left'', ''margin-left''),
                  (''fo:margin-right'', ''margin-right''),
                  (''fo:margin-top'', ''margin-top''),
                  (''fo:margin-bottom'', ''margin-bottom''),
                  (''fo:border'', ''border''),
                  (''fo:border-top'', ''border-top''),
                  (''fo:border-right'', ''border-right''),
                  (''fo:border-bottom'', ''border-bottom''),
                  (''fo:border-left'', ''border-left''),
                  (''fo:padding'', ''padding'')];
          borderModel = map_of source ''table:border-model'';
          m2 = (if truthyStr borderModel
                then mapSet m1 ''border-collapse''
                       (if the borderModel = ''collapsing'' then ''collapse'' else ''separate'')
                else m1);
          al = map_of source ''table:align''
      in if truthyStr al then
           (if the al = ''center'' then mapSet (mapSet m2 ''margin-left'' ''auto'') ''margin-right'' ''auto''
            else if the al = ''right'' then mapSet m2 ''margin-left'' ''auto''
            else m2)
         else m2)"

definition mapTableColumnProperties :: "(string \<times> string) list \<Rightarrow> (string \<times> string) list" where
  "mapTableColumnProperties source = copyAll source [] [(''style:column-width'', ''width'')]"

definition mapTableRowProperties :: "(string \<times> string) list \<Rightarrow> (string \<times> string) list" where
  "mapTableRowProperties source =
     (let m1 = copyAll source [] [(''style:min-row-height'', ''min-height'')];
          keepTogether = map_of source ''fo:keep-together''
      in if truthyStr keepTogether \<and> toLowerCase (the keepTogether) = ''always''
         then mapSet m1 ''page-break-inside'' ''avoid'' else m1)"

definition mapTableCellProperties :: "(string \<times> string) list \<Rightarrow> (string \<times> string) list" where
  "mapTableCellProperties source =
     copyAll source []
       [(''fo:border'', ''border''),
        (''fo:border-left'', ''border-left''),
        (''fo:border-right'', ''border-right''),
        (''fo:border-top'', ''border-top''),
        (''fo:border-bottom'', ''border-bottom''),
        (''fo:padding'', ''padding''),
        (''fo:padding-left'', ''padding-left''),
        (''fo:padding-right'', ''padding-right''),
        (''fo:padding-top'', ''padding-top''),
        (''fo:padding-bottom'', ''padding-bottom''),
        (''fo:background-color'', ''background-color''),
        (''style:vertical-align'', ''vertical-align'')]"

definition combineStyles :: "(string \<times> string) list list \<Rightarrow> (string \<times> string) list" where
  "combineStyles sts =
     foldl (\<lambda>result style.
              foldl (\<lambda>res (k, v). if v \<noteq> [] then mapSet res k v else res) result style)
       [] sts"

definition sanitizeCssValue :: "string \<Rightarrow> string" where
  "sanitizeCssValue v = replaceAll dquote [squote] v"

definition styleMapToAttr :: "(string \<times> string) list \<Rightarrow> string" where
  \<open>styleMapToAttr style =
     (let entries = filter (\<lambda>(k, v). v \<noteq> []) style
      in if entries = [] then ''''
         else '' style="'' @
              joinWith ''; '' (map (\<lambda>(k, raw). k @ '': '' @ sanitizeCssValue raw) entries) @
              ''"'')\<close>

definition escapeHtml :: "string \<Rightarrow> string" where
  "escapeHtml t =
     replaceAll squote ''&#39;''
       (replaceAll dquote ''&quot;''
         (replaceAll gt ''&gt;''
           (replaceAll lt ''&lt;''
             (replaceAll amp ''&amp;'' t))))"

definition escapeHtmlAttr :: "string \<Rightarrow> string" where
  "escapeHtmlAttr t = replaceAll (CHR 0x60) ''&#96;'' (escapeHtml t)"

text \<open>
  \<^verbatim>\<open>s.repeat(count)\<close>: a \<open>RangeError\<close> for a negative or infinite count, the repetition
  otherwise (the limit an engine puts on the length of a string is not modelled).
\<close>

definition repeatStr :: "string \<Rightarrow> jsnum \<Rightarrow> jsError + string" where
  "repeatStr s count =
     (case count of
        NaN \<Rightarrow> Inr ''''
      | PosInf \<Rightarrow> Inl RangeError
      | NegInf \<Rightarrow> Inl RangeError
      | Fin r \<Rightarrow>
          if r \<le> - 1 then Inl RangeError else Inr (concat (replicate (nat \<lfloor>r\<rfloor>) s)))"

text \<open>\<^verbatim>\<open>parseInt(raw, 10) || 1\<close> and \<^verbatim>\<open>Math.max(count, 1)\<close>.\<close>

definition orOne :: "jsnum \<Rightarrow> jsnum" where
  "orOne x = (if truthyNum (Some x) then x else Fin 1)"

definition maxOne :: "jsnum \<Rightarrow> jsnum" where
  "maxOne x = (case x of NaN \<Rightarrow> NaN | PosInf \<Rightarrow> PosInf | NegInf \<Rightarrow> Fin 1 | Fin r \<Rightarrow> Fin (max r 1))"

definition convertTextSpace :: "OdtNode \<Rightarrow> jsError + string" where
  "convertTextSpace node =
     (let countRaw = map_of (nodeAttributes node) ''text:c'';
          count = (if truthyStr countRaw then orOne (parseInt (the countRaw)) else Fin 1)
      in repeatStr ''&nbsp;'' (maxOne count))"

definition convertTableColumn :: "OdtNode \<Rightarrow> jsError + string" where
  "convertTableColumn column =
     andThen (getResolvedProperties column ''style:table-column-properties'') (\<lambda>props.
       (let style = combineStyles [mapTableColumnProperties props];
            styleAttr = styleMapToAttr style;
            repeatRaw = map_of (nodeAttributes column) ''table:number-columns-repeated'';
            repeat = (if truthyStr repeatRaw then maxOne (orOne (parseInt (the repeatRaw)))
                      else Fin 1);
            colHtml = ''<col'' @ styleAttr @ '' />''
        in repeatStr colHtml repeat))"

text \<open>The columns are converted one after the other: the first error is the one thrown.\<close>

fun convertEach :: "('a \<Rightarrow> jsError + string) \<Rightarrow> 'a list \<Rightarrow> jsError + string list" where
  "convertEach f [] = Inr []"
| "convertEach f (x # xs) =
     andThen (f x) (\<lambda>h. andThen (convertEach f xs) (\<lambda>hs. Inr (h # hs)))"

definition convertTableColumns :: "OdtNode list \<Rightarrow> jsError + string" where
  "convertTableColumns columns =
     (if columns = [] then Inr ''''
      else
        andThen (convertEach convertTableColumn columns) (\<lambda>items.
          Inr (''<colgroup>'' @ concat items @ ''</colgroup>'')))"

definition convertImage :: "OdtNode \<Rightarrow> string" where
  \<open>convertImage node =
     (let href = (case map_of (nodeAttributes node) ''xlink:href'' of Some h \<Rightarrow> h | None \<Rightarrow> '''');
          mime = map_of (nodeAttributes node) ''draw:mime-type'';
          attrParts =
            [''data-odt-src="'' @ escapeHtmlAttr href @ ''"''] @
            (if href \<noteq> [] then [''src="'' @ escapeHtmlAttr href @ ''"''] else []) @
            (if truthyStr mime then [''data-odt-mime="'' @ escapeHtmlAttr (the mime) @ ''"'']
             else [])
      in ''<img '' @ joinWith '' '' attrParts @ '' />'')\<close>

definition getSpanAttr :: "string option \<Rightarrow> string \<Rightarrow> string" where
  \<open>getSpanAttr v attrName =
     (if \<not> truthyStr v then ''''
      else
        (let parsed = parseInt (the v)
         in if isNaN parsed \<or> leConst parsed 1 then ''''
            else '' '' @ attrName @ ''="'' @ numberToString parsed @ ''"''))\<close>

section \<open>odtJsonToHtml.ts: the conversion\<close>

fun findNodeByName :: "OdtNode \<Rightarrow> string \<Rightarrow> OdtNode option"
  and findInChildren :: "OdtNode list \<Rightarrow> string \<Rightarrow> OdtNode option" where
  "findNodeByName (OdtNode ty nm attrs txt kids sa) targetName =
     (if nm = targetName then Some (OdtNode ty nm attrs txt kids sa)
      else findInChildren kids targetName)"
| "findInChildren [] targetName = None"
| "findInChildren (child # rest) targetName =
     (case findNodeByName child targetName of
        Some found \<Rightarrow> Some found
      | None \<Rightarrow> findInChildren rest targetName)"

fun isBlockLevelParagraphChild :: "OdtNode \<Rightarrow> bool" where
  "isBlockLevelParagraphChild (OdtNode ty nm attrs txt kids sa) =
     (if nm = ''table:table'' then True
      else if nm = ''draw:text-box'' then True
      else if nm = ''draw:frame'' then list_ex isBlockLevelParagraphChild kids
      else False)"

text \<open>
  The loop of \<open>convertParagraph\<close> over the children, each given with whether it is
  block-level and with its HTML: the segments pushed so far and the inline buffer.
\<close>

definition flushInline :: "string \<Rightarrow> string list \<times> string list \<Rightarrow> string list \<times> string list" where
  \<open>flushInline styleAttr st =
     (case st of (segments, inlineBuffer) \<Rightarrow>
        if inlineBuffer = [] then (segments, inlineBuffer)
        else
          (let content = concat inlineBuffer;
               inner = (if content = [] then ''<br />'' else content)
           in (segments @ [''<p'' @ styleAttr @ ''>'' @ inner @ ''</p>''], [])))\<close>

definition paragraphStep ::
  "string \<Rightarrow> string list \<times> string list \<Rightarrow> bool \<times> string \<Rightarrow> string list \<times> string list" where
  "paragraphStep styleAttr st child =
     (case child of (isBlock, html) \<Rightarrow>
        if isBlock then
          (case flushInline styleAttr st of (segments, inlineBuffer) \<Rightarrow>
             (if html \<noteq> [] then segments @ [html] else segments, inlineBuffer))
        else (fst st, snd st @ [html]))"

definition paragraphHtml :: "string \<Rightarrow> (bool \<times> string) list \<Rightarrow> string" where
  \<open>paragraphHtml styleAttr rendered =
     (if rendered = [] then ''<p'' @ styleAttr @ ''><br /></p>''
      else
        (let segments = fst (flushInline styleAttr (foldl (paragraphStep styleAttr) ([], []) rendered))
         in if segments = [] then
              (let fallback = concat (map snd rendered);
                   inner = (if fallback = [] then ''<br />'' else fallback)
               in ''<p'' @ styleAttr @ ''>'' @ inner @ ''</p>'')
            else concat segments))\<close>

text \<open>
  The conversion functions call one another. Each converts the children it is given
  from left to right, so the first error is the one thrown. \<open>nodesToHtml\<close> joins the
  HTML of the nodes (dropping the empty strings changes nothing in the join);
  \<open>paragraphChildren\<close> is the HTML of each child of a paragraph; \<open>rowChildren\<close> is the loop of
  \<open>convertTableRow\<close> over the children of a row; \<open>rowsToHtml\<close> converts each node as a row;
  \<open>bodyRows\<close> and \<open>headerGroups\<close> do so for the children of a table that are rows and
  header groups. In \<open>convertParagraph\<close> the fallback \<open>nodesToHtml(children)\<close> converts the
  children a second time, with the same result: it is read off the first conversion.
\<close>

function (sequential) nodeToHtml :: "OdtNode \<Rightarrow> jsError + string"
  and nodesToHtml :: "OdtNode list \<Rightarrow> jsError + string"
  and paragraphChildren :: "OdtNode list \<Rightarrow> jsError + (bool \<times> string) list"
  and rowChildren :: "string \<Rightarrow> OdtNode list \<Rightarrow> jsError + string"
  and rowsToHtml :: "string \<Rightarrow> OdtNode list \<Rightarrow> jsError + string"
  and bodyRows :: "OdtNode list \<Rightarrow> jsError + string"
  and headerGroups :: "OdtNode list \<Rightarrow> jsError + string"
  and convertParagraph :: "OdtNode \<Rightarrow> jsError + string"
  and convertSpan :: "OdtNode \<Rightarrow> jsError + string"
  and convertTable :: "OdtNode \<Rightarrow> jsError + string"
  and convertTableHeaderRows :: "OdtNode \<Rightarrow> jsError + string"
  and convertTableRow :: "string \<Rightarrow> OdtNode \<Rightarrow> jsError + string"
  and convertTableCell :: "string \<Rightarrow> OdtNode \<Rightarrow> jsError + string" where
  "nodeToHtml (OdtNode ty nm attrs txt kids sa) =
     (if ty = ''TEXT'' \<or> nm = ''#text''
        then Inr (escapeHtml (case txt of Some t \<Rightarrow> t | None \<Rightarrow> ''''))
      else if nm = ''text:p'' then convertParagraph (OdtNode ty nm attrs txt kids sa)
      else if nm = ''text:span'' then convertSpan (OdtNode ty nm attrs txt kids sa)
      else if nm = ''text:s'' then convertTextSpace (OdtNode ty nm attrs txt kids sa)
      else if nm = ''table:table'' then convertTable (OdtNode ty nm attrs txt kids sa)
      else if nm = ''table:table-header-rows''
        then convertTableHeaderRows (OdtNode ty nm attrs txt kids sa)
      else if nm = ''table:table-row'' then convertTableRow ''td'' (OdtNode ty nm attrs txt kids sa)
      else if nm = ''table:table-cell''
        then convertTableCell ''td'' (OdtNode ty nm attrs txt kids sa)
      else if nm = ''table:covered-table-cell'' then Inr ''''
      else if nm = ''draw:frame'' \<or> nm = ''draw:text-box'' then nodesToHtml kids
      else if nm = ''draw:image'' then Inr (convertImage (OdtNode ty nm attrs txt kids sa))
      else if nm \<in> {''text:sequence-decls'', ''text:sequence-decl'', ''text:bookmark'',
                     ''text:bookmark-start'', ''text:bookmark-end''} then Inr ''''
      else nodesToHtml kids)"
| "nodesToHtml [] = Inr ''''"
| "nodesToHtml (node # rest) =
     andThen (nodeToHtml node) (\<lambda>h. andThen (nodesToHtml rest) (\<lambda>hs. Inr (h @ hs)))"
| "paragraphChildren [] = Inr []"
| "paragraphChildren (child # rest) =
     andThen (nodeToHtml child) (\<lambda>h.
       andThen (paragraphChildren rest) (\<lambda>hs.
         Inr ((isBlockLevelParagraphChild child, h) # hs)))"
| "rowChildren tag [] = Inr ''''"
| "rowChildren tag (child # rest) =
     andThen
       (if nodeName child = ''table:table-cell'' then convertTableCell tag child
        else if nodeName child = ''table:covered-table-cell'' then Inr ''''
        else nodeToHtml child)
       (\<lambda>h. andThen (rowChildren tag rest) (\<lambda>hs. Inr (h @ hs)))"
| "rowsToHtml tag [] = Inr ''''"
| "rowsToHtml tag (row # rest) =
     andThen (convertTableRow tag row) (\<lambda>h. andThen (rowsToHtml tag rest) (\<lambda>hs. Inr (h @ hs)))"
| "bodyRows [] = Inr ''''"
| "bodyRows (child # rest) =
     (if nodeName child = ''table:table-row''
      then andThen (convertTableRow ''td'' child) (\<lambda>h. andThen (bodyRows rest) (\<lambda>hs. Inr (h @ hs)))
      else bodyRows rest)"
| "headerGroups [] = Inr ''''"
| "headerGroups (child # rest) =
     (if nodeName child = ''table:table-header-rows''
      then andThen (rowsToHtml ''th'' (children child)) (\<lambda>h.
             andThen (headerGroups rest) (\<lambda>hs. Inr (h @ hs)))
      else headerGroups rest)"
| "convertParagraph (OdtNode ty nm attrs txt kids sa) =
     andThen (getResolvedProperties (OdtNode ty nm attrs txt kids sa) ''style:paragraph-properties'')
       (\<lambda>paragraphProps.
     andThen (getResolvedProperties (OdtNode ty nm attrs txt kids sa) ''style:text-properties'')
       (\<lambda>textProps.
     (let paragraphStyle =
            combineStyles [mapParagraphProperties paragraphProps, mapTextProperties textProps];
          styleAttr = styleMapToAttr paragraphStyle
      in andThen (paragraphChildren kids) (\<lambda>rendered. Inr (paragraphHtml styleAttr rendered)))))"
| "convertSpan (OdtNode ty nm attrs txt kids sa) =
     andThen (getResolvedProperties (OdtNode ty nm attrs txt kids sa) ''style:text-properties'')
       (\<lambda>textProps.
     (let textStyle = combineStyles [mapTextProperties textProps];
          styleAttr = styleMapToAttr textStyle
      in andThen (nodesToHtml kids) (\<lambda>content.
           if styleAttr = [] \<and> content \<noteq> [] then Inr content
           else
             (let inner = (if content = [] then ''&nbsp;'' else content)
              in Inr (''<span'' @ styleAttr @ ''>'' @ inner @ ''</span>'')))))"
| "convertTable (OdtNode ty nm attrs txt kids sa) =
     andThen (getResolvedProperties (OdtNode ty nm attrs txt kids sa) ''style:table-properties'')
       (\<lambda>tableProps.
     (let style = combineStyles [mapTableProperties tableProps];
          styleAttr = styleMapToAttr style;
          columns = filter (\<lambda>child. nodeName child = ''table:table-column'') kids;
          anyHeaderRow =
            list_ex (\<lambda>child. nodeName child = ''table:table-header-rows'' \<and> children child \<noteq> [])
              kids;
          anyBodyRow = list_ex (\<lambda>child. nodeName child = ''table:table-row'') kids
      in andThen (convertTableColumns columns) (\<lambda>colgroup.
         andThen (headerGroups kids) (\<lambda>headRows.
         andThen (bodyRows kids) (\<lambda>rowsHtml.
           (let thead = (if anyHeaderRow then ''<thead>'' @ headRows @ ''</thead>'' else '''');
                tbody = (if anyBodyRow then ''<tbody>'' @ rowsHtml @ ''</tbody>'' else '''');
                inner = colgroup @ thead @ tbody;
                classAttr = '' class='' @ [dquote] @ ''tiptap-table'' @ [dquote]
            in Inr (''<table'' @ classAttr @ styleAttr @ ''>'' @ inner @ ''</table>'')))))))"
| "convertTableHeaderRows (OdtNode ty nm attrs txt kids sa) =
     andThen (rowsToHtml ''th'' kids) (\<lambda>rowsHtml.
       Inr (if rowsHtml \<noteq> [] then ''<thead>'' @ rowsHtml @ ''</thead>'' else ''''))"
| "convertTableRow tag (OdtNode ty nm attrs txt kids sa) =
     andThen (getResolvedProperties (OdtNode ty nm attrs txt kids sa) ''style:table-row-properties'')
       (\<lambda>rowProps.
     (let style = combineStyles [mapTableRowProperties rowProps];
          styleAttr = styleMapToAttr style
      in andThen (rowChildren tag kids) (\<lambda>cellsHtml.
           Inr (''<tr'' @ styleAttr @ ''>'' @ cellsHtml @ ''</tr>''))))"
| "convertTableCell tag (OdtNode ty nm attrs txt kids sa) =
     andThen (getResolvedProperties (OdtNode ty nm attrs txt kids sa) ''style:table-cell-properties'')
       (\<lambda>cellProps.
     andThen (getResolvedProperties (OdtNode ty nm attrs txt kids sa) ''style:text-properties'')
       (\<lambda>textProps.
     (let style = combineStyles [mapTableCellProperties cellProps, mapTextProperties textProps];
          styleAttr = styleMapToAttr style;
          colspanAttr = getSpanAttr (map_of attrs ''table:number-columns-spanned'') ''colspan'';
          rowspanAttr = getSpanAttr (map_of attrs ''table:number-rows-spanned'') ''rowspan'';
          attrsHtml = styleAttr @ colspanAttr @ rowspanAttr
      in andThen (nodesToHtml kids) (\<lambda>content.
           (let inner = (if content = [] then ''<br />'' else content)
            in Inr (''<'' @ tag @ attrsHtml @ ''>'' @ inner @ ''</'' @ tag @ ''>''))))))"
  by pat_completeness auto

lemma size_children: "size_list size (children n) < size n"
  by (cases n) simp

text \<open>
  Every call is on the children of the node, or on the same node from \<open>nodeToHtml\<close>: twice
  the size of the argument, plus one for \<open>nodeToHtml\<close> and for the functions on lists,
  decreases.
\<close>

termination nodeToHtml
  apply (relation "measure
    (case_sum
      (case_sum
        (case_sum (\<lambda>n. 2 * size n + 1)
          (case_sum (\<lambda>ns. 2 * size_list size ns + 1) (\<lambda>ns. 2 * size_list size ns + 1)))
        (case_sum (\<lambda>(tag, ns). 2 * size_list size ns + 1)
          (case_sum (\<lambda>(tag, ns). 2 * size_list size ns + 1) (\<lambda>ns. 2 * size_list size ns + 1))))
      (case_sum
        (case_sum (\<lambda>ns. 2 * size_list size ns + 1)
          (case_sum (\<lambda>n. 2 * size n) (\<lambda>n. 2 * size n)))
        (case_sum
          (case_sum (\<lambda>n. 2 * size n) (\<lambda>n. 2 * size n))
          (case_sum (\<lambda>(tag, n). 2 * size n) (\<lambda>(tag, n). 2 * size n)))))")
                    apply (auto simp: less_Suc_eq_le)
  subgoal for child rest using size_children [of child] by linarith
  done

text \<open>The document, \<^verbatim>\<open>null\<close> or \<^verbatim>\<open>undefined\<close> (\<open>None\<close>) or an object with its content.\<close>

definition odtJsonToHtml :: "OdtNode option option \<Rightarrow> jsError + string" where
  "odtJsonToHtml document =
     (case document of
        None \<Rightarrow> Inr ''''
      | Some None \<Rightarrow> Inr ''''
      | Some (Some content) \<Rightarrow>
          (case findNodeByName content ''office:text'' of
             None \<Rightarrow> Inr ''''
           | Some officeText \<Rightarrow> nodesToHtml (children officeText)))"

section \<open>zipOdt.ts\<close>

text \<open>
  The packager builds the archive with the JSZip library, which is not part of the
  repository. Its documented behaviour is modelled: a JSZip object holds its entries in
  the order in which they were added; \<^verbatim>\<open>file(name, data, options)\<close> adds or replaces the entry
  \<open>root + name\<close>, after the folder entries of its path that are missing, and keeps the
  \<open>compression\<close> option when one is given; \<^verbatim>\<open>folder(name)\<close> adds the folder entry when it is
  missing and returns a view of the same archive whose root is the folder;
  \<^verbatim>\<open>generateAsync({ compression })\<close> writes every entry with its own compression option, or
  with the given default when it has none. A folder entry and an entry without data are
  stored.
\<close>

datatype compression = STORE | DEFLATE

record zipObject =
  objData :: string
  objDir :: bool
  objCompression :: "compression option"

record jszip =
  files :: "(string \<times> zipObject) list"
  root :: string

definition newJSZip :: jszip where
  "newJSZip = \<lparr>files = [], root = ''''\<rparr>"

definition forceTrailingSlash :: "string \<Rightarrow> string" where
  "forceTrailingSlash path = (if endsWith ''/'' path then path else path @ ''/'')"

text \<open>The folders above a path, the outermost first.\<close>

definition parentFolders :: "string \<Rightarrow> string list" where
  "parentFolders path =
     (let parts = splitOn (CHR ''/'') (if endsWith ''/'' path then dropLast 1 path else path)
      in map (\<lambda>k. joinWith ''/'' (take k parts) @ ''/'') [1 ..< length parts])"

definition folderAdd :: "(string \<times> zipObject) list \<Rightarrow> string \<Rightarrow> (string \<times> zipObject) list" where
  "folderAdd fs folderName =
     (if map_of fs folderName \<noteq> None then fs
      else mapSet fs folderName \<lparr>objData = '''', objDir = True, objCompression = Some STORE\<rparr>)"

definition fileAdd ::
  "(string \<times> zipObject) list \<Rightarrow> string \<Rightarrow> string \<Rightarrow> compression option
     \<Rightarrow> (string \<times> zipObject) list" where
  "fileAdd fs path content copt =
     (let fs1 = foldl folderAdd fs (parentFolders path)
      in mapSet fs1 path
           (if content = [] then \<lparr>objData = '''', objDir = False, objCompression = Some STORE\<rparr>
            else \<lparr>objData = content, objDir = False, objCompression = copt\<rparr>))"

definition zipFile :: "jszip \<Rightarrow> string \<Rightarrow> string \<Rightarrow> compression option \<Rightarrow> jszip" where
  "zipFile z path content copt =
     z\<lparr>files := fileAdd (files z) (root z @ path) content copt\<rparr>"

definition zipFolder :: "jszip \<Rightarrow> string \<Rightarrow> jszip" where
  "zipFolder z path =
     (let folderName = forceTrailingSlash (root z @ path)
      in \<lparr>files = foldl folderAdd (files z) (parentFolders folderName @ [folderName]),
          root = folderName\<rparr>)"

text \<open>An entry of the generated archive: its name, its content and how it is written.\<close>

record archiveEntry =
  entryName :: string
  entryContent :: string
  entryIsFolder :: bool
  entryMethod :: compression

definition generate :: "jszip \<Rightarrow> compression \<Rightarrow> archiveEntry list" where
  "generate z defaultCompression =
     map (\<lambda>(path, obj).
            \<lparr>entryName = path, entryContent = objData obj, entryIsFolder = objDir obj,
             entryMethod = (case objCompression obj of Some c \<Rightarrow> c | None \<Rightarrow> defaultCompression)\<rparr>)
       (files z)"

text \<open>
  \<open>makeAndDownloadOdt\<close> hands the generated archive and the file name to \<^verbatim>\<open>saveAs\<close>: both
  are its result here. The time of the call, which the meta part records, is the
  parameter \<open>now\<close>.
\<close>

definition makeAndDownloadOdt :: "OdtDoc \<Rightarrow> string \<Rightarrow> string \<Rightarrow> archiveEntry list \<times> string" where
  "makeAndDownloadOdt doc filename now =
     (let zip0 = zipFile newJSZip ''mimetype'' ''application/vnd.oasis.opendocument.text''
                   (Some STORE);
          contentXml = buildContentXml doc;
          stylesXml = odfStylesXml;
          metaXml = odfMetaXml (title (meta doc)) (creator (meta doc)) now;
          settingsXml = odfSettingsXml;
          manifestXml = odfManifestXml;
          zip1 = zipFile zip0 ''content.xml'' contentXml None;
          zip2 = zipFile zip1 ''styles.xml'' stylesXml None;
          zip3 = zipFile zip2 ''meta.xml'' metaXml None;
          zip4 = zipFile zip3 ''settings.xml'' settingsXml None;
          zip5 = zipFile (zipFolder zip4 ''META-INF'') ''manifest.xml'' manifestXml None
      in (generate zip5 DEFLATE, filename))"

section \<open>Reference notions and sample values\<close>

text \<open>
  The entity XML gives each of its five reserved characters; any other character stands
  for itself.
\<close>

definition xmlEntity :: "char \<Rightarrow> string" where
  "xmlEntity c =
     (if c = amp then ''&amp;''
      else if c = lt then ''&lt;''
      else if c = gt then ''&gt;''
      else if c = dquote then ''&quot;''
      else if c = squote then ''&apos;''
      else [c])"

text \<open>A span with a text and no formatting, and a paragraph with spans and no layout.\<close>

definition plainSpan :: "string \<Rightarrow> TextSpan" where
  "plainSpan t =
     \<lparr>bold = None, italic = None, underline = None, color = None, fontSize = None,
      fontFamily = None, spanText = t, attributes = None\<rparr>"

definition plainParagraph :: "TextSpan list \<Rightarrow> Paragraph" where
  "plainParagraph sps =
     \<lparr>lineHeight = None, marginTop = None, marginBottom = None, marginLeft = None,
      marginRight = None, textIndent = None, align = None, spans = sps\<rparr>"

text \<open>
  The number of columns that the cells of a row occupy, a cell without \<open>colSpan\<close> occupying
  one, and its maximum over the rows of a table.
\<close>

definition spanSum :: "TableRow \<Rightarrow> nat" where
  "spanSum r = sum_list (map (\<lambda>c. case colSpan c of None \<Rightarrow> 1 | Some n \<Rightarrow> n) (cells r))"

definition specColumnCount :: "Table \<Rightarrow> nat" where
  "specColumnCount t = (if rows t = [] then 0 else Max (set (map spanSum (rows t))))"

text \<open>A table of one row whose only cell spans two columns.\<close>

definition spanTable :: Table where
  "spanTable =
     \<lparr>rows = [\<lparr>cells = [\<lparr>paragraphs = [], colSpan = Some 2, rowSpan = None,
                            backgroundColor = None\<rparr>]\<rparr>],
      widthPct = None, widthCm = None, columnWidths = None\<rparr>"

text \<open>
  The number that \<open>cssLengthToCm\<close> reads from a length string: what precedes the
  two-letter unit when the trimmed, lower-cased string ends with one, the whole string
  otherwise.
\<close>

definition lengthUnits :: "string list" where
  "lengthUnits = [''cm'', ''mm'', ''in'', ''pt'', ''px'']"

definition lengthValue :: "string \<Rightarrow> jsnum" where
  "lengthValue s =
     (let t = toLowerCase (trim s)
      in if list_ex (\<lambda>u. endsWith u t) lengthUnits then parseFloat (dropLast 2 t)
         else parseFloat t)"

text \<open>
  The XML of the text of a span under a style name: the text is cut at its line feeds,
  each piece that is not empty is a \<^verbatim>\<open><text:span>\<close> holding the piece with every reserved
  character replaced by its entity, and a \<^verbatim>\<open><text:line-break/>\<close> stands between two pieces.
\<close>

definition styleNameAttr :: "string option \<Rightarrow> string" where
  \<open>styleNameAttr n = (case n of None \<Rightarrow> [] | Some s \<Rightarrow> '' text:style-name="'' @ s @ ''"'')\<close>

definition pieceXml :: "string option \<Rightarrow> string \<Rightarrow> string" where
  \<open>pieceXml n piece =
     (if piece = [] then []
      else ''<text:span'' @ styleNameAttr n @ ''>'' @ concat (map xmlEntity piece) @
           ''</text:span>'')\<close>

definition spanTextXml :: "string option \<Rightarrow> string \<Rightarrow> string" where
  \<open>spanTextXml n t = joinWith ''<text:line-break/>'' (map (pieceXml n) (splitOn newline t))\<close>

text \<open>A style name, or its absence, that holds none of the five reserved characters.\<close>

definition xmlSpecials :: "char list" where
  "xmlSpecials = [amp, lt, gt, dquote, squote]"

definition cleanName :: "string \<Rightarrow> bool" where
  "cleanName n = list_all (\<lambda>c. c \<notin> set xmlSpecials) n"

definition cleanOpt :: "string option \<Rightarrow> bool" where
  "cleanOpt n = (case n of None \<Rightarrow> True | Some s \<Rightarrow> cleanName s)"

text \<open>
  The registries of a build: in each of the five maps the keys are distinct and the
  names are the prefix of the map followed by 1, 2, 3, ... in the order of insertion.
\<close>

definition numbered :: "string \<Rightarrow> string list \<Rightarrow> bool" where
  "numbered prefix names = (names = map (\<lambda>i. prefix @ showNat (Suc i)) [0 ..< length names])"

definition registryInv :: "StyleRegistry \<Rightarrow> bool" where
  "registryInv reg =
     (distinct (map fst (spanStyles reg))
      \<and> numbered ''T'' (map (fst \<circ> snd) (spanStyles reg))
      \<and> distinct (map fst (paragraphStyles reg))
      \<and> numbered ''PStyle'' (map (fst \<circ> snd) (paragraphStyles reg))
      \<and> distinct (map fst (tableStyles reg))
      \<and> numbered ''TableCustom'' (map (fst \<circ> snd) (tableStyles reg))
      \<and> distinct (map fst (tableColumnStyles reg))
      \<and> numbered ''TableColumnCustom'' (map snd (tableColumnStyles reg))
      \<and> distinct (map fst (tableCellStyles reg))
      \<and> numbered ''TableCellCustom'' (map (fst \<circ> snd) (tableCellStyles reg)))"

text \<open>
  Sample markup: the child nodes \<^verbatim>\<open>a<b>b<i></i>c</b>d\<close> of a paragraph, whose raw spans are
  one plain, two bold and one plain.
\<close>

definition runNodes :: "domNode list" where
  "runNodes =
     [TextNode ''a'',
      ElementNode ''B'' [] None [TextNode ''b'', ElementNode ''I'' [] None [], TextNode ''c''],
      TextNode ''d'']"

text \<open>The elements parsed from \<^verbatim>\<open><p><br></p>\<close> and from \<^verbatim>\<open><p></p>\<close>.\<close>

definition brParagraph :: domNode where
  "brParagraph = ElementNode ''P'' [] None [ElementNode ''BR'' [] None []]"

definition emptyParagraph :: domNode where
  "emptyParagraph = ElementNode ''P'' [] None []"

text \<open>A document with no block and no title.\<close>

definition emptyDoc :: OdtDoc where
  "emptyDoc =
     \<lparr>meta = \<lparr>title = None, creator = None\<rparr>, styles = \<lparr>bodyFont = None\<rparr>, body = []\<rparr>"

text \<open>
  A document whose body is one paragraph holding one \<^verbatim>\<open>text:s\<close> element, the count of which
  is a number of 400 digits; a content node without a body; a paragraph whose
  \<^verbatim>\<open>resolvedProperties\<close> is a number.
\<close>

definition hugeCount :: string where
  "hugeCount = replicate 400 (CHR ''9'')"

definition spaceNode :: OdtNode where
  "spaceNode = OdtNode ''element'' ''text:s'' [(''text:c'', hugeCount)] None [] JUndefined"

definition spaceDoc :: OdtNode where
  "spaceDoc =
     OdtNode ''element'' ''office:document-content'' [] None
       [OdtNode ''element'' ''office:body'' [] None
          [OdtNode ''element'' ''office:text'' [] None
             [OdtNode ''element'' ''text:p'' [] None [spaceNode] JUndefined]
             JUndefined]
          JUndefined]
       JUndefined"

definition bodilessDoc :: OdtNode where
  "bodilessDoc = OdtNode ''element'' ''office:document-content'' [] None [] JUndefined"

definition malformedParagraph :: OdtNode where
  "malformedParagraph =
     OdtNode ''element'' ''text:p'' [] None []
       (JObj [(''resolvedProperties'', JNum (Fin 5))])"

text \<open>
  The formatting of a span as the registry reads it: a flag that is absent counts as
  false and a string that is absent as empty. A span is \<open>formatted\<close> when it has no font
  family and some formatting: these are the spans the registry names. A registry is a
  later one when it is a registry of a build and its span styles start with those of the
  earlier one.
\<close>

definition strOf :: "string option \<Rightarrow> string" where
  "strOf v = (if truthyStr v then the v else [])"

definition formatting :: "TextSpan \<Rightarrow> bool \<times> bool \<times> bool \<times> string \<times> string" where
  "formatting sp =
     (truthyBool (bold sp), truthyBool (italic sp), truthyBool (underline sp),
      strOf (color sp), strOf (fontSize sp))"

definition formatted :: "TextSpan \<Rightarrow> bool" where
  "formatted sp =
     (\<not> truthyStr (fontFamily sp)
      \<and> (truthyBool (bold sp) \<or> truthyBool (italic sp) \<or> truthyBool (underline sp)
         \<or> truthyStr (color sp) \<or> truthyStr (fontSize sp)))"

definition laterRegistry :: "StyleRegistry \<Rightarrow> StyleRegistry \<Rightarrow> bool" where
  "laterRegistry r r' =
     (registryInv r' \<and> take (length (spanStyles r)) (spanStyles r') = spanStyles r)"

definition bar :: char where "bar = CHR ''|''"

text \<open>Two bold spans in the serif family, one of them also italic.\<close>

definition serifBold :: TextSpan where
  "serifBold = (plainSpan ''x'')\<lparr>bold := Some True, fontFamily := Some ''serif''\<rparr>"

definition serifBoldItalic :: TextSpan where
  "serifBoldItalic =
     (plainSpan ''y'')\<lparr>bold := Some True, italic := Some True, fontFamily := Some ''serif''\<rparr>"


section \<open>Lists, strings and the threaded registry\<close>

lemma splitOn_not_Nil: "splitOn c s \<noteq> []"
  by (induction s) (auto split: list.splits)

lemma splitOn_no_sep: "w \<in> set (splitOn c s) \<Longrightarrow> c \<notin> set w"
proof (induction s arbitrary: w)
  case Nil
  then show ?case by simp
next
  case (Cons x xs)
  obtain v vs where s: "splitOn c xs = v # vs"
    using splitOn_not_Nil [of c xs] by (cases "splitOn c xs") auto
  with Cons.IH have "c \<notin> set v" "\<And>u. u \<in> set vs \<Longrightarrow> c \<notin> set u" by auto
  with Cons.prems s show ?case by (auto split: if_splits)
qed

lemma concat_concat_map: "concat (concat xss) = concat (map concat xss)"
  by (induction xss) simp_all

lemma joinWith_Cons: "joinWith sep (x # xs) = x @ concat (map (\<lambda>y. sep @ y) xs)"
  by (induction xs arbitrary: x) simp_all

text \<open>Every element \<open>mapState\<close> returns is the result of the function on some element.\<close>

lemma mapState_elem:
  "y \<in> set (fst (mapState f xs s)) \<Longrightarrow> \<exists>x \<in> set xs. \<exists>s'. y = fst (f x s')"
proof (induction xs arbitrary: s)
  case Nil
  then show ?case by simp
next
  case (Cons x xs)
  obtain y1 s1 where f: "f x s = (y1, s1)" by (cases "f x s")
  obtain ys s2 where r: "mapState f xs s1 = (ys, s2)" by (cases "mapState f xs s1")
  from Cons.prems f r have "y = y1 \<or> y \<in> set ys" by simp
  then show ?case
  proof
    assume "y = y1"
    with f have "y = fst (f x s)" by simp
    then show ?thesis by auto
  next
    assume "y \<in> set ys"
    with r have "y \<in> set (fst (mapState f xs s1))" by simp
    from Cons.IH [OF this] show ?thesis by auto
  qed
qed

lemma mapState_Cons:
  "mapState f (x # xs) s =
     (fst (f x s) # fst (mapState f xs (snd (f x s))), snd (mapState f xs (snd (f x s))))"
  by (simp add: case_prod_beta)

lemma length_mapState: "length (fst (mapState f xs s)) = length xs"
  by (induction xs arbitrary: s) (simp_all add: mapState_Cons del: mapState.simps(2))

lemma mapState_inv:
  assumes "\<And>x s. P s \<Longrightarrow> P (snd (f x s))" and "P s"
  shows "P (snd (mapState f xs s))"
  using assms(2)
proof (induction xs arbitrary: s)
  case Nil
  then show ?case by simp
next
  case (Cons x xs)
  from Cons.IH [OF assms(1) [OF Cons.prems, of x]] show ?case
    by (simp add: mapState_Cons del: mapState.simps(2))
qed

section \<open>Evaluating numbers\<close>

text \<open>
  Rewrite rules that evaluate the number functions on literals: the digits of a numeral,
  the floor of a fraction, a finite value inside the range of the doubles, and the
  reading of a string of digits.
\<close>

lemma digitChar_simps:
  "digitChar 0 = CHR ''0''" "digitChar (Suc 0) = CHR ''1''" "digitChar 2 = CHR ''2''"
  "digitChar 3 = CHR ''3''" "digitChar 4 = CHR ''4''" "digitChar 5 = CHR ''5''"
  "digitChar 6 = CHR ''6''" "digitChar 7 = CHR ''7''" "digitChar 8 = CHR ''8''"
  "digitChar 9 = CHR ''9''"
  by code_simp+

lemma showNat_small: "showNat 0 = ''0''" "showNat (Suc 0) = ''1''"
  by (simp_all add: showNat.simps digitChar_simps)

lemma showNat_numeral:
  "showNat (numeral k) =
     (if (numeral k :: nat) < 10 then [digitChar (numeral k)]
      else showNat (numeral k div 10) @ [digitChar (numeral k mod 10)])"
  by (rule showNat.simps)

lemmas showNat_eval = showNat_small showNat_numeral digitChar_simps

lemma floor_numeral_div: "\<lfloor>(numeral a :: rat) / numeral b\<rfloor> = numeral a div numeral b"
  using floor_divide_of_int_eq [of "numeral a" "numeral b", where ?'a = rat] by simp

lemma floor_one_div: "\<lfloor>(1 :: rat) / numeral b\<rfloor> = 1 div numeral b"
  using floor_divide_of_int_eq [of 1 "numeral b", where ?'a = rat] by simp

lemma toNumber_Fin:
  assumes "r = 0 \<or> 1 / 10 ^ 9 \<le> \<bar>r\<bar>" and "\<bar>r\<bar> \<le> 10 ^ 21"
  shows "toNumber r = Fin r"
proof -
  have big: "(10::rat) ^ 21 < 2 ^ 1024 - 2 ^ 970" by simp
  have small: "(1::rat) / 2 ^ 1075 < 1 / 10 ^ 9" by simp
  from assms(2) big have "\<not> 2 ^ 1024 - 2 ^ 970 \<le> r" "\<not> r \<le> - (2 ^ 1024 - 2 ^ 970)"
    by linarith+
  moreover from assms(1) small have "r = 0 \<or> \<not> \<bar>r\<bar> \<le> 1 / 2 ^ 1075" by linarith
  ultimately show ?thesis unfolding toNumber_def by auto
qed

lemma isDigit_hd:
  "isDigit c \<Longrightarrow> \<not> isSpace c \<and> c \<noteq> CHR ''-'' \<and> c \<noteq> CHR ''+'' \<and> c \<noteq> CHR ''I''"
  by (auto simp: isDigit_def isSpace_def)

lemma parseFloat_digits:
  assumes "ds \<noteq> []" "list_all isDigit ds"
  shows "parseFloat ds = toNumber (of_nat (digitsToNat ds))"
proof -
  obtain c cs where ds: "ds = c # cs" using assms(1) by (cases ds) auto
  with assms(2) have c: "isDigit c" by simp
  have tw: "takeWhile isDigit ds = ds" "dropWhile isDigit ds = []"
    using assms(2) by (simp_all add: list_all_iff)
  have dw: "dropWhile isSpace ds = ds" using isDigit_hd [OF c] ds by simp
  have hd: "hd ds \<noteq> CHR ''-''" "hd ds \<noteq> CHR ''+''" using isDigit_hd [OF c] ds by simp_all
  have inf: "\<not> startsWith ''Infinity'' ds"
    using isDigit_hd [OF c] ds by (simp add: startsWith_def)
  show ?thesis
    unfolding parseFloat_def readDecimal_def
    using assms(1) by (simp add: dw hd inf tw exponentPart_def pow10_def Let_def)
qed

section \<open>Columns of a table\<close>

lemma renderColumns_length: "length (fst (renderColumns t reg)) = colsCount t"
  by (simp add: renderColumns_def length_mapState)

lemma renderColumns_elem:
  assumes "col \<in> set (fst (renderColumns t reg))"
  shows "\<exists>a. col = ''<table:table-column'' @ a @ ''/>''"
proof -
  from assms obtain i s' where "col = fst (renderColumn t i s')"
    unfolding renderColumns_def using mapState_elem by fastforce
  then show ?thesis
    by (auto simp: renderColumn_def Let_def split: prod.splits)
qed

lemma renderTable_columns:
  \<open>\<exists>style reg1 rest.
     fst (renderTable t reg) =
       ''<table:table table:style-name="'' @ style @ ''">'' @
       concat (fst (renderColumns t reg1)) @ rest\<close>
proof -
  obtain style reg1 where a: "getTableStyle (widthPct t) (columnWidths t) (widthCm t) reg = (style, reg1)"
    by (cases "getTableStyle (widthPct t) (columnWidths t) (widthCm t) reg")
  obtain cols reg2 where b: "renderColumns t reg1 = (cols, reg2)"
    by (cases "renderColumns t reg1")
  obtain rendered reg3 where c: "mapState renderRow (rows t) reg2 = (rendered, reg3)"
    by (cases "mapState renderRow (rows t) reg2")
  have \<open>fst (renderTable t reg) =
          ''<table:table table:style-name="'' @ style @ ''">'' @
          concat (fst (renderColumns t reg1)) @ (concat rendered @ ''</table:table>'')\<close>
    by (simp add: renderTable_def a b c)
  then show ?thesis by blast
qed

text \<open>
  Claim C1. The rendered table opens with its \<^verbatim>\<open><table:table-column/>\<close> elements, and their
  number is the largest number of cells of a row: a cell counts once whatever its
  \<open>colSpan\<close>. The claim asks for the largest sum of the \<open>colSpan\<close>s of a row, which is
  \<^const>\<open>specColumnCount\<close>; on \<^const>\<open>spanTable\<close> that is two, and one column is rendered.
\<close>

theorem table_column_count:
  \<open>length (fst (renderColumns t reg)) =
     (if rows t = [] then 0 else Max (set (map (\<lambda>r. length (cells r)) (rows t))))
   \<and> (\<forall>col \<in> set (fst (renderColumns t reg)). \<exists>a. col = ''<table:table-column'' @ a @ ''/>'')
   \<and> (\<exists>style reg1 rest.
         fst (renderTable t reg) =
           ''<table:table table:style-name="'' @ style @ ''">'' @
           concat (fst (renderColumns t reg1)) @ rest)\<close>
  using renderColumns_elem [of _ t reg] renderTable_columns [of t reg]
  by (simp add: renderColumns_length colsCount_def)

theorem table_column_count_witness:
  \<open>length (fst (renderColumns spanTable newStyleRegistry)) = 1
   \<and> specColumnCount spanTable = 2
   \<and> fst (renderTable spanTable newStyleRegistry) =
       ''<table:table table:style-name="TableCustom1"><table:table-column table:style-name="TableColumn"/><table:table-row table:style-name="TableRow"><table:table-cell table:style-name="TableCell" table:number-columns-spanned="2"><text:p/></table:table-cell></table:table-row></table:table>''\<close>
proof -
  have "length (fst (renderColumns spanTable newStyleRegistry)) = 1"
    using table_column_count [of spanTable newStyleRegistry] by (simp add: spanTable_def)
  moreover have "specColumnCount spanTable = 2"
    by (simp add: specColumnCount_def spanSum_def spanTable_def)
  moreover have \<open>fst (renderTable spanTable newStyleRegistry) =
       ''<table:table table:style-name="TableCustom1"><table:table-column table:style-name="TableColumn"/><table:table-row table:style-name="TableRow"><table:table-cell table:style-name="TableCell" table:number-columns-spanned="2"><text:p/></table:table-cell></table:table-row></table:table>''\<close>
    by code_simp
  ultimately show ?thesis by simp
qed

section \<open>Lengths\<close>

lemma toFixed_254: "toFixed 4 (Fin (127 / 50)) = ''2.5400''"
  by (simp add: toFixed_def padDigits_def showNat_eval floor_numeral_div Let_def)

lemma toFixed_1: "toFixed 4 (Fin 1) = ''1.0000''"
  by (simp add: toFixed_def padDigits_def showNat_eval floor_numeral_div Let_def)

lemma pxToCm_96: "pxToCm (Fin 96) = Some ''2.5400cm''"
  by (simp add: pxToCm_def isFinite_def leZero_def divConst_def timesConst_def toNumber_Fin
      toFixed_254)

lemma pt_string:
  "toLowerCase (trim ''72pt'') = ''72pt''" "\<not> endsWith ''cm'' ''72pt''"
  "\<not> endsWith ''mm'' ''72pt''" "\<not> endsWith ''in'' ''72pt''" "endsWith ''pt'' ''72pt''"
  "dropLast 2 ''72pt'' = ''72''" "digitsToNat ''72'' = 72" "list_all isDigit ''72''"
  by code_simp+

lemma cssLengthToCm_72pt: "cssLengthToCm ''72pt'' = Some ''2.5400cm''"
proof -
  have "parseFloat ''72'' = Fin 72"
    using parseFloat_digits [OF _ pt_string(8)] by (simp add: pt_string(7) toNumber_Fin)
  then show ?thesis
    unfolding cssLengthToCm_def
    by (simp add: pt_string isFinite_def leZero_def divConst_def timesConst_def toNumber_Fin
        toFixed_254 Let_def)
qed

lemma mm_string:
  "toLowerCase (trim ''10mm'') = ''10mm''" "\<not> endsWith ''cm'' ''10mm''"
  "endsWith ''mm'' ''10mm''" "dropLast 2 ''10mm'' = ''10''" "digitsToNat ''10'' = 10"
  "list_all isDigit ''10''"
  by code_simp+

lemma cssLengthToCm_10mm: "cssLengthToCm ''10mm'' = Some ''1.0000cm''"
proof -
  have "parseFloat ''10'' = Fin 10"
    using parseFloat_digits [OF _ mm_string(6)] by (simp add: mm_string(5) toNumber_Fin)
  then show ?thesis
    unfolding cssLengthToCm_def
    by (simp add: mm_string isFinite_def leZero_def divConst_def toNumber_Fin toFixed_1 Let_def)
qed

lemma pxToCm_guard: "\<not> isFinite v \<or> leZero v \<Longrightarrow> pxToCm v = None"
  by (simp add: pxToCm_def)

lemma endsWith_same_length:
  "endsWith u t \<Longrightarrow> endsWith u' t \<Longrightarrow> length u = length u' \<Longrightarrow> u = u'"
  by (auto simp: endsWith_def)

lemma cssLengthToCm_unit_guard:
  assumes "u \<in> set lengthUnits" "endsWith u (toLowerCase (trim s))"
    and "\<not> isFinite (parseFloat (dropLast 2 (toLowerCase (trim s))))
         \<or> leZero (parseFloat (dropLast 2 (toLowerCase (trim s))))"
  shows "cssLengthToCm s = None"
proof -
  let ?t = "toLowerCase (trim s)"
  have len: "\<And>v. v \<in> set lengthUnits \<Longrightarrow> length v = 2"
    by (auto simp: lengthUnits_def)
  have others: "\<not> endsWith u' ?t" if "u' \<in> set lengthUnits" "u' \<noteq> u" for u'
  proof
    assume "endsWith u' ?t"
    from endsWith_same_length [OF assms(2) this] len [OF assms(1)] len [OF that(1)] that(2)
    show False by simp
  qed
  from assms(1) consider "u = ''cm''" | "u = ''mm''" | "u = ''in''" | "u = ''pt''" | "u = ''px''"
    by (auto simp: lengthUnits_def)
  then show ?thesis
  proof cases
    case 1
    then show ?thesis using assms(2,3) unfolding cssLengthToCm_def by (auto simp: Let_def)
  next
    case 2
    then show ?thesis using assms(2,3) others [of "''cm''"]
      unfolding cssLengthToCm_def by (auto simp: Let_def lengthUnits_def)
  next
    case 3
    then show ?thesis using assms(2,3) others [of "''cm''"] others [of "''mm''"]
      unfolding cssLengthToCm_def by (auto simp: Let_def lengthUnits_def)
  next
    case 4
    then show ?thesis
      using assms(2,3) others [of "''cm''"] others [of "''mm''"] others [of "''in''"]
      unfolding cssLengthToCm_def by (auto simp: Let_def lengthUnits_def)
  next
    case 5
    then show ?thesis
      using assms(2,3) others [of "''cm''"] others [of "''mm''"] others [of "''in''"]
        others [of "''pt''"]
      unfolding cssLengthToCm_def by (auto simp: Let_def lengthUnits_def pxToCm_guard)
  qed
qed

lemma cssLengthToCm_plain_guard:
  assumes "\<forall>u \<in> set lengthUnits. \<not> endsWith u (toLowerCase (trim s))"
    and "\<not> isFinite (parseFloat (toLowerCase (trim s)))
         \<or> leZero (parseFloat (toLowerCase (trim s)))"
  shows "cssLengthToCm s = None"
proof -
  let ?n = "parseFloat (toLowerCase (trim s))"
  have "isNaN ?n \<or> \<not> gtZero ?n \<or> pxToCm ?n = None"
    using assms(2)
    by (cases ?n) (auto simp: isNaN_def gtZero_def isFinite_def leZero_def pxToCm_def)
  then show ?thesis
    using assms(1) unfolding cssLengthToCm_def by (auto simp: Let_def lengthUnits_def)
qed

lemma cssLengthToCm_guard:
  assumes "\<not> isFinite (lengthValue s) \<or> leZero (lengthValue s)"
  shows "cssLengthToCm s = None"
proof (cases "list_ex (\<lambda>u. endsWith u (toLowerCase (trim s))) lengthUnits")
  case True
  then obtain u where "u \<in> set lengthUnits" "endsWith u (toLowerCase (trim s))"
    by (auto simp: list_ex_iff)
  moreover from True assms
  have "\<not> isFinite (parseFloat (dropLast 2 (toLowerCase (trim s))))
        \<or> leZero (parseFloat (dropLast 2 (toLowerCase (trim s))))"
    by (simp add: lengthValue_def Let_def)
  ultimately show ?thesis by (rule cssLengthToCm_unit_guard)
next
  case False
  then have "\<forall>u \<in> set lengthUnits. \<not> endsWith u (toLowerCase (trim s))"
    by (simp add: list_ex_iff)
  moreover from False assms
  have "\<not> isFinite (parseFloat (toLowerCase (trim s)))
        \<or> leZero (parseFloat (toLowerCase (trim s)))"
    by (simp add: lengthValue_def Let_def)
  ultimately show ?thesis by (rule cssLengthToCm_plain_guard)
qed

text \<open>
  Claim C8. 96 pixels are \<^verbatim>\<open>2.5400cm\<close>, 72 points are \<^verbatim>\<open>2.5400cm\<close> and 10 millimetres are
  \<^verbatim>\<open>1.0000cm\<close>; a number that is not finite (\<open>NaN\<close> included) or not positive gives no
  length, both as the argument of \<open>pxToCm\<close> and as the number \<open>cssLengthToCm\<close> reads from
  its string.
\<close>

theorem length_conversion:
  "pxToCm (Fin 96) = Some ''2.5400cm''
   \<and> cssLengthToCm ''72pt'' = Some ''2.5400cm''
   \<and> cssLengthToCm ''10mm'' = Some ''1.0000cm''
   \<and> (\<not> isFinite v \<or> leZero v \<longrightarrow> pxToCm v = None)
   \<and> (\<not> isFinite (lengthValue s) \<or> leZero (lengthValue s) \<longrightarrow> cssLengthToCm s = None)"
  using pxToCm_96 cssLengthToCm_72pt cssLengthToCm_10mm pxToCm_guard [of v]
    cssLengthToCm_guard [of s]
  by blast

lemma zero_string:
  "toLowerCase (trim ''0cm'') = ''0cm''" "list_ex (\<lambda>u. endsWith u ''0cm'') lengthUnits"
  "dropLast 2 ''0cm'' = ''0''" "digitsToNat ''0'' = 0" "list_all isDigit ''0''"
  by code_simp+

lemma lengthValue_0cm: "lengthValue ''0cm'' = Fin 0"
  using parseFloat_digits [OF _ zero_string(5)]
  by (simp add: lengthValue_def zero_string(1-4) toNumber_Fin)

lemma lengthValue_minus: "lengthValue ''-5px'' = Fin (- 5)"
proof -
  have s: "toLowerCase (trim ''-5px'') = ''-5px''" "list_ex (\<lambda>u. endsWith u ''-5px'') lengthUnits"
    "dropLast 2 ''-5px'' = ''-5''" "\<not> isSpace (CHR ''-'')" "isDigit (CHR ''5'')"
    "digitsToNat ''5'' = 5"
    by code_simp+
  have "parseFloat ''-5'' = Fin (- 5)"
    by (simp add: parseFloat_def readDecimal_def s startsWith_def exponentPart_def pow10_def
        toNumber_Fin Let_def)
  then show ?thesis by (simp add: lengthValue_def s)
qed

lemma lengthValue_word: "lengthValue ''wide'' = NaN"
  by code_simp

theorem length_conversion_witness:
  "pxToCm (Fin 0) = None \<and> pxToCm (Fin (- 3)) = None \<and> pxToCm PosInf = None
   \<and> pxToCm NaN = None \<and> cssLengthToCm ''0cm'' = None \<and> cssLengthToCm ''-5px'' = None
   \<and> cssLengthToCm ''wide'' = None"
  using length_conversion [of "Fin 0" "''0cm''"] length_conversion [of "Fin (- 3)" "''-5px''"]
    length_conversion [of PosInf "''wide''"] length_conversion [of NaN "''wide''"]
  by (simp add: lengthValue_0cm lengthValue_minus lengthValue_word isFinite_def leZero_def)

section \<open>Colours\<close>

lemma hexDigit_simps: "hexDigit 0 = CHR ''0''" "hexDigit 15 = CHR ''f''"
  by code_simp+

lemma toHex_255: "toHex (Fin 255) = ''ff''"
  by (simp add: toHex_def clampConst_def hexDigit_simps)

lemma toHex_0: "toHex (Fin 0) = ''00''"
  by (simp add: toHex_def clampConst_def hexDigit_simps)

lemma rgb_string:
  "trim ''rgb(255, 0, 0)'' = ''rgb(255, 0, 0)''" "\<not> isHexColor ''rgb(255, 0, 0)''"
  "rgbGroup ''rgb(255, 0, 0)'' = Some ''255, 0, 0''"
  "map trim (splitOn (CHR '','') ''255, 0, 0'') = [''255'', ''0'', ''0'']"
  "\<not> endsWith ''%'' ''255''" "\<not> endsWith ''%'' ''0''"
  "digitsToNat ''255'' = 255" "digitsToNat ''0'' = 0"
  "list_all isDigit ''255''" "list_all isDigit ''0''"
  "trim ''255'' = ''255''" "trim '' 0'' = ''0''"
  by code_simp+

lemma rgbChannel_255: "rgbChannel ''255'' = Fin 255"
proof -
  have "parseFloat ''255'' = Fin 255"
    using parseFloat_digits [OF _ rgb_string(9)] by (simp add: rgb_string(7) toNumber_Fin)
  then show ?thesis
    by (simp add: rgbChannel_def rgb_string(5) isNaN_def mathRound_def floor_numeral_div)
qed

lemma rgbChannel_0: "rgbChannel ''0'' = Fin 0"
proof -
  have "parseFloat ''0'' = Fin 0"
    using parseFloat_digits [OF _ rgb_string(10)] by (simp add: rgb_string(8) toNumber_Fin)
  then show ?thesis
    by (simp add: rgbChannel_def rgb_string(6) isNaN_def mathRound_def floor_one_div)
qed

lemma normalizeColor_short: "normalizeColor ''#abc'' = ''#aabbcc''"
  by code_simp

lemma normalizeColor_alpha: "normalizeColor ''#11223344'' = ''#112233''"
  by code_simp

lemma normalizeColor_rgb: "normalizeColor ''rgb(255, 0, 0)'' = ''#ff0000''"
  by (simp add: normalizeColor_def rgb_string(1-4,11,12) rgbChannel_255 rgbChannel_0 toHex_255
      toHex_0)

lemma normalizeColor_other:
  "\<not> isHexColor (trim s) \<Longrightarrow> rgbGroup (trim s) = None \<Longrightarrow> normalizeColor s = trim s"
  by (simp add: normalizeColor_def Let_def)

text \<open>
  Claim C7. The three examples hold. A string that matches neither the hexadecimal
  pattern nor the \<open>rgb\<close> pattern is returned trimmed: \<open>normalizeColor\<close>, which takes no
  default, does not drop it, and the exporter stores it as the colour of the span, as the
  colour name \<^verbatim>\<open>red\<close> shows.
\<close>

theorem color_normalisation:
  "normalizeColor ''#abc'' = ''#aabbcc''
   \<and> normalizeColor ''rgb(255, 0, 0)'' = ''#ff0000''
   \<and> normalizeColor ''#11223344'' = ''#112233''
   \<and> (\<not> isHexColor (trim s) \<and> rgbGroup (trim s) = None \<longrightarrow> normalizeColor s = trim s)"
  using normalizeColor_short normalizeColor_rgb normalizeColor_alpha normalizeColor_other [of s]
  by blast

theorem color_normalisation_witness:
  "normalizeColor ''red'' = ''red''
   \<and> color (fst (cssToStyles [(''color'', ''red'')])) = Some ''red''"
proof -
  have "trim ''red'' = ''red''" "\<not> isHexColor ''red''" "rgbGroup ''red'' = None"
    by code_simp+
  then have "normalizeColor ''red'' = ''red''"
    using color_normalisation [of "''red''"] by simp
  moreover have "color (fst (cssToStyles [(''color'', ''red'')])) = Some ''red''"
    by code_simp
  ultimately show ?thesis by simp
qed

section \<open>The registries of a build\<close>

lemma mapSet_absent: "map_of m k = None \<Longrightarrow> mapSet m k v = m @ [(k, v)]"
  by (induction m) (auto split: if_splits)

lemma distinct_snoc:
  "distinct (map fst m) \<Longrightarrow> map_of m k = None \<Longrightarrow> distinct (map fst (m @ [(k, v)]))"
  by (simp add: map_of_eq_None_iff)

lemma numbered_Nil: "numbered prefix []"
  by (simp add: numbered_def)

lemma numbered_snoc:
  "numbered prefix names \<Longrightarrow> numbered prefix (names @ [prefix @ showNat (Suc (length names))])"
  by (simp add: numbered_def)

lemma numbered_nth:
  "numbered prefix names \<Longrightarrow> i < length names \<Longrightarrow> names ! i = prefix @ showNat (Suc i)"
  unfolding numbered_def by (metis (no_types, lifting) add_0 nth_map nth_upt length_upt minus_nat.diff_0)

lemma registryInv_new: "registryInv newStyleRegistry"
  by (simp add: registryInv_def newStyleRegistry_def numbered_Nil)

lemma getSpanStyle_inv: "registryInv reg \<Longrightarrow> registryInv (snd (getSpanStyle sp reg))"
  using numbered_snoc [of "''T''" "map (fst \<circ> snd) (spanStyles reg)"]
  by (auto simp: getSpanStyle_def Let_def registryInv_def mapSet_absent map_of_eq_None_iff
      split: option.splits)

lemma getParagraphStyle_inv: "registryInv reg \<Longrightarrow> registryInv (snd (getParagraphStyle p reg))"
  using numbered_snoc [of "''PStyle''" "map (fst \<circ> snd) (paragraphStyles reg)"]
  by (auto simp: getParagraphStyle_def Let_def registryInv_def mapSet_absent map_of_eq_None_iff
      split: option.splits)

lemma getTableColumnStyle_inv:
  "registryInv reg \<Longrightarrow> registryInv (snd (getTableColumnStyle w reg))"
  using numbered_snoc [of "''TableColumnCustom''" "map snd (tableColumnStyles reg)"]
  by (auto simp: getTableColumnStyle_def Let_def registryInv_def mapSet_absent map_of_eq_None_iff
      split: option.splits)

lemma getTableStyle_inv:
  "registryInv reg \<Longrightarrow> registryInv (snd (getTableStyle pct ws e reg))"
  using numbered_snoc [of "''TableCustom''" "map (fst \<circ> snd) (tableStyles reg)"]
  by (auto simp: getTableStyle_def Let_def registryInv_def mapSet_absent map_of_eq_None_iff
      split: option.splits prod.splits)

lemma getTableCellStyle_inv:
  "registryInv reg \<Longrightarrow> registryInv (snd (getTableCellStyle bg reg))"
  using numbered_snoc [of "''TableCellCustom''" "map (fst \<circ> snd) (tableCellStyles reg)"]
  by (auto simp: getTableCellStyle_def Let_def registryInv_def mapSet_absent map_of_eq_None_iff
      split: option.splits)

lemma renderSpan_inv: "registryInv reg \<Longrightarrow> registryInv (snd (renderSpan sp reg))"
  using getSpanStyle_inv [of reg "mergeSpanProps sp"]
  by (auto simp: renderSpan_def Let_def split: option.splits prod.splits)

lemma renderParagraph_inv: "registryInv reg \<Longrightarrow> registryInv (snd (renderParagraph p reg))"
proof -
  assume a: "registryInv reg"
  have b: "registryInv (snd (getParagraphStyle p reg))" by (rule getParagraphStyle_inv [OF a])
  have "registryInv (snd (mapState renderSpan (spans p) (snd (getParagraphStyle p reg))))"
    by (rule mapState_inv [OF renderSpan_inv b])
  with b show ?thesis
    by (auto simp: renderParagraph_def Let_def split: prod.splits)
qed

lemma renderCell_inv: "registryInv reg \<Longrightarrow> registryInv (snd (renderCell c reg))"
proof -
  assume a: "registryInv reg"
  have b: "registryInv (snd (mapState renderParagraph (paragraphs c) reg))"
    by (rule mapState_inv [OF renderParagraph_inv a])
  have "registryInv (snd (getTableCellStyle (backgroundColor c)
          (snd (mapState renderParagraph (paragraphs c) reg))))"
    by (rule getTableCellStyle_inv [OF b])
  then show ?thesis
    by (auto simp: renderCell_def Let_def split: prod.splits)
qed

lemma renderRow_inv: "registryInv reg \<Longrightarrow> registryInv (snd (renderRow r reg))"
proof -
  assume a: "registryInv reg"
  have "registryInv (snd (mapState renderCell (cells r) reg))"
    by (rule mapState_inv [OF renderCell_inv a])
  then show ?thesis
    by (auto simp: renderRow_def split: prod.splits)
qed

lemma renderColumn_inv: "registryInv reg \<Longrightarrow> registryInv (snd (renderColumn t i reg))"
  using getTableColumnStyle_inv [of reg "columnWidthAt t i"]
  by (auto simp: renderColumn_def Let_def split: prod.splits)

lemma renderTable_inv: "registryInv reg \<Longrightarrow> registryInv (snd (renderTable t reg))"
proof -
  assume a: "registryInv reg"
  let ?r1 = "snd (getTableStyle (widthPct t) (columnWidths t) (widthCm t) reg)"
  let ?r2 = "snd (renderColumns t ?r1)"
  have b: "registryInv ?r1" by (rule getTableStyle_inv [OF a])
  have c: "registryInv ?r2"
    unfolding renderColumns_def by (rule mapState_inv [OF renderColumn_inv b])
  have "registryInv (snd (mapState renderRow (rows t) ?r2))"
    by (rule mapState_inv [OF renderRow_inv c])
  then show ?thesis
    by (auto simp: renderTable_def split: prod.splits)
qed

lemma renderBlock_inv: "registryInv reg \<Longrightarrow> registryInv (snd (renderBlock b reg))"
  by (cases b) (simp_all add: renderParagraph_inv renderTable_inv)

subsection \<open>Clean names\<close>

lemma of_char_digitChar: "d < 10 \<Longrightarrow> (of_char (digitChar d) :: nat) = 48 + d"
  by (simp add: digitChar_def)

lemma special_codes:
  "c \<in> set xmlSpecials \<Longrightarrow> (of_char c :: nat) \<in> {38, 60, 62, 34, 39}"
  by (auto simp: xmlSpecials_def amp_def lt_def gt_def dquote_def squote_def)

lemma digitChar_clean: "d < 10 \<Longrightarrow> digitChar d \<notin> set xmlSpecials"
  using of_char_digitChar [of d] special_codes [of "digitChar d"] by auto

lemma cleanName_append: "cleanName (a @ b) = (cleanName a \<and> cleanName b)"
  by (simp add: cleanName_def)

lemma cleanName_Cons: "cleanName (c # s) = (c \<notin> set xmlSpecials \<and> cleanName s)"
  by (simp add: cleanName_def)

lemmas special_defs = xmlSpecials_def amp_def lt_def gt_def dquote_def squote_def

lemma showNat_clean: "cleanName (showNat n)"
proof (induction n rule: showNat.induct)
  case (1 n)
  show ?case
  proof (cases "n < 10")
    case True
    then show ?thesis
      using digitChar_clean [of n] by (subst showNat.simps) (simp add: cleanName_def)
  next
    case False
    moreover have "n mod 10 < 10" by simp
    ultimately show ?thesis
      using 1 digitChar_clean [of "n mod 10"]
      by (subst showNat.simps) (simp add: cleanName_def)
  qed
qed

lemma numbered_clean:
  assumes "numbered prefix names" "cleanName prefix" "n \<in> set names"
  shows "cleanName n"
proof -
  from assms(3) obtain i where "i < length names" "names ! i = n"
    by (auto simp: in_set_conv_nth)
  with numbered_nth [OF assms(1)] have "n = prefix @ showNat (Suc i)" by auto
  with assms(2) show ?thesis by (simp add: cleanName_append showNat_clean)
qed

lemma map_of_name_in:
  "map_of m k = Some e \<Longrightarrow> fst e \<in> set (map (fst \<circ> snd) m)"
  by (force dest: map_of_SomeD)

lemma prefix_clean: "cleanName ''T''" "cleanName ''PStyle''"
  by (simp_all add: cleanName_def xmlSpecials_def amp_def lt_def gt_def dquote_def squote_def)

lemma getSpanStyle_clean: "registryInv reg \<Longrightarrow> cleanOpt (fst (getSpanStyle sp reg))"
proof -
  assume a: "registryInv reg"
  then have n: "numbered ''T'' (map (fst \<circ> snd) (spanStyles reg))"
    by (simp add: registryInv_def)
  show ?thesis
    using numbered_clean [OF n prefix_clean(1)] map_of_name_in [of "spanStyles reg"]
    by (auto simp: getSpanStyle_def Let_def cleanOpt_def cleanName_Cons special_defs
        showNat_clean split: option.splits)
qed

lemma getParagraphStyle_clean: "registryInv reg \<Longrightarrow> cleanOpt (fst (getParagraphStyle p reg))"
proof -
  assume a: "registryInv reg"
  then have n: "numbered ''PStyle'' (map (fst \<circ> snd) (paragraphStyles reg))"
    by (simp add: registryInv_def)
  show ?thesis
    using numbered_clean [OF n prefix_clean(2)] map_of_name_in [of "paragraphStyles reg"]
    by (auto simp: getParagraphStyle_def Let_def cleanOpt_def cleanName_Cons special_defs
        showNat_clean split: option.splits)
qed

lemma nativeFunctionText_clean: "cleanName f \<Longrightarrow> cleanName (nativeFunctionText f)"
proof -
  have "cleanName ''function ''" "cleanName ''() { [native code] }''"
    by (simp_all add: cleanName_def special_defs)
  then show "cleanName f \<Longrightarrow> cleanName (nativeFunctionText f)"
    unfolding nativeFunctionText_def cleanName_append by simp
qed

lemma objectPrototypeMethods_clean: "k \<in> set objectPrototypeMethods \<Longrightarrow> cleanName k"
  by (auto simp: objectPrototypeMethods_def cleanName_def special_defs)

lemma objectPrototypeMember_clean: "objectPrototypeMember k = Some f \<Longrightarrow> cleanName f"
proof -
  assume a: "objectPrototypeMember k = Some f"
  have o: "cleanName ''Object''" "cleanName ''[object Object]''"
    by (simp_all add: cleanName_def special_defs)
  consider "f = nativeFunctionText ''Object''" | "f = ''[object Object]''"
    | "k \<in> set objectPrototypeMethods" "f = nativeFunctionText k"
    using a unfolding objectPrototypeMember_def by (metis option.inject option.distinct(1))
  then show "cleanName f"
    using o nativeFunctionText_clean objectPrototypeMethods_clean by cases simp_all
qed

lemma FONT_FAMILY_MAP_clean: "FONT_FAMILY_MAP k = Some f \<Longrightarrow> cleanName f"
proof -
  assume a: "FONT_FAMILY_MAP k = Some f"
  have t: "cleanName ''T_Body''" "cleanName ''T_Serif''" "cleanName ''T_Gungsuh''"
    by (simp_all add: cleanName_def special_defs)
  consider "f = ''T_Body''" | "f = ''T_Serif''" | "f = ''T_Gungsuh''"
    | "objectPrototypeMember k = Some f"
    using a unfolding FONT_FAMILY_MAP_def by (metis option.inject)
  then show "cleanName f"
    using t objectPrototypeMember_clean by cases simp_all
qed

section \<open>Escaping of span text\<close>

lemma replaceAll_Nil [simp]: "replaceAll c rep [] = []"
  by (simp add: replaceAll_def)

lemma replaceAll_Cons:
  "replaceAll c rep (x # xs) = (if x = c then rep else [x]) @ replaceAll c rep xs"
  by (simp add: replaceAll_def)

lemma replaceAll_append:
  "replaceAll c rep (xs @ ys) = replaceAll c rep xs @ replaceAll c rep ys"
  by (simp add: replaceAll_def)

lemma escapeXml_Nil: "escapeXml [] = []"
  by (simp add: escapeXml_def)

text \<open>
  The five replacements run one after the other, the ampersand first, so that the
  ampersands of the entities written later are not escaped again: together they act on
  each character once.
\<close>

lemma escapeXml_Cons: "escapeXml (x # xs) = xmlEntity x @ escapeXml xs"
  by (simp add: escapeXml_def xmlEntity_def replaceAll_Cons replaceAll_append
      amp_def lt_def gt_def dquote_def squote_def)

lemma escapeXml_entities: "escapeXml s = concat (map xmlEntity s)"
  by (induction s) (simp_all add: escapeXml_Nil escapeXml_Cons)

lemma xmlEntity_no_raw:
  "c \<in> set (xmlEntity x) \<Longrightarrow> c \<noteq> lt \<and> c \<noteq> gt \<and> c \<noteq> dquote \<and> c \<noteq> squote"
  by (auto simp: xmlEntity_def amp_def lt_def gt_def dquote_def squote_def split: if_splits)

lemma escapeXml_no_raw:
  "c \<in> set (escapeXml s) \<Longrightarrow> c \<noteq> lt \<and> c \<noteq> gt \<and> c \<noteq> dquote \<and> c \<noteq> squote"
  unfolding escapeXml_entities using xmlEntity_no_raw by auto

lemma spanText_mergeSpanProps: "spanText (mergeSpanProps sp) = spanText sp"
  by (simp add: mergeSpanProps_def Let_def)

lemma tokenFragments_piece:
  "newline \<notin> set w \<Longrightarrow>
     concat (tokenFragments (styleNameAttr n) w) = pieceXml n w"
  by (auto simp: tokenFragments_def pieceXml_def escapeXml_entities)

lemma tokenFragments_newline: "concat (tokenFragments a [newline]) = ''<text:line-break/>''"
  by (simp add: tokenFragments_def)

text \<open>The fragments of the tokens of a text, joined, are the XML of the text.\<close>

lemma fragments_spanTextXml:
  "concat (concat (map (tokenFragments (styleNameAttr n)) (splitKeepNewline t))) =
     spanTextXml n t"
proof -
  obtain w ws where s: "splitOn newline t = w # ws"
    using splitOn_not_Nil [of newline t] by (cases "splitOn newline t") auto
  have w: "newline \<notin> set w" and ws: "\<And>u. u \<in> set ws \<Longrightarrow> newline \<notin> set u"
    using splitOn_no_sep [of _ newline t] s by auto
  have "concat (concat (map (tokenFragments (styleNameAttr n))
          (concat (map (\<lambda>piece. [[newline], piece]) us)))) =
        concat (map (\<lambda>y. ''<text:line-break/>'' @ y) (map (pieceXml n) us))"
    if "\<And>u. u \<in> set us \<Longrightarrow> newline \<notin> set u" for us
    using that
    by (induction us) (simp_all add: tokenFragments_newline tokenFragments_piece)
  from this [OF ws] show ?thesis
    by (simp add: spanTextXml_def splitKeepNewline_def s joinWith_Cons
        tokenFragments_piece [OF w])
qed

lemma renderSpan_xml:
  assumes "registryInv reg"
  shows "\<exists>n. cleanOpt n \<and> concat (fst (renderSpan sp reg)) = spanTextXml n (spanText sp)"
proof -
  let ?m = "mergeSpanProps sp"
  let ?family =
    "if truthyStr (fontFamily ?m) then FONT_FAMILY_MAP (the (fontFamily ?m)) else None"
  let ?name = "case ?family of Some f \<Rightarrow> Some f | None \<Rightarrow> fst (getSpanStyle ?m reg)"
  let ?n = "if truthyStr ?name then ?name else None"
  have clean: "cleanOpt ?name"
    using getSpanStyle_clean [OF assms, of ?m] FONT_FAMILY_MAP_clean
    by (auto simp: cleanOpt_def split: option.splits if_splits)
  then have "cleanOpt ?n" by (simp add: cleanOpt_def)
  moreover have attr:
    "(if truthyStr ?name then '' text:style-name='' @ [CHR 0x22] @ the ?name @ [CHR 0x22] else []) =
       styleNameAttr ?n"
    by (auto simp: styleNameAttr_def truthyStr_def split: option.splits)
  have "fst (renderSpan sp reg) =
          concat (map (tokenFragments (styleNameAttr ?n)) (splitKeepNewline (spanText sp)))"
    unfolding attr [symmetric]
    by (auto simp: renderSpan_def Let_def spanText_mergeSpanProps split: option.splits prod.splits)
  then have "concat (fst (renderSpan sp reg)) = spanTextXml ?n (spanText sp)"
    by (simp add: fragments_spanTextXml)
  ultimately show ?thesis by blast
qed

lemma renderSpans_xml:
  assumes "registryInv reg"
  shows "\<exists>ns. length ns = length sps \<and> list_all cleanOpt ns
           \<and> map concat (fst (mapState renderSpan sps reg)) =
               map2 (\<lambda>n sp. spanTextXml n (spanText sp)) ns sps"
  using assms
proof (induction sps arbitrary: reg)
  case Nil
  then show ?case by simp
next
  case (Cons sp sps)
  from renderSpan_xml [OF Cons.prems, of sp] obtain n where
    n: "cleanOpt n" "concat (fst (renderSpan sp reg)) = spanTextXml n (spanText sp)" by blast
  from Cons.IH [OF renderSpan_inv [OF Cons.prems, of sp]] obtain ns where
    ns: "length ns = length sps" "list_all cleanOpt ns"
      "map concat (fst (mapState renderSpan sps (snd (renderSpan sp reg)))) =
         map2 (\<lambda>n sp. spanTextXml n (spanText sp)) ns sps"
    by blast
  have "length (n # ns) = length (sp # sps)" using ns(1) by simp
  moreover have "list_all cleanOpt (n # ns)" using n(1) ns(2) by simp
  moreover have "map concat (fst (mapState renderSpan (sp # sps) reg)) =
                   map2 (\<lambda>n sp. spanTextXml n (spanText sp)) (n # ns) (sp # sps)"
    using n(2) ns(3) by (simp add: mapState_Cons del: mapState.simps(2))
  ultimately show ?case by blast
qed

lemma renderParagraph_xml:
  assumes "registryInv reg" "spans p \<noteq> []"
  shows \<open>\<exists>pn ns. length ns = length (spans p) \<and> list_all cleanOpt (pn # ns)
           \<and> fst (renderParagraph p reg) =
               ''<text:p'' @ styleNameAttr pn @ ''>'' @
               concat (map2 (\<lambda>n sp. spanTextXml n (spanText sp)) ns (spans p)) @
               ''</text:p>''\<close>
proof -
  let ?name = "fst (getParagraphStyle p reg)"
  let ?reg1 = "snd (getParagraphStyle p reg)"
  let ?pn = "if truthyStr ?name then ?name else None"
  have "cleanOpt ?name" by (rule getParagraphStyle_clean [OF assms(1)])
  then have pn: "cleanOpt ?pn" by (simp add: cleanOpt_def)
  have attr:
    "(if truthyStr ?name then '' text:style-name='' @ [CHR 0x22] @ the ?name @ [CHR 0x22] else []) =
       styleNameAttr ?pn"
    by (auto simp: styleNameAttr_def truthyStr_def split: option.splits)
  from renderSpans_xml [OF getParagraphStyle_inv [OF assms(1)], of "spans p" p] obtain ns where
    ns: "length ns = length (spans p)" "list_all cleanOpt ns"
      "map concat (fst (mapState renderSpan (spans p) ?reg1)) =
         map2 (\<lambda>n sp. spanTextXml n (spanText sp)) ns (spans p)"
    by blast
  have "fst (renderParagraph p reg) =
          ''<text:p'' @ styleNameAttr ?pn @ ''>'' @
          concat (map concat (fst (mapState renderSpan (spans p) ?reg1))) @ ''</text:p>''"
    unfolding attr [symmetric]
    using assms(2) by (simp add: renderParagraph_def Let_def case_prod_beta concat_concat_map)
  then have out: "fst (renderParagraph p reg) =
          ''<text:p'' @ styleNameAttr ?pn @ ''>'' @
          concat (map2 (\<lambda>n sp. spanTextXml n (spanText sp)) ns (spans p)) @ ''</text:p>''"
    by (simp only: ns(3))
  have cl: "list_all cleanOpt (?pn # ns)" using pn ns(2) by simp
  show ?thesis
    by (intro exI [of _ ?pn] exI [of _ ns] conjI ns(1) cl out)
qed

text \<open>
  Claim C10. \<open>escapeXml\<close> replaces each occurrence of the five reserved characters by its
  entity and changes nothing else, so its result holds none of \<open><\<close>, \<open>>\<close>, the double and
  the single quote, and an ampersand only where an entity starts. In a registry of a
  build, a paragraph with spans renders as exactly this: the opening tag with the style
  name of the paragraph, for each span in order the XML of its text under a style name
  (\<^const>\<open>spanTextXml\<close>: a \<^verbatim>\<open><text:span>\<close> around each non-empty piece between line feeds,
  holding the entities of its characters, and a line break between two pieces), and the
  closing tag. The style names hold no reserved character, so what the paragraph's XML
  holds of a reserved character is the markup and the entities. The registries of a build
  are those \<^const>\<open>registryInv\<close> describes: the new one is, and rendering a block keeps it.
\<close>

theorem span_text_escaped:
  \<open>escapeXml s = concat (map xmlEntity s)
   \<and> (\<forall>c \<in> set (escapeXml s). c \<noteq> lt \<and> c \<noteq> gt \<and> c \<noteq> dquote \<and> c \<noteq> squote)
   \<and> (registryInv reg \<and> spans p \<noteq> [] \<longrightarrow>
        (\<exists>pn ns. length ns = length (spans p) \<and> list_all cleanOpt (pn # ns)
           \<and> fst (renderParagraph p reg) =
               ''<text:p'' @ styleNameAttr pn @ ''>'' @
               concat (map2 (\<lambda>n sp. spanTextXml n (spanText sp)) ns (spans p)) @
               ''</text:p>''))
   \<and> registryInv newStyleRegistry
   \<and> (registryInv reg \<longrightarrow> registryInv (snd (renderBlock b reg)))\<close>
  using escapeXml_entities [of s] escapeXml_no_raw [of _ s] renderParagraph_xml [of reg p]
    registryInv_new renderBlock_inv [of reg b]
  by blast

theorem span_text_escaped_witness:
  \<open>escapeXml ''a<b&c'' = ''a&lt;b&amp;c''
   \<and> fst (renderParagraph (plainParagraph [plainSpan ''a<b'']) newStyleRegistry) =
       ''<text:p><text:span>a&lt;b</text:span></text:p>''
   \<and> (\<exists>pn ns. length ns = 1 \<and> list_all cleanOpt (pn # ns)
         \<and> fst (renderParagraph (plainParagraph [plainSpan ''a<b'']) newStyleRegistry) =
             ''<text:p'' @ styleNameAttr pn @ ''>'' @
             concat (map2 (\<lambda>n sp. spanTextXml n (spanText sp)) ns [plainSpan ''a<b'']) @
             ''</text:p>'')
   \<and> registryInv
        (snd (renderBlock (ParagraphBlock (plainParagraph [plainSpan ''a<b''])) newStyleRegistry))\<close>
proof -
  note t = span_text_escaped [of "''a<b&c''" newStyleRegistry "plainParagraph [plainSpan ''a<b'']"
      "ParagraphBlock (plainParagraph [plainSpan ''a<b''])"]
  have h: "spans (plainParagraph [plainSpan ''a<b'']) = [plainSpan ''a<b'']"
    by (simp add: plainParagraph_def)
  from t have "escapeXml ''a<b&c'' = concat (map xmlEntity ''a<b&c'')" by blast
  then have e: "escapeXml ''a<b&c'' = ''a&lt;b&amp;c''"
    by (simp add: xmlEntity_def amp_def lt_def gt_def dquote_def squote_def)
  have r: \<open>fst (renderParagraph (plainParagraph [plainSpan ''a<b'']) newStyleRegistry) =
             ''<text:p><text:span>a&lt;b</text:span></text:p>''\<close>
    by code_simp
  from t have inv: "registryInv newStyleRegistry" by blast
  with t h have
    \<open>\<exists>pn ns. length ns = 1 \<and> list_all cleanOpt (pn # ns)
         \<and> fst (renderParagraph (plainParagraph [plainSpan ''a<b'']) newStyleRegistry) =
             ''<text:p'' @ styleNameAttr pn @ ''>'' @
             concat (map2 (\<lambda>n sp. spanTextXml n (spanText sp)) ns [plainSpan ''a<b'']) @
             ''</text:p>''\<close>
    by simp
  moreover from t inv have "registryInv
        (snd (renderBlock (ParagraphBlock (plainParagraph [plainSpan ''a<b''])) newStyleRegistry))"
    by blast
  ultimately show ?thesis using e r by blast
qed

section \<open>Merging adjacent spans\<close>

lemma sameSpanStyle_refl: "sameSpanStyle a a"
  by (simp add: sameSpanStyle_def)

lemma sameSpanStyle_sym: "sameSpanStyle a b \<Longrightarrow> sameSpanStyle b a"
  by (simp add: sameSpanStyle_def)

lemma sameSpanStyle_trans: "sameSpanStyle a b \<Longrightarrow> sameSpanStyle b c \<Longrightarrow> sameSpanStyle a c"
  by (simp add: sameSpanStyle_def)

lemma sameSpanStyle_text [simp]:
  "sameSpanStyle (a\<lparr>spanText := t\<rparr>) b = sameSpanStyle a b"
  "sameSpanStyle a (b\<lparr>spanText := t\<rparr>) = sameSpanStyle a b"
  by (simp_all add: sameSpanStyle_def)

lemma mergeStep_append:
  "acc2 \<noteq> [] \<Longrightarrow> mergeStep (acc1 @ acc2) x = acc1 @ mergeStep acc2 x"
  by (simp add: mergeStep_def butlast_append)

lemma mergeStep_not_Nil: "acc \<noteq> [] \<Longrightarrow> mergeStep acc x \<noteq> []"
  by (simp add: mergeStep_def)

lemma foldl_mergeStep_append:
  "acc2 \<noteq> [] \<Longrightarrow> foldl mergeStep (acc1 @ acc2) xs = acc1 @ foldl mergeStep acc2 xs"
  by (induction xs arbitrary: acc2) (simp_all add: mergeStep_append mergeStep_not_Nil)

lemma mergeStep_new:
  "spanText x \<noteq> [] \<Longrightarrow> acc = [] \<or> \<not> sameSpanStyle (last acc) x \<Longrightarrow> mergeStep acc x = acc @ [x]"
  by (auto simp: mergeStep_def)

lemma foldl_mergeStep_run:
  "\<forall>x \<in> set xs. spanText x \<noteq> [] \<and> sameSpanStyle m x \<Longrightarrow>
     foldl mergeStep [m] xs = [m\<lparr>spanText := spanText m @ concat (map spanText xs)\<rparr>]"
proof (induction xs arbitrary: m)
  case Nil
  then show ?case by simp
next
  case (Cons x xs)
  let ?m = "m\<lparr>spanText := spanText m @ spanText x\<rparr>"
  from Cons.prems have "mergeStep [m] x = [?m]" by (simp add: mergeStep_def)
  moreover from Cons.prems have "\<forall>y \<in> set xs. spanText y \<noteq> [] \<and> sameSpanStyle ?m y" by simp
  from Cons.IH [OF this]
  have "foldl mergeStep [?m] xs = [m\<lparr>spanText := spanText m @ concat (map spanText (x # xs))\<rparr>]"
    by simp
  ultimately show ?case by simp
qed

lemma foldl_mergeStep_last:
  "xs \<noteq> [] \<Longrightarrow> \<forall>x \<in> set xs. spanText x \<noteq> [] \<Longrightarrow>
     foldl mergeStep acc xs \<noteq> [] \<and> sameSpanStyle (last (foldl mergeStep acc xs)) (last xs)"
proof (induction xs arbitrary: acc rule: rev_induct)
  case Nil
  then show ?case by simp
next
  case (snoc x xs)
  then have "spanText x \<noteq> []" by simp
  then show ?case by (auto simp: mergeStep_def sameSpanStyle_refl)
qed

text \<open>Every raw span of an extraction has a text that is not empty.\<close>

lemma raw_spans_text:
  "\<forall>sp \<in> set (nodeToSpans n st). spanText sp \<noteq> []"
  "\<forall>sp \<in> set (flattenChildNodes ns st). spanText sp \<noteq> []"
  by (induction n st and ns st rule: nodeToSpans_flattenChildNodes.induct)
    (auto simp: withText_def Let_def)

lemma merge_run:
  assumes texts: "\<forall>sp \<in> set (pre @ run @ post). spanText sp \<noteq> []"
    and run: "run \<noteq> []" "\<forall>sp \<in> set run. sameSpanStyle (hd run) sp"
    and before: "pre = [] \<or> \<not> sameSpanStyle (last pre) (hd run)"
    and after: "post = [] \<or> \<not> sameSpanStyle (hd run) (hd post)"
  shows "mergeAdjacentSpans (pre @ run @ post) =
           mergeAdjacentSpans pre @ [(hd run)\<lparr>spanText := concat (map spanText run)\<rparr>] @
           mergeAdjacentSpans post"
proof -
  obtain h r where hr: "run = h # r" using run(1) by (cases run) auto
  let ?pre = "foldl mergeStep [] pre"
  let ?m = "h\<lparr>spanText := concat (map spanText run)\<rparr>"
  have h: "spanText h \<noteq> []" using texts hr by simp
  have start: "?pre = [] \<or> \<not> sameSpanStyle (last ?pre) h"
  proof (cases "pre = []")
    case True
    then show ?thesis by simp
  next
    case False
    with texts have l: "?pre \<noteq> []" "sameSpanStyle (last ?pre) (last pre)"
      using foldl_mergeStep_last [of pre "[]"] by simp_all
    from False before hr have "\<not> sameSpanStyle (last pre) h" by simp
    with l(2) have "\<not> sameSpanStyle (last ?pre) h"
      using sameSpanStyle_trans sameSpanStyle_sym by blast
    then show ?thesis by simp
  qed
  have "foldl mergeStep ?pre run = foldl mergeStep (?pre @ [h]) r"
    using mergeStep_new [OF h start] by (simp add: hr)
  also have "\<dots> = ?pre @ foldl mergeStep [h] r"
    by (rule foldl_mergeStep_append) simp
  also have "foldl mergeStep [h] r = [?m]"
    using foldl_mergeStep_run [of r h] texts run(2) by (simp add: hr)
  finally have mid: "foldl mergeStep ?pre run = ?pre @ [?m]" .
  have "foldl mergeStep (?pre @ [?m]) post = ?pre @ [?m] @ foldl mergeStep [] post"
  proof (cases post)
    case Nil
    then show ?thesis by simp
  next
    case (Cons q qs)
    with texts have q: "spanText q \<noteq> []" by simp
    from Cons after hr have "\<not> sameSpanStyle ?m q" by simp
    then have "mergeStep (?pre @ [?m]) q = (?pre @ [?m]) @ [q]"
      using mergeStep_new [OF q, of "?pre @ [?m]"] by simp
    moreover have "foldl mergeStep ((?pre @ [?m]) @ [q]) qs = (?pre @ [?m]) @ foldl mergeStep [q] qs"
      by (rule foldl_mergeStep_append) simp
    moreover have "mergeStep [] q = [q]" using mergeStep_new [OF q, of "[]"] by simp
    ultimately show ?thesis by (simp add: Cons)
  qed
  with mid show ?thesis by (simp add: mergeAdjacentSpans_def hr)
qed

text \<open>
  Claim C4. Let the raw spans of an extraction (the spans \<open>flattenChildNodes\<close> returns for
  any child nodes and inherited style) be \<open>pre @ run @ post\<close>, where the spans of \<open>run\<close>, at
  least two, have the same bold, italic, underline, colour and font size (as
  \<open>sameSpanStyle\<close> compares them), and \<open>run\<close> is the whole group: the span before it and the
  span after it, if any, differ from it. Then the merged list is the merged \<open>pre\<close>, one
  span, and the merged \<open>post\<close>; the one span is the first of the run with the texts of
  the run concatenated in order.
\<close>

theorem adjacent_spans_merged:
  assumes "flattenChildNodes nodes st = pre @ run @ post"
    and "2 \<le> length run"
    and "\<forall>sp \<in> set run. sameSpanStyle (hd run) sp"
    and "pre = [] \<or> \<not> sameSpanStyle (last pre) (hd run)"
    and "post = [] \<or> \<not> sameSpanStyle (hd run) (hd post)"
  shows "mergeAdjacentSpans (flattenChildNodes nodes st) =
           mergeAdjacentSpans pre @ [(hd run)\<lparr>spanText := concat (map spanText run)\<rparr>] @
           mergeAdjacentSpans post"
proof -
  have "\<forall>sp \<in> set (pre @ run @ post). spanText sp \<noteq> []"
    using raw_spans_text(2) [of nodes st] assms(1) by simp
  moreover from assms(2) have "run \<noteq> []" by auto
  ultimately show ?thesis
    unfolding assms(1) using assms(3-5) by (rule merge_run)
qed

lemma runNodes_spans:
  "flattenChildNodes runNodes emptySpanStyle =
     [withText emptySpanStyle ''a''] @
     [withText (emptySpanStyle\<lparr>bold := Some True\<rparr>) ''b'',
      withText (emptySpanStyle\<lparr>bold := Some True\<rparr>) ''c''] @
     [withText emptySpanStyle ''d'']"
  by code_simp

theorem adjacent_spans_merged_witness:
  "mergeAdjacentSpans (flattenChildNodes runNodes emptySpanStyle) =
     [withText emptySpanStyle ''a'', withText (emptySpanStyle\<lparr>bold := Some True\<rparr>) ''bc'',
      withText emptySpanStyle ''d'']"
proof -
  let ?b = "emptySpanStyle\<lparr>bold := Some True\<rparr>"
  have "mergeAdjacentSpans (flattenChildNodes runNodes emptySpanStyle) =
          mergeAdjacentSpans [withText emptySpanStyle ''a''] @
          [(hd [withText ?b ''b'', withText ?b ''c''])
             \<lparr>spanText := concat (map spanText [withText ?b ''b'', withText ?b ''c''])\<rparr>] @
          mergeAdjacentSpans [withText emptySpanStyle ''d'']"
    by (rule adjacent_spans_merged [OF runNodes_spans])
      (simp_all add: sameSpanStyle_def withText_def emptySpanStyle_def)
  then show ?thesis
    by (simp add: mergeAdjacentSpans_def mergeStep_def withText_def emptySpanStyle_def)
qed

section \<open>Empty paragraphs\<close>

lemma renderParagraph_empty:
  "spans p = [] \<Longrightarrow> \<not> hasProps (paragraphProps p) \<Longrightarrow>
     fst (renderParagraph p reg) = ''<text:p/>''"
  by (simp add: renderParagraph_def getParagraphStyle_def Let_def truthyStr_def)

lemma renderParagraph_empty_styled:
  assumes "spans p = []" "registryInv reg"
  shows "\<exists>n. cleanOpt n \<and> fst (renderParagraph p reg) = ''<text:p'' @ styleNameAttr n @ ''/>''"
proof -
  let ?name = "fst (getParagraphStyle p reg)"
  let ?n = "if truthyStr ?name then ?name else None"
  have "cleanOpt ?name" by (rule getParagraphStyle_clean [OF assms(2)])
  then have n: "cleanOpt ?n" by (simp add: cleanOpt_def)
  have attr:
    "(if truthyStr ?name then '' text:style-name='' @ [CHR 0x22] @ the ?name @ [CHR 0x22] else []) =
       styleNameAttr ?n"
    by (auto simp: styleNameAttr_def truthyStr_def split: option.splits)
  have "fst (renderParagraph p reg) = ''<text:p'' @ styleNameAttr ?n @ ''/>''"
    unfolding attr [symmetric]
    using assms(1) by (simp add: renderParagraph_def Let_def case_prod_beta)
  with n show ?thesis by blast
qed

lemma renderParagraph_element: "\<exists>rest. fst (renderParagraph p reg) = ''<text:p'' @ rest"
  by (simp add: renderParagraph_def Let_def case_prod_beta)

lemma elementToParagraph_no_spans:
  assumes "tagName el = ''P''"
    and "mergeAdjacentSpans
           (flattenChildNodes (childNodes el)
              (mergeSpanStyles emptySpanStyle [fst (getElementStyles el)])) = []"
  shows "map_option spans (elementToParagraph el) = Some []"
  using assms
  by (simp add: elementToParagraph_def Let_def case_prod_beta applyParagraphLayout_def
      newParagraph_def)

text \<open>
  Claim C2. A paragraph block with no spans renders as the self-closing \<^verbatim>\<open><text:p/>\<close>,
  which carries the style name of the paragraph when the paragraph has layout properties;
  a paragraph block always renders as a \<^verbatim>\<open><text:p\<close> element, and the rendered sequence has
  one element for each block of the body; a \<^verbatim>\<open>P\<close> element that yields no merged span
  exports to a paragraph with no spans. The \<^verbatim>\<open>BR\<close> of \<^verbatim>\<open><p><br></p>\<close> however yields a span
  holding a line feed, so that this paragraph has one span and renders as
  \<^verbatim>\<open><text:p><text:line-break/></text:p>\<close>.
\<close>

theorem empty_paragraph:
  "(spans p = [] \<and> \<not> hasProps (paragraphProps p) \<longrightarrow>
      fst (renderParagraph p reg) = ''<text:p/>'')
   \<and> (spans p = [] \<and> registryInv reg \<longrightarrow>
        (\<exists>n. cleanOpt n \<and> fst (renderParagraph p reg) = ''<text:p'' @ styleNameAttr n @ ''/>''))
   \<and> (\<exists>rest. fst (renderBlock (ParagraphBlock p) reg) = ''<text:p'' @ rest)
   \<and> length (fst (mapState renderBlock blocks reg)) = length blocks
   \<and> (tagName el = ''P''
        \<and> mergeAdjacentSpans
             (flattenChildNodes (childNodes el)
                (mergeSpanStyles emptySpanStyle [fst (getElementStyles el)])) = []
        \<longrightarrow> map_option spans (elementToParagraph el) = Some [])"
  using renderParagraph_empty [of p reg] renderParagraph_empty_styled [of p reg]
    renderParagraph_element [of p reg] length_mapState [of renderBlock blocks reg]
    elementToParagraph_no_spans [of el]
  by simp

theorem empty_paragraph_witness:
  "elementToParagraph brParagraph = Some (plainParagraph [plainSpan [newline]])
   \<and> fst (renderParagraph (plainParagraph [plainSpan [newline]]) newStyleRegistry) =
       ''<text:p><text:line-break/></text:p>''
   \<and> elementToParagraph emptyParagraph = Some (plainParagraph [])
   \<and> fst (renderParagraph (plainParagraph []) newStyleRegistry) = ''<text:p/>''"
proof -
  have a: "elementToParagraph brParagraph = Some (plainParagraph [plainSpan [newline]])"
    by code_simp
  have b: "fst (renderParagraph (plainParagraph [plainSpan [newline]]) newStyleRegistry) =
             ''<text:p><text:line-break/></text:p>''"
    by code_simp
  have c: "elementToParagraph emptyParagraph = Some (plainParagraph [])"
    by code_simp
  have "spans (plainParagraph []) = []" "\<not> hasProps (paragraphProps (plainParagraph []))"
    by (simp_all add: plainParagraph_def hasProps_def paragraphProps_def keepTruthy_def
        truthyStr_def)
  then have "fst (renderParagraph (plainParagraph []) newStyleRegistry) = ''<text:p/>''"
    using empty_paragraph [of "plainParagraph []" newStyleRegistry "[]" emptyParagraph] by simp
  with a b c show ?thesis by simp
qed

section \<open>The archive\<close>

lemma xml_parts_not_empty:
  "buildContentXml doc \<noteq> []" "odfStylesXml \<noteq> []" "odfMetaXml t c now \<noteq> []"
  "odfSettingsXml \<noteq> []" "odfManifestXml \<noteq> []"
  by (simp_all add: buildContentXml_def odfDocumentContent_def odfStylesXml_def odfMetaXml_def
      odfSettingsXml_def odfManifestXml_def case_prod_beta Let_def)

lemma archive_paths:
  "parentFolders ''mimetype'' = []" "parentFolders ''content.xml'' = []"
  "parentFolders ''styles.xml'' = []" "parentFolders ''meta.xml'' = []"
  "parentFolders ''settings.xml'' = []" "parentFolders ''META-INF/'' = []"
  "parentFolders ''META-INF/manifest.xml'' = [''META-INF/'']"
  "forceTrailingSlash ''META-INF'' = ''META-INF/''"
  by code_simp+

lemma fileAdd_new:
  assumes "content \<noteq> []" "parentFolders path = []" "map_of fs path = None"
  shows "fileAdd fs path content copt =
           fs @ [(path, \<lparr>objData = content, objDir = False, objCompression = copt\<rparr>)]"
  using assms by (simp add: fileAdd_def mapSet_absent)

lemma archive_files:
  "fst (makeAndDownloadOdt doc filename now) =
     [\<lparr>entryName = ''mimetype'', entryContent = ''application/vnd.oasis.opendocument.text'',
       entryIsFolder = False, entryMethod = STORE\<rparr>,
      \<lparr>entryName = ''content.xml'', entryContent = buildContentXml doc, entryIsFolder = False,
       entryMethod = DEFLATE\<rparr>,
      \<lparr>entryName = ''styles.xml'', entryContent = odfStylesXml, entryIsFolder = False,
       entryMethod = DEFLATE\<rparr>,
      \<lparr>entryName = ''meta.xml'',
       entryContent = odfMetaXml (title (meta doc)) (creator (meta doc)) now,
       entryIsFolder = False, entryMethod = DEFLATE\<rparr>,
      \<lparr>entryName = ''settings.xml'', entryContent = odfSettingsXml, entryIsFolder = False,
       entryMethod = DEFLATE\<rparr>,
      \<lparr>entryName = ''META-INF/'', entryContent = '''', entryIsFolder = True,
       entryMethod = STORE\<rparr>,
      \<lparr>entryName = ''META-INF/manifest.xml'', entryContent = odfManifestXml,
       entryIsFolder = False, entryMethod = DEFLATE\<rparr>]"
proof -
  define f0 where "f0 = files (zipFile newJSZip ''mimetype''
    ''application/vnd.oasis.opendocument.text'' (Some STORE))"
  have f0: "f0 = [(''mimetype'', \<lparr>objData = ''application/vnd.oasis.opendocument.text'',
                     objDir = False, objCompression = Some STORE\<rparr>)]"
    by (simp add: f0_def zipFile_def newJSZip_def fileAdd_def archive_paths)
  define f1 where "f1 = fileAdd f0 ''content.xml'' (buildContentXml doc) None"
  have f1: "f1 = f0 @ [(''content.xml'', \<lparr>objData = buildContentXml doc, objDir = False,
                          objCompression = None\<rparr>)]"
    unfolding f1_def
    by (rule fileAdd_new) (simp_all add: xml_parts_not_empty archive_paths f0)
  define f2 where "f2 = fileAdd f1 ''styles.xml'' odfStylesXml None"
  have f2: "f2 = f1 @ [(''styles.xml'', \<lparr>objData = odfStylesXml, objDir = False,
                          objCompression = None\<rparr>)]"
    unfolding f2_def
    by (rule fileAdd_new) (simp_all add: xml_parts_not_empty archive_paths f0 f1)
  define f3 where
    "f3 = fileAdd f2 ''meta.xml'' (odfMetaXml (title (meta doc)) (creator (meta doc)) now) None"
  have f3: "f3 = f2 @ [(''meta.xml'',
                        \<lparr>objData = odfMetaXml (title (meta doc)) (creator (meta doc)) now,
                         objDir = False, objCompression = None\<rparr>)]"
    unfolding f3_def
    by (rule fileAdd_new) (simp_all add: xml_parts_not_empty archive_paths f0 f1 f2)
  define f4 where "f4 = fileAdd f3 ''settings.xml'' odfSettingsXml None"
  have f4: "f4 = f3 @ [(''settings.xml'', \<lparr>objData = odfSettingsXml, objDir = False,
                          objCompression = None\<rparr>)]"
    unfolding f4_def
    by (rule fileAdd_new) (simp_all add: xml_parts_not_empty archive_paths f0 f1 f2 f3)
  define f5 where "f5 = folderAdd f4 ''META-INF/''"
  have f5: "f5 = f4 @ [(''META-INF/'', \<lparr>objData = '''', objDir = True,
                          objCompression = Some STORE\<rparr>)]"
    by (simp add: f5_def folderAdd_def mapSet_absent f0 f1 f2 f3 f4)
  define f6 where "f6 = fileAdd f5 ''META-INF/manifest.xml'' odfManifestXml None"
  have "folderAdd f5 ''META-INF/'' = f5"
    by (simp add: folderAdd_def f0 f1 f2 f3 f4 f5)
  then have f6: "f6 = f5 @ [(''META-INF/manifest.xml'', \<lparr>objData = odfManifestXml,
                               objDir = False, objCompression = None\<rparr>)]"
    by (simp add: f6_def fileAdd_def archive_paths xml_parts_not_empty mapSet_absent
        f0 f1 f2 f3 f4 f5)
  have "fst (makeAndDownloadOdt doc filename now) =
          generate \<lparr>files = f6, root = ''META-INF/''\<rparr> DEFLATE"
    by (simp add: makeAndDownloadOdt_def Let_def zipFile_def zipFolder_def newJSZip_def
        archive_paths f0_def f1_def f2_def f3_def f4_def f5_def f6_def)
  then show ?thesis
    by (simp add: generate_def f0 f1 f2 f3 f4 f5 f6)
qed

text \<open>
  Claim C5, for the entries that carry data. The archive is exactly this list. Its first
  entry is \<^verbatim>\<open>mimetype\<close>, holding the media type of a text document and stored; the five
  parts follow in the order in which they are added, each deflated. Before the manifest
  stands the entry of the folder \<^verbatim>\<open>META-INF/\<close>, which \<^verbatim>\<open>zip.folder\<close> adds: it has no data
  and is stored.
\<close>

theorem archive_layout:
  "fst (makeAndDownloadOdt doc filename now) =
     [\<lparr>entryName = ''mimetype'', entryContent = ''application/vnd.oasis.opendocument.text'',
       entryIsFolder = False, entryMethod = STORE\<rparr>,
      \<lparr>entryName = ''content.xml'', entryContent = buildContentXml doc, entryIsFolder = False,
       entryMethod = DEFLATE\<rparr>,
      \<lparr>entryName = ''styles.xml'', entryContent = odfStylesXml, entryIsFolder = False,
       entryMethod = DEFLATE\<rparr>,
      \<lparr>entryName = ''meta.xml'',
       entryContent = odfMetaXml (title (meta doc)) (creator (meta doc)) now,
       entryIsFolder = False, entryMethod = DEFLATE\<rparr>,
      \<lparr>entryName = ''settings.xml'', entryContent = odfSettingsXml, entryIsFolder = False,
       entryMethod = DEFLATE\<rparr>,
      \<lparr>entryName = ''META-INF/'', entryContent = '''', entryIsFolder = True,
       entryMethod = STORE\<rparr>,
      \<lparr>entryName = ''META-INF/manifest.xml'', entryContent = odfManifestXml,
       entryIsFolder = False, entryMethod = DEFLATE\<rparr>]"
  by (rule archive_files)

theorem folder_entry_stored:
  "fst (makeAndDownloadOdt emptyDoc ''document.odt'' ''2024-01-01T00:00:00.000Z'') ! 5 =
     \<lparr>entryName = ''META-INF/'', entryContent = '''', entryIsFolder = True,
      entryMethod = STORE\<rparr>"
  by (simp add: archive_files)

section \<open>Errors of the converter\<close>

lemma digitsToNat_snoc: "digitsToNat (ds @ [c]) = 10 * digitsToNat ds + digitVal c"
  by (simp add: digitsToNat_def)

lemma digitsToNat_nines: "digitsToNat (replicate n (CHR ''9'')) = 10 ^ n - 1"
proof (induction n)
  case 0
  then show ?case by (simp add: digitsToNat_def)
next
  case (Suc n)
  obtain k where k: "(10::nat) ^ n = Suc k" by (cases "(10::nat) ^ n") auto
  have "digitsToNat (replicate (Suc n) (CHR ''9'')) =
          10 * digitsToNat (replicate n (CHR ''9'')) + digitVal (CHR ''9'')"
    unfolding replicate_Suc [of n] replicate_append_same [symmetric]
    by (rule digitsToNat_snoc)
  also have "digitVal (CHR ''9'') = 9" by (simp add: digitVal_def)
  finally show ?case using Suc k by simp
qed

lemma parseInt_digits:
  assumes "ds \<noteq> []" "list_all isDigit ds"
  shows "parseInt ds = toNumber (of_nat (digitsToNat ds))"
proof -
  obtain c cs where ds: "ds = c # cs" using assms(1) by (cases ds) auto
  with assms(2) have c: "isDigit c" by simp
  have tw: "takeWhile isDigit ds = ds" using assms(2) by (simp add: list_all_iff)
  have dw: "dropWhile isSpace ds = ds" using isDigit_hd [OF c] ds by simp
  have hd: "hd ds \<noteq> CHR ''-''" "hd ds \<noteq> CHR ''+''" using isDigit_hd [OF c] ds by simp_all
  show ?thesis
    unfolding parseInt_def using assms(1) by (simp add: dw hd tw Let_def)
qed

lemma parseInt_hugeCount: "parseInt hugeCount = PosInf"
proof -
  have "isDigit (CHR ''9'')" by (simp add: isDigit_def)
  then have "list_all isDigit hugeCount" by (simp add: hugeCount_def list_all_iff)
  moreover have "hugeCount \<noteq> []" by (simp add: hugeCount_def)
  ultimately have "parseInt hugeCount = toNumber (of_nat (digitsToNat hugeCount))"
    by (rule parseInt_digits [rotated])
  also have "digitsToNat hugeCount = 10 ^ 400 - 1"
    unfolding hugeCount_def by (rule digitsToNat_nines)
  also have "(of_nat (10 ^ 400 - 1) :: rat) = 10 ^ 400 - 1"
    by simp
  also have "toNumber (10 ^ 400 - 1) = PosInf"
  proof -
    have "(2::rat) ^ 1024 - 2 ^ 970 \<le> 10 ^ 400 - 1" by simp
    then show ?thesis by (simp only: toNumber_def if_True)
  qed
  finally show ?thesis .
qed

lemma convertTextSpace_huge: "convertTextSpace spaceNode = Inl RangeError"
proof -
  have "hugeCount \<noteq> []" by (simp add: hugeCount_def)
  then show ?thesis
    by (simp add: convertTextSpace_def spaceNode_def truthyStr_def parseInt_hugeCount orOne_def
        truthyNum_def maxOne_def repeatStr_def)
qed

lemma getResolvedProperties_undefined:
  "getResolvedProperties (OdtNode ty nm attrs txt kids JUndefined) key = Inr []"
  by (simp add: getResolvedProperties_def optGet_def andThen_def truthy_def)

lemma spaceDoc_throws: "odtJsonToHtml (Some (Some spaceDoc)) = Inl RangeError"
proof -
  have "nodeToHtml spaceNode = convertTextSpace spaceNode"
    by (simp add: spaceNode_def)
  then have s: "nodeToHtml spaceNode = Inl RangeError" by (simp add: convertTextSpace_huge)
  have "nodeToHtml (OdtNode ''element'' ''text:p'' [] None [spaceNode] JUndefined) = Inl RangeError"
    by (simp add: getResolvedProperties_undefined andThen_def s)
  then show ?thesis
    by (simp add: odtJsonToHtml_def spaceDoc_def andThen_def)
qed

lemma getResolvedProperties_returns: "\<exists>ps. getResolvedProperties node key = Inr ps"
  by (cases node)
    (auto simp: getResolvedProperties_def andThen_def optGet_def jsGet_def objectEntries_def
      truthy_def split: jv.splits option.splits)

lemma getResolvedProperties_malformed:
  assumes "\<forall>kvs. optGet (styleApplication node) ''resolvedProperties'' \<noteq> Inr (JObj kvs)"
  shows "getResolvedProperties node key = Inr []"
proof -
  have "\<exists>v. optGet (styleApplication node) ''resolvedProperties'' = Inr v"
    by (cases "styleApplication node") (simp_all add: optGet_def jsGet_def)
  then obtain v where v: "optGet (styleApplication node) ''resolvedProperties'' = Inr v" ..
  with assms have nobj: "\<forall>kvs. v \<noteq> JObj kvs" by auto
  show ?thesis
  proof (cases "truthy v")
    case False
    with v show ?thesis by (simp add: getResolvedProperties_def andThen_def)
  next
    case True
    then have "v \<noteq> JUndefined" "v \<noteq> JNull" by (auto simp: truthy_def)
    with v have "jsGet (styleApplication node) ''resolvedProperties'' = Inr v"
      by (auto simp: optGet_def split: jv.splits)
    moreover from nobj have "jsGet v key = Inl TypeError \<or> jsGet v key = Inr JUndefined"
      by (cases v) (simp_all add: jsGet_def)
    with \<open>v \<noteq> JUndefined\<close> \<open>v \<noteq> JNull\<close> have "jsGet v key = Inr JUndefined"
      by (cases v) (simp_all add: jsGet_def)
    ultimately show ?thesis
      using v True by (simp add: getResolvedProperties_def andThen_def truthy_def)
  qed
qed

lemma no_properties_no_style:
  "styleMapToAttr (combineStyles [mapParagraphProperties [], mapTextProperties []]) = ''''"
  "styleMapToAttr (combineStyles [mapTextProperties []]) = ''''"
  "styleMapToAttr (combineStyles [mapTableProperties []]) = ''''"
  "styleMapToAttr (combineStyles [mapTableColumnProperties []]) = ''''"
  "styleMapToAttr (combineStyles [mapTableRowProperties []]) = ''''"
  "styleMapToAttr (combineStyles [mapTableCellProperties [], mapTextProperties []]) = ''''"
  by code_simp+

lemma odtJsonToHtml_no_body:
  "findNodeByName content ''office:text'' = None \<Longrightarrow> odtJsonToHtml (Some (Some content)) = Inr ''''"
  by (simp add: odtJsonToHtml_def)

text \<open>
  Claim C9. A document that is missing, or whose content is missing or holds no
  \<^verbatim>\<open>office:text\<close> node, converts to the empty string. \<open>getResolvedProperties\<close> never throws,
  and gives no property when \<^verbatim>\<open>resolvedProperties\<close> is missing or is not an object; without
  properties an element gets no \<^verbatim>\<open>style\<close> attribute. The converter as a whole does throw:
  \<^verbatim>\<open>String.prototype.repeat\<close> raises a \<open>RangeError\<close> on an infinite count, which the count of
  a \<^verbatim>\<open>text:s\<close> element is when its attribute has more digits than a double can hold.
\<close>

theorem converter_errors:
  "odtJsonToHtml None = Inr '''' \<and> odtJsonToHtml (Some None) = Inr ''''
   \<and> (findNodeByName content ''office:text'' = None \<longrightarrow>
        odtJsonToHtml (Some (Some content)) = Inr '''')
   \<and> (\<exists>ps. getResolvedProperties node key = Inr ps)
   \<and> ((\<forall>kvs. optGet (styleApplication node) ''resolvedProperties'' \<noteq> Inr (JObj kvs)) \<longrightarrow>
        getResolvedProperties node key = Inr [])
   \<and> styleMapToAttr (combineStyles [mapParagraphProperties [], mapTextProperties []]) = ''''
   \<and> styleMapToAttr (combineStyles [mapTextProperties []]) = ''''
   \<and> styleMapToAttr (combineStyles [mapTableProperties []]) = ''''
   \<and> styleMapToAttr (combineStyles [mapTableColumnProperties []]) = ''''
   \<and> styleMapToAttr (combineStyles [mapTableRowProperties []]) = ''''
   \<and> styleMapToAttr (combineStyles [mapTableCellProperties [], mapTextProperties []]) = ''''"
  using odtJsonToHtml_no_body [of content] getResolvedProperties_returns [of node key]
    getResolvedProperties_malformed [of node key] no_properties_no_style
  by (simp add: odtJsonToHtml_def)

theorem converter_errors_witness:
  "odtJsonToHtml (Some (Some spaceDoc)) = Inl RangeError
   \<and> odtJsonToHtml (Some (Some bodilessDoc)) = Inr ''''
   \<and> getResolvedProperties malformedParagraph ''style:paragraph-properties'' = Inr []
   \<and> nodeToHtml malformedParagraph = Inr ''<p><br /></p>''"
proof -
  note t = converter_errors [of bodilessDoc malformedParagraph "''style:paragraph-properties''"]
  have "findNodeByName bodilessDoc ''office:text'' = None" by (simp add: bodilessDoc_def)
  with t have a: "odtJsonToHtml (Some (Some bodilessDoc)) = Inr ''''" by blast
  have "\<forall>kvs. optGet (styleApplication malformedParagraph) ''resolvedProperties'' \<noteq> Inr (JObj kvs)"
    by (simp add: malformedParagraph_def optGet_def jsGet_def)
  with t have b: "getResolvedProperties malformedParagraph ''style:paragraph-properties'' = Inr []"
    by blast
  have g: "getResolvedProperties malformedParagraph k = Inr []" for k
    by (rule getResolvedProperties_malformed)
      (simp add: malformedParagraph_def optGet_def jsGet_def)
  have c: "nodeToHtml malformedParagraph = Inr ''<p><br /></p>''"
    using g [unfolded malformedParagraph_def]
    by (simp add: malformedParagraph_def andThen_def no_properties_no_style paragraphHtml_def)
  from a b c spaceDoc_throws show ?thesis by simp
qed

section \<open>Determinism of the content\<close>





section \<open>Names of span styles\<close>

lemma digitVal_digitChar: "d < 10 \<Longrightarrow> digitVal (digitChar d) = d"
  by (simp add: digitVal_def of_char_digitChar)

lemma digitsToNat_showNat: "digitsToNat (showNat n) = n"
proof (induction n rule: showNat.induct)
  case (1 n)
  show ?case
  proof (cases "n < 10")
    case True
    then show ?thesis
      by (subst showNat.simps) (simp add: digitsToNat_def digitVal_digitChar)
  next
    case False
    have "showNat n = showNat (n div 10) @ [digitChar (n mod 10)]"
      using False by (subst showNat.simps) simp
    then show ?thesis
      using 1 [OF False] by (simp add: digitsToNat_snoc digitVal_digitChar)
  qed
qed

lemma showNat_inj: "showNat n = showNat m \<Longrightarrow> n = m"
  using digitsToNat_showNat by metis

lemma numbered_distinct: "numbered prefix names \<Longrightarrow> distinct names"
proof -
  assume "numbered prefix names"
  then have n: "names = map (\<lambda>i. prefix @ showNat (Suc i)) [0 ..< length names]"
    by (simp add: numbered_def)
  have "inj_on (\<lambda>i. prefix @ showNat (Suc i)) (set [0 ..< length names])"
    by (auto simp: inj_on_def dest: showNat_inj)
  then have "distinct (map (\<lambda>i. prefix @ showNat (Suc i)) [0 ..< length names])"
    by (simp add: distinct_map)
  with n show ?thesis by simp
qed

lemma numbered_fresh:
  "numbered prefix names \<Longrightarrow> prefix @ showNat (Suc (length names)) \<notin> set names"
  using numbered_distinct [OF numbered_snoc, of prefix names] by simp

text \<open>Two entries of a registry of a build under different keys have different names.\<close>

lemma names_differ:
  assumes "distinct (map (fst \<circ> snd) m)"
    and "map_of m k1 = Some e1" "map_of m k2 = Some e2" "k1 \<noteq> k2"
  shows "fst e1 \<noteq> fst e2"
proof -
  from assms(2,3) have "(k1, e1) \<in> set m" "(k2, e2) \<in> set m" by (auto dest: map_of_SomeD)
  then obtain i j where i: "i < length m" "m ! i = (k1, e1)" and j: "j < length m" "m ! j = (k2, e2)"
    by (auto simp: in_set_conv_nth)
  with assms(4) have "i \<noteq> j" by auto
  with assms(1) i(1) j(1) have "map (fst \<circ> snd) m ! i \<noteq> map (fst \<circ> snd) m ! j"
    by (simp add: distinct_conv_nth)
  with i j show ?thesis by simp
qed

subsection \<open>The key of a span\<close>

lemma append_sep_eq:
  assumes "c \<notin> set xs" "c \<notin> set ys" "xs @ c # r = ys @ c # r'"
  shows "xs = ys \<and> r = r'"
proof -
  have "takeWhile (\<lambda>x. x \<noteq> c) (xs @ c # r) = xs" "takeWhile (\<lambda>x. x \<noteq> c) (ys @ c # r') = ys"
    using assms(1,2) by (auto simp: takeWhile_tail)
  with assms(3) have "xs = ys" by simp
  with assms(3) show ?thesis by simp
qed

lemma keyForSpan_plain:
  "\<not> truthyStr (fontFamily sp) \<Longrightarrow>
     keyForSpan sp =
       ''ff:|'' @ (if truthyBool (bold sp) then ''b1'' else ''b0'') @ ''|'' @
       (if truthyBool (italic sp) then ''i1'' else ''i0'') @ ''|'' @
       (if truthyBool (underline sp) then ''u1'' else ''u0'') @ ''|c:'' @
       strOf (color sp) @ bar # ''f:'' @ strOf (fontSize sp)"
  by (simp add: keyForSpan_def strOf_def bar_def)

lemma keyForSpan_same:
  "\<not> truthyStr (fontFamily a) \<Longrightarrow> \<not> truthyStr (fontFamily b) \<Longrightarrow>
     formatting a = formatting b \<Longrightarrow> keyForSpan a = keyForSpan b"
  by (simp add: keyForSpan_plain formatting_def)

lemma keyForSpan_inj:
  assumes "\<not> truthyStr (fontFamily a)" "\<not> truthyStr (fontFamily b)"
    and "bar \<notin> set (strOf (color a))" "bar \<notin> set (strOf (color b))"
    and "keyForSpan a = keyForSpan b"
  shows "formatting a = formatting b"
proof -
  from assms(5) have flags:
    "truthyBool (bold a) = truthyBool (bold b)" "truthyBool (italic a) = truthyBool (italic b)"
    "truthyBool (underline a) = truthyBool (underline b)"
    and tail: "strOf (color a) @ bar # ''f:'' @ strOf (fontSize a) =
               strOf (color b) @ bar # ''f:'' @ strOf (fontSize b)"
    unfolding keyForSpan_plain [OF assms(1)] keyForSpan_plain [OF assms(2)]
    by (auto split: if_splits)
  from append_sep_eq [OF assms(3,4) tail] flags show ?thesis
    by (simp add: formatting_def)
qed

subsection \<open>Later registries\<close>

lemma take_prefix: "(take (length xs) ys = xs) = (\<exists>ext. ys = xs @ ext)"
  by (metis append_eq_conv_conj append_take_drop_id)

lemma laterRegistry_refl: "registryInv r \<Longrightarrow> laterRegistry r r"
  by (simp add: laterRegistry_def)

lemma laterRegistry_trans:
  "laterRegistry r1 r2 \<Longrightarrow> laterRegistry r2 r3 \<Longrightarrow> laterRegistry r1 r3"
  unfolding laterRegistry_def take_prefix by auto

lemma laterRegistry_lookup:
  assumes "laterRegistry r r'" "map_of (spanStyles r) k = Some e"
  shows "map_of (spanStyles r') k = Some e"
proof -
  from assms(1) obtain ext where "spanStyles r' = spanStyles r @ ext"
    unfolding laterRegistry_def take_prefix by blast
  with assms(2) show ?thesis by (simp add: map_add_Some_iff)
qed

lemma getSpanStyle_later: "registryInv reg \<Longrightarrow> laterRegistry reg (snd (getSpanStyle sp reg))"
  using getSpanStyle_inv [of reg sp]
  by (auto simp: laterRegistry_def getSpanStyle_def Let_def mapSet_absent split: option.splits)

lemma getParagraphStyle_later:
  "registryInv reg \<Longrightarrow> laterRegistry reg (snd (getParagraphStyle p reg))"
  using getParagraphStyle_inv [of reg p]
  by (auto simp: laterRegistry_def getParagraphStyle_def Let_def split: option.splits)

lemma getTableColumnStyle_later:
  "registryInv reg \<Longrightarrow> laterRegistry reg (snd (getTableColumnStyle w reg))"
  using getTableColumnStyle_inv [of reg w]
  by (auto simp: laterRegistry_def getTableColumnStyle_def Let_def split: option.splits)

lemma getTableStyle_later:
  "registryInv reg \<Longrightarrow> laterRegistry reg (snd (getTableStyle pct ws e reg))"
  using getTableStyle_inv [of reg pct ws e]
  by (auto simp: laterRegistry_def getTableStyle_def Let_def split: option.splits prod.splits)

lemma getTableCellStyle_later:
  "registryInv reg \<Longrightarrow> laterRegistry reg (snd (getTableCellStyle bg reg))"
  using getTableCellStyle_inv [of reg bg]
  by (auto simp: laterRegistry_def getTableCellStyle_def Let_def split: option.splits)

lemma laterRegistry_inv: "laterRegistry r r' \<Longrightarrow> registryInv r'"
  by (simp add: laterRegistry_def)

lemma mapState_later:
  assumes "\<And>x s. registryInv s \<Longrightarrow> laterRegistry s (snd (f x s))" and "registryInv s"
  shows "laterRegistry s (snd (mapState f xs s))"
  using assms(2)
proof (induction xs arbitrary: s)
  case Nil
  then show ?case by (simp add: laterRegistry_refl)
next
  case (Cons x xs)
  have a: "laterRegistry s (snd (f x s))" by (rule assms(1) [OF Cons.prems])
  have "laterRegistry (snd (f x s)) (snd (mapState f xs (snd (f x s))))"
    by (rule Cons.IH [OF laterRegistry_inv [OF a]])
  with a show ?case
    by (simp add: mapState_Cons laterRegistry_trans del: mapState.simps(2))
qed

lemma renderSpan_later: "registryInv reg \<Longrightarrow> laterRegistry reg (snd (renderSpan sp reg))"
  using getSpanStyle_later [of reg "mergeSpanProps sp"]
  by (auto simp: renderSpan_def Let_def laterRegistry_refl split: option.splits prod.splits)

lemma renderParagraph_later:
  assumes "registryInv reg"
  shows "laterRegistry reg (snd (renderParagraph p reg))"
proof -
  have a: "laterRegistry reg (snd (getParagraphStyle p reg))"
    by (rule getParagraphStyle_later [OF assms])
  have "laterRegistry (snd (getParagraphStyle p reg))
          (snd (mapState renderSpan (spans p) (snd (getParagraphStyle p reg))))"
    by (rule mapState_later [OF renderSpan_later laterRegistry_inv [OF a]])
  with a have "laterRegistry reg
          (snd (mapState renderSpan (spans p) (snd (getParagraphStyle p reg))))"
    by (rule laterRegistry_trans)
  with a show ?thesis
    by (auto simp: renderParagraph_def Let_def split: prod.splits)
qed

lemma renderCell_later:
  assumes "registryInv reg"
  shows "laterRegistry reg (snd (renderCell c reg))"
proof -
  let ?r1 = "snd (mapState renderParagraph (paragraphs c) reg)"
  have a: "laterRegistry reg ?r1" by (rule mapState_later [OF renderParagraph_later assms])
  have "laterRegistry ?r1 (snd (getTableCellStyle (backgroundColor c) ?r1))"
    by (rule getTableCellStyle_later [OF laterRegistry_inv [OF a]])
  with a have "laterRegistry reg (snd (getTableCellStyle (backgroundColor c) ?r1))"
    by (rule laterRegistry_trans)
  then show ?thesis
    by (auto simp: renderCell_def Let_def split: prod.splits)
qed

lemma renderRow_later:
  assumes "registryInv reg"
  shows "laterRegistry reg (snd (renderRow r reg))"
proof -
  have "laterRegistry reg (snd (mapState renderCell (cells r) reg))"
    by (rule mapState_later [OF renderCell_later assms])
  then show ?thesis
    by (auto simp: renderRow_def split: prod.splits)
qed

lemma renderColumn_later: "registryInv reg \<Longrightarrow> laterRegistry reg (snd (renderColumn t i reg))"
  using getTableColumnStyle_later [of reg "columnWidthAt t i"]
  by (auto simp: renderColumn_def Let_def split: prod.splits)

lemma renderTable_later:
  assumes "registryInv reg"
  shows "laterRegistry reg (snd (renderTable t reg))"
proof -
  let ?r1 = "snd (getTableStyle (widthPct t) (columnWidths t) (widthCm t) reg)"
  let ?r2 = "snd (renderColumns t ?r1)"
  let ?r3 = "snd (mapState renderRow (rows t) ?r2)"
  have a: "laterRegistry reg ?r1" by (rule getTableStyle_later [OF assms])
  have b: "laterRegistry ?r1 ?r2"
    unfolding renderColumns_def
    by (rule mapState_later [OF renderColumn_later laterRegistry_inv [OF a]])
  have c: "laterRegistry ?r2 ?r3"
    by (rule mapState_later [OF renderRow_later laterRegistry_inv [OF b]])
  from a b c have "laterRegistry reg ?r3" by (blast intro: laterRegistry_trans)
  then show ?thesis
    by (auto simp: renderTable_def split: prod.splits)
qed

lemma renderBlock_later: "registryInv reg \<Longrightarrow> laterRegistry reg (snd (renderBlock b reg))"
  by (cases b) (simp_all add: renderParagraph_later renderTable_later laterRegistry_refl)

subsection \<open>The names\<close>

lemma getSpanStyle_unformatted: "\<not> formatted sp \<Longrightarrow> getSpanStyle sp reg = (None, reg)"
  by (auto simp: getSpanStyle_def formatted_def Let_def)

lemma getSpanStyle_entry:
  assumes "formatted sp"
  shows "\<exists>e. fst (getSpanStyle sp reg) = Some (fst e)
             \<and> map_of (spanStyles (snd (getSpanStyle sp reg))) (keyForSpan sp) = Some e"
proof (cases "map_of (spanStyles reg) (keyForSpan sp)")
  case None
  let ?name = "''T'' @ showNat (length (spanStyles reg) + 1)"
  have "getSpanStyle sp reg =
          (Some ?name, reg\<lparr>spanStyles := spanStyles reg @ [(keyForSpan sp, (?name, sp))]\<rparr>)"
    using assms None by (auto simp: getSpanStyle_def formatted_def Let_def mapSet_absent)
  moreover have "map_of (spanStyles reg @ [(keyForSpan sp, (?name, sp))]) (keyForSpan sp) =
                   Some (?name, sp)"
    using None by (simp add: map_add_def)
  ultimately have "fst (getSpanStyle sp reg) = Some (fst (?name, sp))
      \<and> map_of (spanStyles (snd (getSpanStyle sp reg))) (keyForSpan sp) = Some (?name, sp)"
    by simp
  then show ?thesis by blast
next
  case (Some e)
  with assms have "fst (getSpanStyle sp reg) = Some (fst e)
      \<and> map_of (spanStyles (snd (getSpanStyle sp reg))) (keyForSpan sp) = Some e"
    by (auto simp: getSpanStyle_def formatted_def Let_def)
  then show ?thesis by blast
qed

lemma getSpanStyle_names:
  assumes inv: "registryInv reg" and later: "laterRegistry (snd (getSpanStyle a reg)) reg'"
    and fa: "formatted a" and fb: "formatted b"
  shows "fst (getSpanStyle a reg) \<noteq> None"
    and "keyForSpan a = keyForSpan b \<Longrightarrow> fst (getSpanStyle b reg') = fst (getSpanStyle a reg)"
    and "keyForSpan a \<noteq> keyForSpan b \<Longrightarrow> fst (getSpanStyle b reg') \<noteq> fst (getSpanStyle a reg)"
proof -
  from getSpanStyle_entry [OF fa, of reg] obtain e where
    e: "fst (getSpanStyle a reg) = Some (fst e)"
       "map_of (spanStyles (snd (getSpanStyle a reg))) (keyForSpan a) = Some e"
    by blast
  from laterRegistry_lookup [OF later e(2)]
  have look: "map_of (spanStyles reg') (keyForSpan a) = Some e" .
  from later have inv': "registryInv reg'" by (rule laterRegistry_inv)
  then have num: "numbered ''T'' (map (fst \<circ> snd) (spanStyles reg'))"
    by (simp add: registryInv_def)
  show "fst (getSpanStyle a reg) \<noteq> None" using e(1) by simp
  show "fst (getSpanStyle b reg') = fst (getSpanStyle a reg)" if "keyForSpan a = keyForSpan b"
    using that look e(1) fb by (simp add: getSpanStyle_def formatted_def Let_def)
  show "fst (getSpanStyle b reg') \<noteq> fst (getSpanStyle a reg)" if k: "keyForSpan a \<noteq> keyForSpan b"
  proof (cases "map_of (spanStyles reg') (keyForSpan b)")
    case None
    let ?new = "''T'' @ showNat (Suc (length (spanStyles reg')))"
    from None have b: "fst (getSpanStyle b reg') = Some ?new"
      using fb by (simp add: getSpanStyle_def formatted_def Let_def)
    have old: "fst e \<in> set (map (fst \<circ> snd) (spanStyles reg'))"
      by (rule map_of_name_in [OF look])
    have "?new \<notin> set (map (fst \<circ> snd) (spanStyles reg'))"
      using numbered_fresh [OF num] by simp
    with old have "fst e \<noteq> ?new" by metis
    with b e(1) show ?thesis by simp
  next
    case (Some e')
    then have "fst (getSpanStyle b reg') = Some (fst e')"
      using fb by (simp add: getSpanStyle_def formatted_def Let_def)
    moreover have "fst e \<noteq> fst e'"
      by (rule names_differ [OF numbered_distinct [OF num] look Some k])
    ultimately show ?thesis using e(1) by simp
  qed
qed

text \<open>
  Claim C3, for the spans the registry names. Let a span \<open>a\<close> be handed to a registry of a
  build and a span \<open>b\<close> to a later registry of the build, both formatted (no font family,
  and at least one flag set or one of colour and font size not empty). Then \<open>a\<close> gets a
  generated name; \<open>b\<close> gets the same name when the two have the same formatting, and
  another name when they differ and no colour holds the separator \<^verbatim>\<open>|\<close> of the key. A span
  that is not formatted gets no name and leaves the registry as it is. The registries of
  a build are later ones of each other in the order of the calls: each call of
  \<open>getSpanStyle\<close> and each rendering of a block gives a later registry.
\<close>

theorem span_style_names:
  "(registryInv reg \<and> laterRegistry (snd (getSpanStyle a reg)) reg' \<and> formatted a \<and> formatted b
      \<longrightarrow>
      fst (getSpanStyle a reg) \<noteq> None
      \<and> (formatting a = formatting b \<longrightarrow>
           fst (getSpanStyle b reg') = fst (getSpanStyle a reg))
      \<and> (formatting a \<noteq> formatting b
           \<and> bar \<notin> set (strOf (color a)) \<and> bar \<notin> set (strOf (color b)) \<longrightarrow>
           fst (getSpanStyle b reg') \<noteq> fst (getSpanStyle a reg)))
   \<and> (\<not> formatted a \<longrightarrow> getSpanStyle a reg = (None, reg))
   \<and> (registryInv reg \<longrightarrow> laterRegistry reg (snd (getSpanStyle a reg)))
   \<and> (registryInv reg \<longrightarrow> laterRegistry reg (snd (renderBlock blk reg)))
   \<and> (laterRegistry r1 r2 \<and> laterRegistry r2 r3 \<longrightarrow> laterRegistry r1 r3)"
proof -
  have "fst (getSpanStyle a reg) \<noteq> None
        \<and> (formatting a = formatting b \<longrightarrow>
             fst (getSpanStyle b reg') = fst (getSpanStyle a reg))
        \<and> (formatting a \<noteq> formatting b
             \<and> bar \<notin> set (strOf (color a)) \<and> bar \<notin> set (strOf (color b)) \<longrightarrow>
             fst (getSpanStyle b reg') \<noteq> fst (getSpanStyle a reg))"
    if h: "registryInv reg" "laterRegistry (snd (getSpanStyle a reg)) reg'" "formatted a"
      "formatted b"
  proof -
    from h(3,4) have nf: "\<not> truthyStr (fontFamily a)" "\<not> truthyStr (fontFamily b)"
      by (simp_all add: formatted_def)
    note n = getSpanStyle_names [OF h]
    have "fst (getSpanStyle b reg') = fst (getSpanStyle a reg)" if "formatting a = formatting b"
      by (rule n(2) [OF keyForSpan_same [OF nf that]])
    moreover have "fst (getSpanStyle b reg') \<noteq> fst (getSpanStyle a reg)"
      if "formatting a \<noteq> formatting b" "bar \<notin> set (strOf (color a))"
        "bar \<notin> set (strOf (color b))"
      using n(3) keyForSpan_inj [OF nf that(2,3)] that(1) by blast
    ultimately show ?thesis using n(1) by blast
  qed
  then show ?thesis
    using getSpanStyle_unformatted [of a reg] getSpanStyle_later [of reg a]
      renderBlock_later [of reg blk] laterRegistry_trans [of r1 r2 r3]
    by blast
qed

theorem span_style_names_witness:
  "fst (getSpanStyle ((plainSpan ''a'')\<lparr>bold := Some True\<rparr>) newStyleRegistry) = Some ''T1''
   \<and> fst (getSpanStyle ((plainSpan ''b'')\<lparr>bold := Some True, italic := Some False\<rparr>)
            (snd (getSpanStyle ((plainSpan ''a'')\<lparr>bold := Some True\<rparr>) newStyleRegistry))) =
       fst (getSpanStyle ((plainSpan ''a'')\<lparr>bold := Some True\<rparr>) newStyleRegistry)
   \<and> fst (getSpanStyle ((plainSpan ''c'')\<lparr>color := Some ''#ff0000''\<rparr>)
            (snd (getSpanStyle ((plainSpan ''a'')\<lparr>bold := Some True\<rparr>) newStyleRegistry))) \<noteq>
       fst (getSpanStyle ((plainSpan ''a'')\<lparr>bold := Some True\<rparr>) newStyleRegistry)
   \<and> getSpanStyle (plainSpan ''d'') newStyleRegistry = (None, newStyleRegistry)"
proof -
  let ?a = "(plainSpan ''a'')\<lparr>bold := Some True\<rparr>"
  let ?b = "(plainSpan ''b'')\<lparr>bold := Some True, italic := Some False\<rparr>"
  let ?c = "(plainSpan ''c'')\<lparr>color := Some ''#ff0000''\<rparr>"
  let ?r = "snd (getSpanStyle ?a newStyleRegistry)"
  have inv: "registryInv newStyleRegistry" by (rule registryInv_new)
  have later: "laterRegistry ?r ?r"
    using span_style_names [of newStyleRegistry ?a ?r ?a] inv
    by (simp add: laterRegistry_def)
  have f: "formatted ?a" "formatted ?b" "formatted ?c" "\<not> formatted (plainSpan ''d'')"
    by (simp_all add: formatted_def plainSpan_def truthyStr_def truthyBool_def)
  have fm: "formatting ?a = formatting ?b" "formatting ?a \<noteq> formatting ?c"
    "bar \<notin> set (strOf (color ?a))" "bar \<notin> set (strOf (color ?c))"
    by (simp_all add: formatting_def plainSpan_def truthyStr_def truthyBool_def strOf_def bar_def)
  have one: "fst (getSpanStyle ?a newStyleRegistry) = Some ''T1''" by code_simp
  from span_style_names [of newStyleRegistry ?a ?r ?b] inv later f(1,2) fm(1)
  have two: "fst (getSpanStyle ?b ?r) = fst (getSpanStyle ?a newStyleRegistry)" by blast
  from span_style_names [of newStyleRegistry ?a ?r ?c] inv later f(1,3) fm(2-4)
  have three: "fst (getSpanStyle ?c ?r) \<noteq> fst (getSpanStyle ?a newStyleRegistry)" by blast
  from span_style_names [of newStyleRegistry "plainSpan ''d''"] f(4)
  have four: "getSpanStyle (plainSpan ''d'') newStyleRegistry = (None, newStyleRegistry)" by blast
  from one two three four show ?thesis by blast
qed

theorem font_family_spans_share_name:
  "fst (getSpanStyle serifBold newStyleRegistry) = None
   \<and> fst (getSpanStyle serifBoldItalic newStyleRegistry) = None
   \<and> italic serifBold \<noteq> italic serifBoldItalic
   \<and> concat (fst (renderSpan serifBold newStyleRegistry)) =
       ''<text:span text:style-name='' @ [dquote] @ ''T_Serif'' @ [dquote] @ ''>x</text:span>''
   \<and> concat (fst (renderSpan serifBoldItalic newStyleRegistry)) =
       ''<text:span text:style-name='' @ [dquote] @ ''T_Serif'' @ [dquote] @ ''>y</text:span>''
   \<and> spanStyles (snd (renderSpan serifBoldItalic
        (snd (renderSpan serifBold newStyleRegistry)))) = []"
proof -
  have "fst (getSpanStyle serifBold newStyleRegistry) = None"
    "fst (getSpanStyle serifBoldItalic newStyleRegistry) = None"
    "italic serifBold \<noteq> italic serifBoldItalic"
    "concat (fst (renderSpan serifBold newStyleRegistry)) =
       ''<text:span text:style-name='' @ [dquote] @ ''T_Serif'' @ [dquote] @ ''>x</text:span>''"
    "concat (fst (renderSpan serifBoldItalic newStyleRegistry)) =
       ''<text:span text:style-name='' @ [dquote] @ ''T_Serif'' @ [dquote] @ ''>y</text:span>''"
    "spanStyles (snd (renderSpan serifBoldItalic
        (snd (renderSpan serifBold newStyleRegistry)))) = []"
    by code_simp+
  then show ?thesis by simp
qed

end
